theory Spec2Isabelle
  imports Complex_Main
begin

section \<open>Data model\<close>

text \<open>
  \<^verbatim>\<open>Concept = namedtuple("Concept", "extent intent")\<close> (formal_concept_analysis.py);
  recommenders/common.py imports it as \<^verbatim>\<open>Bicluster\<close>. Both fields are one-dimensional
  \<^verbatim>\<open>np.int64\<close> arrays of row and column indices. Indices are never negative, so an
  index is a \<open>nat\<close> and an index array is a \<open>nat list\<close>.
\<close>

record concept =
  extent :: "nat list"
  intent :: "nat list"

text \<open>The exceptions the modelled code can raise.\<close>

datatype error =
    AssertionError
  | ZeroDivisionError
  | KeyError
  | TypeError
  | IndexError
  | AttributeError
  | ValueError
  | PredictionImpossible string

section \<open>numpy set routines\<close>

text \<open>
  \<^verbatim>\<open>np.union1d(a, b)\<close>: the sorted array of the distinct values that are in either input.
  \<^verbatim>\<open>np.intersect1d(a, b)\<close>: the sorted array of the distinct values that are in both.
\<close>

definition union1d :: "nat list \<Rightarrow> nat list \<Rightarrow> nat list" where
  "union1d a b = sort (remdups (a @ b))"

definition intersect1d :: "nat list \<Rightarrow> nat list \<Rightarrow> nat list" where
  "intersect1d a b = sort (remdups (filter (\<lambda>x. x \<in> set b) a))"

section \<open>recommenders/common.py: user--pattern similarity\<close>

text \<open>
  \<^verbatim>\<open>user_pattern_similarity(user, pattern)\<close>: the size of the intersection is taken first,
  then the guard on an empty intent, then the true division of the two sizes. Both sizes
  are integers and the quotient of two integers is modelled as a real number.
\<close>

definition user_pattern_similarity :: "nat list \<Rightarrow> concept \<Rightarrow> real" where
  "user_pattern_similarity user pattern =
     (let number_of_itens_from_pattern_in_user = length (intersect1d user (intent pattern))
      in if length (intent pattern) = 0 then 0
         else real number_of_itens_from_pattern_in_user / real (length (intent pattern)))"

definition weight_frequency :: "nat list \<Rightarrow> concept \<Rightarrow> real" where
  "weight_frequency user pattern =
     (let number_of_users_in_pattern = length (extent pattern)
      in real number_of_users_in_pattern * user_pattern_similarity user pattern)"

definition double_weight_frequency :: "nat list \<Rightarrow> concept \<Rightarrow> real" where
  "double_weight_frequency user pattern =
     (let number_of_users_in_pattern = length (extent pattern);
          number_of_items_in_pattern = length (intent pattern)
      in real number_of_users_in_pattern * real number_of_items_in_pattern
           * user_pattern_similarity user pattern)"

section \<open>Merging biclusters\<close>

text \<open>
  recommenders/common.py, \<^verbatim>\<open>merge_biclusters\<close>. The body has no assertion: it starts from
  two empty arrays and folds \<^verbatim>\<open>np.union1d\<close> over the list. \<open>merge_biclusters_py_func\<close> is
  that body.
\<close>

fun merge_loop :: "concept list \<Rightarrow> nat list \<Rightarrow> nat list \<Rightarrow> concept" where
  "merge_loop [] new_bicluster_extent new_bicluster_intent =
     \<lparr>extent = new_bicluster_extent, intent = new_bicluster_intent\<rparr>"
| "merge_loop (bicluster # biclusters) new_bicluster_extent new_bicluster_intent =
     merge_loop biclusters
       (union1d new_bicluster_extent (extent bicluster))
       (union1d new_bicluster_intent (intent bicluster))"

definition merge_biclusters_py_func :: "concept list \<Rightarrow> concept" where
  "merge_biclusters_py_func biclusters = merge_loop biclusters [] []"

text \<open>
  The function is decorated with \<^verbatim>\<open>@nb.njit()\<close> and its callers pass a Python list
  (\<^verbatim>\<open>biclusters: List[Bicluster]\<close>). numba compiles the body for the type of the argument,
  which it reads off the first element of the list: an empty Python list has no type and
  the call raises \<^verbatim>\<open>ValueError\<close> before the body runs. (An empty \<^verbatim>\<open>numba.typed.List\<close>
  carries its type and would reach the body; no caller in the repository passes one.)
\<close>

definition merge_biclusters :: "concept list \<Rightarrow> error + concept" where
  "merge_biclusters biclusters =
     (if biclusters = [] then Inl ValueError
      else Inr (merge_biclusters_py_func biclusters))"

text \<open>
  recommenders/knn_based_recommenders.py, \<^verbatim>\<open>merge_biclusters\<close>: plain Python, the same
  loop behind three assertions (the \<^verbatim>\<open>isinstance\<close> one holds by typing): the list is not
  empty, and no bicluster has an empty extent or an empty intent.
\<close>

definition knn_merge_biclusters :: "concept list \<Rightarrow> error + concept" where
  "knn_merge_biclusters biclusters =
     (if \<not> length biclusters > 0 then Inl AssertionError
      else if \<not> list_all (\<lambda>bicluster. length (extent bicluster) > 0) biclusters
        then Inl AssertionError
      else if \<not> list_all (\<lambda>bicluster. length (intent bicluster) > 0) biclusters
        then Inl AssertionError
      else Inr (merge_loop biclusters [] []))"

section \<open>Floating-point values\<close>

text \<open>
  A \<^verbatim>\<open>np.float64\<close> is a binary64 number of IEEE 754: a finite number, one of the two
  infinities, or NaN. A finite value is modelled by the real number it denotes. Every
  arithmetic operation returns the exact result rounded to the nearest binary64 number,
  ties to the even significand, and an infinity when the rounded result is beyond the
  largest number; this is the one rounding mode numpy and numba use. No operation raises:
  a division by zero yields an infinity or NaN. The sign of zero is outside the model
  (a zero divisor is taken as \<open>+0\<close>).
\<close>

datatype float64 = NaN | PInf | NInf | Fin real

fun isnan :: "float64 \<Rightarrow> bool" where
  "isnan NaN = True"
| "isnan _ = False"

fun isinf :: "float64 \<Rightarrow> bool" where
  "isinf PInf = True"
| "isinf NInf = True"
| "isinf _ = False"

fun is_fin :: "float64 \<Rightarrow> bool" where
  "is_fin (Fin a) = True"
| "is_fin _ = False"

fun fval :: "float64 \<Rightarrow> real" where
  "fval (Fin a) = a"
| "fval _ = 0"

text \<open>
  The largest binary64 number is \<open>(2^53 - 1) * 2^971\<close>. Around a real \<open>x\<close> the binary64
  numbers are the multiples of \<open>ulp64 x\<close>: a significand of 53 bits at the binary exponent
  of \<open>x\<close>, which is not below \<open>-1022\<close> (the subnormal numbers share the smallest exponent).
  \<open>round64\<close> is the rounding of a real to binary64.
\<close>

definition float64_max :: real where
  "float64_max = (2 ^ 53 - 1) * 2 ^ 971"

definition round_half_even :: "real \<Rightarrow> int" where
  "round_half_even y =
     (let n = \<lfloor>y\<rfloor>; d = y - of_int n
      in if d < 1 / 2 then n else if 1 / 2 < d then n + 1 else if even n then n else n + 1)"

definition ulp64 :: "real \<Rightarrow> real" where
  "ulp64 x = 2 powr of_int (max \<lfloor>log 2 \<bar>x\<bar>\<rfloor> (- 1022) - 52)"

definition round64 :: "real \<Rightarrow> float64" where
  "round64 x =
     (if x = 0 then Fin 0
      else let r = of_int (round_half_even (x / ulp64 x)) * ulp64 x
           in if float64_max < \<bar>r\<bar> then (if 0 < x then PInf else NInf) else Fin r)"

fun fneg :: "float64 \<Rightarrow> float64" where
  "fneg NaN = NaN"
| "fneg PInf = NInf"
| "fneg NInf = PInf"
| "fneg (Fin a) = Fin (- a)"

fun fadd :: "float64 \<Rightarrow> float64 \<Rightarrow> float64" where
  "fadd (Fin a) (Fin b) = round64 (a + b)"
| "fadd NaN _ = NaN"
| "fadd _ NaN = NaN"
| "fadd PInf NInf = NaN"
| "fadd NInf PInf = NaN"
| "fadd PInf _ = PInf"
| "fadd _ PInf = PInf"
| "fadd NInf _ = NInf"
| "fadd _ NInf = NInf"

definition fsub :: "float64 \<Rightarrow> float64 \<Rightarrow> float64" where
  "fsub a b = fadd a (fneg b)"

text \<open>The infinity with the sign of a non-zero real; NaN for zero.\<close>

definition signed_inf :: "real \<Rightarrow> float64" where
  "signed_inf s = (if s = 0 then NaN else if s > 0 then PInf else NInf)"

fun fmul :: "float64 \<Rightarrow> float64 \<Rightarrow> float64" where
  "fmul (Fin a) (Fin b) = round64 (a * b)"
| "fmul NaN _ = NaN"
| "fmul _ NaN = NaN"
| "fmul PInf (Fin b) = signed_inf b"
| "fmul NInf (Fin b) = signed_inf (- b)"
| "fmul (Fin a) PInf = signed_inf a"
| "fmul (Fin a) NInf = signed_inf (- a)"
| "fmul PInf PInf = PInf"
| "fmul NInf NInf = PInf"
| "fmul PInf NInf = NInf"
| "fmul NInf PInf = NInf"

text \<open>
  \<^verbatim>\<open>np.float64.__truediv__\<close>: a finite value over zero is an infinity (NaN for 0/0), with a
  warning and without an exception.
\<close>

fun fdiv :: "float64 \<Rightarrow> float64 \<Rightarrow> float64" where
  "fdiv (Fin a) (Fin b) = (if b = 0 then signed_inf a else round64 (a / b))"
| "fdiv NaN _ = NaN"
| "fdiv _ NaN = NaN"
| "fdiv (Fin a) PInf = Fin 0"
| "fdiv (Fin a) NInf = Fin 0"
| "fdiv PInf (Fin b) = (if b < 0 then NInf else PInf)"
| "fdiv NInf (Fin b) = (if b < 0 then PInf else NInf)"
| "fdiv _ _ = NaN"

fun fsqrt :: "float64 \<Rightarrow> float64" where
  "fsqrt (Fin a) = (if a < 0 then NaN else round64 (sqrt a))"
| "fsqrt PInf = PInf"
| "fsqrt _ = NaN"

text \<open>\<open>fgt a b\<close> is \<^verbatim>\<open>a > b\<close>: false whenever an operand is NaN.\<close>

fun fgt :: "float64 \<Rightarrow> float64 \<Rightarrow> bool" where
  "fgt (Fin a) (Fin b) = (a > b)"
| "fgt NaN _ = False"
| "fgt _ NaN = False"
| "fgt PInf PInf = False"
| "fgt PInf _ = True"
| "fgt _ PInf = False"
| "fgt NInf _ = False"
| "fgt _ NInf = True"

text \<open>The built-in \<^verbatim>\<open>max(a, b)\<close> keeps its first argument unless the second is greater.\<close>

definition py_max :: "float64 \<Rightarrow> float64 \<Rightarrow> float64" where
  "py_max a b = (if fgt b a then b else a)"

text \<open>
  The default \<^verbatim>\<open>eps = 1e-08\<close> of the similarity functions: the literal denotes the binary64
  number nearest to \<open>1 / 10^8\<close>, which is \<open>3022314549036573 / 2^78\<close>.
\<close>

definition default_eps :: float64 where
  "default_eps = round64 (1 / 10 ^ 8)"

section \<open>recommenders/common.py: similarity between two vectors\<close>

text \<open>
  \<^verbatim>\<open>np.nonzero(~np.isnan(u))[0]\<close>: the ascending positions of the entries that are not NaN.
  \<open>take_idx u idx\<close> is the fancy indexing \<^verbatim>\<open>u[idx]\<close>, \<open>dot\<close> is \<^verbatim>\<open>np.dot\<close> on two vectors of
  the same size. The products are accumulated from the left; the order in which the
  linear-algebra kernel behind \<^verbatim>\<open>np.dot\<close> adds them is not fixed by the source, and the
  last bits of a sum depend on it.
\<close>

definition not_null :: "float64 list \<Rightarrow> nat list" where
  "not_null u = filter (\<lambda>k. \<not> isnan (u ! k)) [0..<length u]"

definition take_idx :: "'a list \<Rightarrow> nat list \<Rightarrow> 'a list" where
  "take_idx u idx = map (\<lambda>k. u ! k) idx"

definition dot :: "float64 list \<Rightarrow> float64 list \<Rightarrow> float64" where
  "dot u v = foldl fadd (Fin 0) (map2 fmul u v)"

text \<open>
  The tail shared by the three similarity functions, from the two restricted (and, for
  two of them, centred) vectors on.
\<close>

definition similarity_ratio :: "float64 list \<Rightarrow> float64 list \<Rightarrow> float64 \<Rightarrow> float64" where
  "similarity_ratio common_u common_v eps =
     (let numerator = dot common_u common_v;
          uu = dot common_u common_u;
          vv = dot common_v common_v;
          denominator = py_max (fsqrt (fmul uu vv)) eps
      in fdiv numerator denominator)"

definition cosine_similarity ::
  "float64 list list \<Rightarrow> nat \<Rightarrow> nat \<Rightarrow> float64 list \<Rightarrow> float64 \<Rightarrow> float64" where
  "cosine_similarity dataset u_id v_id means eps =
     (let u = dataset ! u_id;
          v = dataset ! v_id;
          common_indices_in_uv = intersect1d (not_null u) (not_null v)
      in if length common_indices_in_uv = 0 then NaN
         else let common_u = take_idx u common_indices_in_uv;
                  common_v = take_idx v common_indices_in_uv
              in similarity_ratio common_u common_v eps)"

definition pearson_similarity ::
  "float64 list list \<Rightarrow> nat \<Rightarrow> nat \<Rightarrow> float64 list \<Rightarrow> float64 \<Rightarrow> float64" where
  "pearson_similarity dataset u_id v_id means eps =
     (let u = dataset ! u_id;
          v = dataset ! v_id;
          mean_u = means ! u_id;
          mean_v = means ! v_id;
          common_indices_in_uv = intersect1d (not_null u) (not_null v)
      in if length common_indices_in_uv = 0 then NaN
         else let common_u = map (\<lambda>x. fsub x mean_u) (take_idx u common_indices_in_uv);
                  common_v = map (\<lambda>x. fsub x mean_v) (take_idx v common_indices_in_uv)
              in similarity_ratio common_u common_v eps)"

definition adjusted_cosine_similarity ::
  "float64 list list \<Rightarrow> nat \<Rightarrow> nat \<Rightarrow> float64 list \<Rightarrow> float64 \<Rightarrow> float64" where
  "adjusted_cosine_similarity dataset i_id j_id means eps =
     (let i = dataset ! i_id;
          j = dataset ! j_id;
          common_indices_in_ij = intersect1d (not_null i) (not_null j)
      in if length common_indices_in_ij = 0 then NaN
         else let common_i = map2 fsub (take_idx i common_indices_in_ij)
                                       (take_idx means common_indices_in_ij);
                  common_j = map2 fsub (take_idx j common_indices_in_ij)
                                       (take_idx means common_indices_in_ij)
              in similarity_ratio common_i common_j eps)"

section \<open>recommenders/common.py: the similarity cache\<close>

text \<open>
  A similarity strategy is one of the three functions above at the default \<open>eps\<close>, or any
  function with their signature. The cache is a square matrix in which NaN marks an
  entry that is not computed yet; \<open>None\<close> is the default argument
  \<^verbatim>\<open>similarity_matrix=None\<close>. \<open>set2 m i j v\<close> is the assignment \<^verbatim>\<open>m[i, j] = v\<close>.

  \<^verbatim>\<open>get_similarity\<close> mutates the cache in place and may call the strategy. The model
  returns the similarity together with the cache after the call and the list of the
  index pairs on which the strategy was invoked, in order.
\<close>

type_synonym strategy = "float64 list list \<Rightarrow> nat \<Rightarrow> nat \<Rightarrow> float64 list \<Rightarrow> float64"

definition set2 :: "'a list list \<Rightarrow> nat \<Rightarrow> nat \<Rightarrow> 'a \<Rightarrow> 'a list list" where
  "set2 m i j v = m[i := (m ! i)[j := v]]"

definition get_similarity ::
  "nat \<Rightarrow> nat \<Rightarrow> float64 list list \<Rightarrow> float64 list \<Rightarrow> float64 list list option \<Rightarrow> strategy
   \<Rightarrow> (nat \<times> nat) list \<Rightarrow> float64 \<times> float64 list list option \<times> (nat \<times> nat) list" where
  "get_similarity i j dataset means similarity_matrix similarity_strategy calls =
     (if similarity_matrix \<noteq> None \<and> \<not> isnan (the similarity_matrix ! i ! j)
      then (the similarity_matrix ! i ! j, similarity_matrix, calls)
      else
        let (similarity, calls') =
              (if i = j then (Fin 1, calls)
               else (similarity_strategy dataset i j means, calls @ [(i, j)]));
            similarity_matrix' =
              (case similarity_matrix of
                 None \<Rightarrow> None
               | Some m \<Rightarrow> Some (set2 (set2 m i j similarity) j i similarity))
        in (similarity, similarity_matrix', calls'))"

text \<open>
  \<^verbatim>\<open>get_similarity_matrix\<close>: a matrix of NaN, then \<^verbatim>\<open>get_similarity\<close> for every pair
  \<open>j \<ge> i\<close>, row by row.
\<close>

definition get_similarity_matrix_step ::
  "float64 list list \<Rightarrow> float64 list \<Rightarrow> strategy \<Rightarrow> nat \<Rightarrow> nat
   \<Rightarrow> float64 list list \<times> (nat \<times> nat) list \<Rightarrow> float64 list list \<times> (nat \<times> nat) list" where
  "get_similarity_matrix_step dataset means similarity_strategy i j st =
     (if j \<ge> i then
        (case get_similarity i j dataset means (Some (fst st)) similarity_strategy (snd st) of
           (_, Some m, calls) \<Rightarrow> (m, calls)
         | (_, None, calls) \<Rightarrow> (fst st, calls))
      else st)"

definition get_similarity_matrix_calls ::
  "float64 list list \<Rightarrow> float64 list \<Rightarrow> strategy \<Rightarrow> float64 list list \<times> (nat \<times> nat) list" where
  "get_similarity_matrix_calls dataset means similarity_strategy =
     (let n = length dataset;
          similarity_matrix = replicate n (replicate n NaN)
      in fold (\<lambda>i. fold (get_similarity_matrix_step dataset means similarity_strategy i) [0..<n])
              [0..<n] (similarity_matrix, []))"

definition get_similarity_matrix ::
  "float64 list list \<Rightarrow> float64 list \<Rightarrow> strategy \<Rightarrow> float64 list list" where
  "get_similarity_matrix dataset means similarity_strategy =
     fst (get_similarity_matrix_calls dataset means similarity_strategy)"

section \<open>recommenders/common.py: neighbourhood helpers\<close>

text \<open>\<open>fge a b\<close> is \<^verbatim>\<open>a >= b\<close>: false whenever an operand is NaN.\<close>

definition fge :: "float64 \<Rightarrow> float64 \<Rightarrow> bool" where
  "fge a b = (fgt a b \<or> (\<not> isnan a \<and> a = b))"

definition get_indices_above_threshold :: "float64 list \<Rightarrow> float64 \<Rightarrow> nat list" where
  "get_indices_above_threshold a_subset binarization_threshold =
     filter (\<lambda>k. fge (a_subset ! k) binarization_threshold) [0..<length a_subset]"

text \<open>A Python slice \<^verbatim>\<open>xs[-k:]\<close> for \<open>k \<ge> 0\<close>: the last \<open>k\<close> elements, and all of them for \<open>k = 0\<close>.\<close>

definition py_last :: "nat \<Rightarrow> 'a list \<Rightarrow> 'a list" where
  "py_last k xs = (if k = 0 then xs else drop (length xs - k) xs)"

text \<open>
  \<^verbatim>\<open>get_top_k_biclusters_for_user\<close>: the biclusters with a positive similarity, sorted by
  ascending similarity and cut to the last \<open>k\<close>. Biclusters of equal similarity keep their
  order here; the \<^verbatim>\<open>sorted\<close> that numba compiles does not promise that on long lists, so
  the order among equal similarities is not fixed by the source. The function is
  compiled by numba too; its callers hand it a list that is not empty, or are modelled
  with the refusal of the empty list.
\<close>

definition get_top_k_biclusters_for_user ::
  "concept list \<Rightarrow> nat list \<Rightarrow> nat \<Rightarrow> (nat list \<Rightarrow> concept \<Rightarrow> real) \<Rightarrow> concept list" where
  "get_top_k_biclusters_for_user biclusters user_as_tidset number_of_top_k_patterns
       similarity_strategy =
     (let similar_biclusters =
            filter (\<lambda>bicluster. similarity_strategy user_as_tidset bicluster > 0) biclusters;
          similarities = map (similarity_strategy user_as_tidset) similar_biclusters;
          sorted_similarities_indexes =
            sort_key (\<lambda>x. similarities ! x) [0..<length similarities];
          sorted_similar_patterns = map (\<lambda>i. similar_biclusters ! i) sorted_similarities_indexes
      in py_last number_of_top_k_patterns sorted_similar_patterns)"

section \<open>The training set\<close>

text \<open>
  The \<^verbatim>\<open>Trainset\<close> of the Surprise library, as far as the recommenders read it: the
  ratings of every user (\<^verbatim>\<open>ur\<close>: inner user id to a list of item and rating) and of every
  item (\<^verbatim>\<open>ir\<close>), and the two counts. \<^verbatim>\<open>knows_user(uid)\<close> is \<^verbatim>\<open>uid in self.ur\<close>.
\<close>

record trainset =
  ur :: "(nat \<times> (nat \<times> real) list) list"
  ir :: "(nat \<times> (nat \<times> real) list) list"
  n_users :: nat
  n_items :: nat

definition knows_user :: "trainset \<Rightarrow> nat \<Rightarrow> bool" where
  "knows_user ts uid = (map_of (ur ts) uid \<noteq> None)"

definition knows_item :: "trainset \<Rightarrow> nat \<Rightarrow> bool" where
  "knows_item ts iid = (map_of (ir ts) iid \<noteq> None)"

text \<open>
  Modelled from the spec: \<^verbatim>\<open>convert_trainset_to_matrix\<close> (dataset/common.py is not part of
  the sources). It yields the dense ratings matrix, users by items, holding the observed
  rating of a pair and NaN where the pair has no rating.
\<close>

definition convert_trainset_to_matrix :: "trainset \<Rightarrow> float64 list list" where
  "convert_trainset_to_matrix ts =
     map (\<lambda>u. map (\<lambda>i. case map_of (ur ts) u of
                           None \<Rightarrow> NaN
                         | Some ratings \<Rightarrow> (case map_of ratings i of None \<Rightarrow> NaN | Some r \<Rightarrow> Fin r))
                  [0..<n_items ts])
         [0..<n_users ts]"

text \<open>
  \<^verbatim>\<open>np.mean\<close> of a list of ratings: the sum of the values over their number, both in
  binary64; NaN (with a warning) for the empty list. The values are added from the left,
  as numpy does for fewer than eight of them.
\<close>

definition np_mean :: "real list \<Rightarrow> float64" where
  "np_mean rs =
     (if rs = [] then NaN
      else fdiv (foldl fadd (Fin 0) (map Fin rs)) (Fin (real (length rs))))"

text \<open>
  The loop of \<^verbatim>\<open>_calculate_means\<close> over one of the two rating maps: an array of NaN in which
  every id of the map receives the mean of its ratings. The ids of a training set are
  below the size of the array.
\<close>

definition calculate_means :: "nat \<Rightarrow> (nat \<times> (nat \<times> real) list) list \<Rightarrow> float64 list" where
  "calculate_means n ratings_map =
     fold (\<lambda>(ratings_id, ratings) means. means[ratings_id := np_mean (map snd ratings)])
          ratings_map (replicate n NaN)"

section \<open>Matrices\<close>

text \<open>
  A two-dimensional array is the list of its rows. \<open>ncols\<close> is \<^verbatim>\<open>shape[1]\<close>,
  \<open>transposed\<close> is \<^verbatim>\<open>.T\<close>, \<open>submatrix_of m rows cols\<close> is \<^verbatim>\<open>m[rows][:, cols]\<close> and
  \<open>column m c\<close> is \<^verbatim>\<open>m[:, c]\<close>.
\<close>

definition ncols :: "'a list list \<Rightarrow> nat" where
  "ncols m = (case m of [] \<Rightarrow> 0 | row # _ \<Rightarrow> length row)"

definition transposed :: "'a list list \<Rightarrow> 'a list list" where
  "transposed m = map (\<lambda>c. map (\<lambda>row. row ! c) m) [0..<ncols m]"

definition submatrix_of :: "'a list list \<Rightarrow> nat list \<Rightarrow> nat list \<Rightarrow> 'a list list" where
  "submatrix_of m rows cols = map (\<lambda>r. take_idx (m ! r) cols) rows"

definition column :: "'a list list \<Rightarrow> nat \<Rightarrow> 'a list" where
  "column m c = map (\<lambda>row. row ! c) m"

text \<open>\<^verbatim>\<open>np.nonzero(xs == x)[0][0]\<close>: the first position of \<open>x\<close> in \<open>xs\<close>.\<close>

definition first_index :: "nat list \<Rightarrow> nat \<Rightarrow> nat" where
  "first_index xs x = length (takeWhile (\<lambda>y. y \<noteq> x) xs)"

text \<open>\<^verbatim>\<open>xs[mask]\<close> for a boolean mask of the size of \<open>xs\<close>.\<close>

definition masked :: "'a list \<Rightarrow> bool list \<Rightarrow> 'a list" where
  "masked xs validity_mask = map fst (filter snd (zip xs validity_mask))"

text \<open>
  \<^verbatim>\<open>np.argsort\<close>: the positions in ascending order of their values, NaN last. The order
  numpy gives to equal values is not specified (its default sort is not stable); here
  they keep their order of position.
\<close>

definition sorts_after :: "float64 \<Rightarrow> float64 \<Rightarrow> bool" where
  "sorts_after a b = ((isnan a \<and> \<not> isnan b) \<or> fgt a b)"

fun insert_by :: "(nat \<Rightarrow> float64) \<Rightarrow> nat \<Rightarrow> nat list \<Rightarrow> nat list" where
  "insert_by key x [] = [x]"
| "insert_by key x (y # ys) =
     (if sorts_after (key x) (key y) then y # insert_by key x ys else x # y # ys)"

definition argsort :: "float64 list \<Rightarrow> nat list" where
  "argsort xs = foldr (insert_by (\<lambda>k. xs ! k)) [0..<length xs] []"

text \<open>\<^verbatim>\<open>xs.any()\<close> on an integer array: some element is not zero.\<close>

definition any_nonzero :: "nat list \<Rightarrow> bool" where
  "any_nonzero xs = list_ex (\<lambda>x. x \<noteq> 0) xs"

text \<open>
  The accumulation loop shared by \<^verbatim>\<open>BBCF.estimate\<close> and \<^verbatim>\<open>calculate_weighted_rating\<close>: the
  sum of the similarities and the sum of the weighted deviations, both from 0.0.
\<close>

fun weighted_sums ::
  "float64 list \<Rightarrow> float64 list \<Rightarrow> float64 list \<Rightarrow> float64 \<times> float64 \<Rightarrow> float64 \<times> float64" where
  "weighted_sums (rating # ratings) (similarity # similarities) (item_mean # item_means)
       (sum_similarities, sum_ratings) =
     weighted_sums ratings similarities item_means
       (fadd sum_similarities similarity,
        fadd sum_ratings (fmul similarity (fsub rating item_mean)))"
| "weighted_sums _ _ _ acc = acc"

section \<open>recommenders/BBCF.py\<close>

text \<open>
  The attributes of a \<^verbatim>\<open>BBCF\<close> object that the modelled methods read or write. The mining
  strategy is an external object: its \<^verbatim>\<open>mine_patterns\<close> is a function of the training set
  and its \<^verbatim>\<open>dataset_binarization_threshold\<close> may be absent (\<^verbatim>\<open>getattr\<close> then gives 1.0).
  \<^verbatim>\<open>trainset\<close> is \<^verbatim>\<open>None\<close> until \<^verbatim>\<open>fit\<close>. The two coverage statistics, which no modelled
  method reads, and the logger are left out.
\<close>

datatype knn_kind = UserBased | ItemBased

record mining_strategy =
  dataset_binarization_threshold :: "real option"
  mine_patterns :: "trainset \<Rightarrow> concept list"

record bbcf =
  bbcf_mining_strategy :: mining_strategy
  bbcf_knn_type :: knn_kind
  bbcf_number_of_top_k_biclusters :: "nat option"
  bbcf_bicluster_similarity_strategy :: "nat list \<Rightarrow> concept \<Rightarrow> real"
  bbcf_knn_k :: nat
  bbcf_force_knn_similarity_strategy :: "strategy option"
  bbcf_force_inclusion_of_user :: bool
  bbcf_dataset :: "float64 list list"
  bbcf_neighborhood :: "nat \<rightharpoonup> concept"
  bbcf_similarity_matrix :: "nat \<rightharpoonup> float64 list list"
  bbcf_user_means :: "float64 list"
  bbcf_item_means :: "float64 list"
  bbcf_biclusters :: "concept list"
  bbcf_trainset :: "trainset option"

text \<open>
  \<^verbatim>\<open>__init__\<close>: the assertions on the arguments, then the attributes. The type of
  \<open>knn_kind\<close> makes the assertion on \<^verbatim>\<open>knn_type\<close> hold.
\<close>

definition bbcf_init ::
  "mining_strategy \<Rightarrow> knn_kind \<Rightarrow> nat option \<Rightarrow> (nat list \<Rightarrow> concept \<Rightarrow> real) \<Rightarrow> nat
   \<Rightarrow> strategy option \<Rightarrow> bool \<Rightarrow> error + bbcf" where
  "bbcf_init mining_strategy knn_type number_of_top_k_biclusters bicluster_similarity_strategy
       knn_k force_knn_similarity_strategy force_inclusion_of_user =
     (if number_of_top_k_biclusters \<noteq> None \<and> \<not> the number_of_top_k_biclusters > 0
        then Inl AssertionError
      else if \<not> knn_k > 0 then Inl AssertionError
      else Inr \<lparr>bbcf_mining_strategy = mining_strategy,
                bbcf_knn_type = knn_type,
                bbcf_number_of_top_k_biclusters = number_of_top_k_biclusters,
                bbcf_bicluster_similarity_strategy = bicluster_similarity_strategy,
                bbcf_knn_k = knn_k,
                bbcf_force_knn_similarity_strategy = force_knn_similarity_strategy,
                bbcf_force_inclusion_of_user = force_inclusion_of_user,
                bbcf_dataset = [],
                bbcf_neighborhood = Map.empty,
                bbcf_similarity_matrix = Map.empty,
                bbcf_user_means = [],
                bbcf_item_means = [],
                bbcf_biclusters = [],
                bbcf_trainset = None\<rparr>)"

text \<open>
  The body of the loop of \<^verbatim>\<open>_generate_neighborhood\<close> for one user: the merged bicluster
  that becomes the neighbourhood of the user. The merged bicluster is still the empty
  one where the inclusion of the user is tested. The list handed to \<^verbatim>\<open>merge_biclusters\<close>
  is not empty (the guard \<^verbatim>\<open>if top_k_biclusters:\<close>), so the call is accepted and returns
  what the body returns.
\<close>

definition bbcf_merged_bicluster :: "bbcf \<Rightarrow> float64 \<Rightarrow> nat \<Rightarrow> concept" where
  "bbcf_merged_bicluster self binarization_threshold user_id =
     (let user_as_tidset =
            get_indices_above_threshold (bbcf_dataset self ! user_id) binarization_threshold;
          merged_bicluster = \<lparr>extent = [], intent = []\<rparr>
      in if (bbcf_number_of_top_k_biclusters self \<noteq> None
             \<and> bbcf_number_of_top_k_biclusters self \<noteq> Some 0)
            \<and> bbcf_biclusters self \<noteq> []
         then
           let top_k_biclusters =
                 get_top_k_biclusters_for_user (bbcf_biclusters self) user_as_tidset
                   (the (bbcf_number_of_top_k_biclusters self))
                   (bbcf_bicluster_similarity_strategy self)
           in if top_k_biclusters \<noteq> []
              then merge_biclusters_py_func
                     (if user_id \<notin> set (extent merged_bicluster) \<and> bbcf_force_inclusion_of_user self
                      then top_k_biclusters @ [\<lparr>extent = [user_id], intent = []\<rparr>]
                      else top_k_biclusters)
              else merged_bicluster
         else merged_bicluster)"

definition bbcf_generate_neighborhood :: "bbcf \<Rightarrow> bbcf" where
  "bbcf_generate_neighborhood self =
     (let binarization_threshold =
            (case dataset_binarization_threshold (bbcf_mining_strategy self) of
               None \<Rightarrow> Fin 1 | Some t \<Rightarrow> Fin t)
      in fold (\<lambda>user_id s.
                 s\<lparr>bbcf_neighborhood :=
                     (bbcf_neighborhood s)
                       (user_id \<mapsto> bbcf_merged_bicluster s binarization_threshold user_id)\<rparr>)
              [0..<length (bbcf_dataset self)] self)"

definition bbcf_calculate_means :: "bbcf \<Rightarrow> trainset \<Rightarrow> bbcf" where
  "bbcf_calculate_means self ts =
     self\<lparr>bbcf_user_means := calculate_means (n_users ts) (ur ts),
          bbcf_item_means := calculate_means (n_items ts) (ir ts)\<rparr>"

definition bbcf_fit :: "bbcf \<Rightarrow> trainset \<Rightarrow> bbcf" where
  "bbcf_fit self ts =
     (let s1 = self\<lparr>bbcf_trainset := Some ts\<rparr>;
          s2 = s1\<lparr>bbcf_dataset := convert_trainset_to_matrix ts\<rparr>;
          s3 = s2\<lparr>bbcf_biclusters := mine_patterns (bbcf_mining_strategy self) ts\<rparr>;
          s4 = (if bbcf_number_of_top_k_biclusters s3 = None
                   \<or> bbcf_number_of_top_k_biclusters s3 = Some 0
                then s3\<lparr>bbcf_number_of_top_k_biclusters := Some (length (bbcf_biclusters s3))\<rparr>
                else s3);
          s5 = bbcf_generate_neighborhood s4
      in bbcf_calculate_means s5 ts)"

text \<open>
  \<^verbatim>\<open>estimate\<close> is modelled in three parts, in the order of the source. The last part
  runs from the validity mask to the end: given the ratings, the similarities and the
  means of the neighbourhood and the mean of the target, it selects the valid neighbours,
  keeps the \<open>k\<close> most similar and forms the weighted prediction. The sums are accumulated
  from the Python float 0.0; after one step of the loop they are \<^verbatim>\<open>np.float64\<close> values,
  whose division never raises, so the handler of \<^verbatim>\<open>ZeroDivisionError\<close> is reached only
  if the loop did not run.
\<close>

definition bbcf_weighted_prediction ::
  "nat \<Rightarrow> float64 \<Rightarrow> float64 list \<Rightarrow> float64 list \<Rightarrow> float64 list \<Rightarrow> error + float64" where
  "bbcf_weighted_prediction knn_k target_mean neighborhood_ratings neighborhood_similarity
       neighborhood_means =
     (let validity_mask =
            map2 (\<lambda>rating similarity.
                    \<not> isnan rating \<and> \<not> isnan similarity \<and> similarity \<noteq> Fin 0)
                 neighborhood_ratings neighborhood_similarity
      in if \<not> list_ex (\<lambda>b. b) validity_mask
         then Inl (PredictionImpossible ''No valid neighbors.'')
         else
           let valid_neighborhood_ratings = masked neighborhood_ratings validity_mask;
               valid_neighborhood_similarity = masked neighborhood_similarity validity_mask;
               valid_neighborhood_means = masked neighborhood_means validity_mask;
               ordered_neighbors_indices = argsort valid_neighborhood_similarity;
               top_k_neighbors_indices =
                 py_last (min knn_k (length valid_neighborhood_similarity))
                   ordered_neighbors_indices;
               top_k_neighbors_ratings = take_idx valid_neighborhood_ratings top_k_neighbors_indices;
               top_k_neighbors_similarity =
                 take_idx valid_neighborhood_similarity top_k_neighbors_indices;
               top_k_means = take_idx valid_neighborhood_means top_k_neighbors_indices;
               prediction = target_mean;
               (sum_similarities, sum_ratings) =
                 weighted_sums top_k_neighbors_ratings top_k_neighbors_similarity top_k_means
                   (Fin 0, Fin 0)
           in if top_k_neighbors_indices = []
              then Inl (PredictionImpossible ''Sum of similarities is zero.'')
              else Inr (fadd prediction (fdiv sum_ratings sum_similarities)))"

text \<open>
  The middle part: the choice of the roles, the slices and the similarity matrix of the
  user, which is computed on the first call and kept. The index arrays of the
  neighbourhood select rows and columns of the ratings matrix and entries of the means:
  an index outside one of them raises \<^verbatim>\<open>IndexError\<close> before anything is computed.
\<close>

definition bbcf_predict :: "bbcf \<Rightarrow> nat \<Rightarrow> nat \<Rightarrow> concept \<Rightarrow> (error + float64) \<times> bbcf" where
  "bbcf_predict self user item neighborhood =
     (let user_based = (bbcf_knn_type self = UserBased);
          main_index = (if user_based then user else item);
          secondary_index = (if user_based then item else user);
          main_slice = (if user_based then extent neighborhood else intent neighborhood);
          secondary_slice = (if user_based then intent neighborhood else extent neighborhood);
          dataset = (if user_based then bbcf_dataset self else transposed (bbcf_dataset self));
          means = (if user_based then bbcf_user_means self else bbcf_item_means self);
          similarity_strategy =
            (case bbcf_force_knn_similarity_strategy self of
               Some forced \<Rightarrow> forced
             | None \<Rightarrow> if user_based then (\<lambda>d i j ms. pearson_similarity d i j ms default_eps)
                       else (\<lambda>d i j ms. adjusted_cosine_similarity d i j ms default_eps))
      in if \<not> (list_all (\<lambda>k. k < length (bbcf_user_means self)) (extent neighborhood)
               \<and> list_all (\<lambda>k. k < length dataset \<and> k < length means) main_slice
               \<and> list_all (\<lambda>k. k < ncols dataset) secondary_slice)
         then (Inl IndexError, self)
         else
           let similarity_strategy_means =
                 take_idx (bbcf_user_means self) (if user_based then main_slice else secondary_slice);
               main_index_in_submatrix = first_index main_slice main_index;
               secondary_index_in_submatrix = first_index secondary_slice secondary_index;
               submatrix = submatrix_of dataset main_slice secondary_slice;
               self' =
                 (case bbcf_similarity_matrix self user of
                    Some _ \<Rightarrow> self
                  | None \<Rightarrow>
                      self\<lparr>bbcf_similarity_matrix :=
                             (bbcf_similarity_matrix self)
                               (user \<mapsto> get_similarity_matrix submatrix similarity_strategy_means
                                           similarity_strategy)\<rparr>);
               similarity_matrix = the (bbcf_similarity_matrix self' user);
               neighborhood_similarity = similarity_matrix ! main_index_in_submatrix;
               neighborhood_ratings = column submatrix secondary_index_in_submatrix;
               neighborhood_means = take_idx means main_slice
           in (bbcf_weighted_prediction (bbcf_knn_k self) (means ! main_index)
                 neighborhood_ratings neighborhood_similarity neighborhood_means,
               self'))"

text \<open>
  \<^verbatim>\<open>estimate\<close>: the prediction, or the exception raised, and the object after the call.
  The emptiness test is the truth value of \<^verbatim>\<open>.any()\<close> on the two index arrays.
\<close>

definition bbcf_estimate :: "bbcf \<Rightarrow> nat \<Rightarrow> nat \<Rightarrow> (error + float64) \<times> bbcf" where
  "bbcf_estimate self user item =
     (case bbcf_trainset self of
        None \<Rightarrow> (Inl AttributeError, self)
      | Some ts \<Rightarrow>
          if \<not> (knows_user ts user \<and> knows_item ts item)
          then (Inl (PredictionImpossible ''User and/or item is unknown.''), self)
          else
            (case bbcf_neighborhood self user of
               None \<Rightarrow> (Inl KeyError, self)
             | Some neighborhood \<Rightarrow>
                 if \<not> any_nonzero (extent neighborhood) \<or> \<not> any_nonzero (intent neighborhood)
                 then (Inl (PredictionImpossible ''Not enough neighbors.''), self)
                 else if user \<notin> set (extent neighborhood) \<or> item \<notin> set (intent neighborhood)
                 then (Inl (PredictionImpossible ''User and/or item is not in the neighborhood.''),
                       self)
                 else bbcf_predict self user item neighborhood))"

section \<open>recommenders/knn\_based\_recommenders.py\<close>

text \<open>
  \<^verbatim>\<open>calculate_weighted_rating\<close>: the assertions in their order (those on the types hold by
  typing), then the loop and the division. The arrays are not empty past the
  assertions, so the sums are \<^verbatim>\<open>np.float64\<close> values and the division does not raise.
\<close>

definition calculate_weighted_rating ::
  "float64 \<Rightarrow> float64 list \<Rightarrow> float64 list \<Rightarrow> float64 list \<Rightarrow> error + float64" where
  "calculate_weighted_rating target_mean neighbors_ratings neighbors_similarities neighbors_means =
     (if \<not> list_all (\<lambda>similarity. fgt similarity (Fin 0) \<and> fge (Fin 1) similarity)
              neighbors_similarities
        then Inl AssertionError
      else if \<not> (length neighbors_ratings = length neighbors_similarities
                  \<and> length neighbors_similarities = length neighbors_means)
        then Inl AssertionError
      else if \<not> length neighbors_ratings > 0 then Inl AssertionError
      else
        let prediction = target_mean;
            (sum_similarities, sum_ratings) =
              weighted_sums neighbors_ratings neighbors_similarities neighbors_means (Fin 0, Fin 0)
        in Inr (fadd prediction (fdiv sum_ratings sum_similarities)))"

text \<open>
  \<^verbatim>\<open>get_k_top_neighbors\<close>: the assertions of \<^verbatim>\<open>validate_inputs\<close> that do not hold by typing,
  the index reads (an index outside the arrays raises \<^verbatim>\<open>IndexError\<close>), the mask, and the
  \<open>k\<close> most similar neighbours in descending order.
\<close>

definition get_k_top_neighbors ::
  "nat \<Rightarrow> nat \<Rightarrow> float64 list list \<Rightarrow> nat list \<Rightarrow> float64 list list \<Rightarrow> float64 list \<Rightarrow> nat
   \<Rightarrow> error + float64 list \<times> float64 list \<times> float64 list" where
  "get_k_top_neighbors x y dataset users_neighborhood similarity_matrix means knn_k =
     (if \<not> length users_neighborhood > 0 then Inl AssertionError
      else if \<not> list_all (\<lambda>row. length row = length similarity_matrix) similarity_matrix
        then Inl AssertionError
      else if \<not> length similarity_matrix = length dataset then Inl AssertionError
      else if \<not> length means = length dataset then Inl AssertionError
      else if \<not> knn_k > 0 then Inl AssertionError
      else if \<not> (x < length similarity_matrix \<and> y < ncols dataset
                  \<and> list_all (\<lambda>k. k < length dataset) users_neighborhood)
        then Inl IndexError
      else
        let neighborhood_similarity = take_idx (similarity_matrix ! x) users_neighborhood;
            neighborhood_ratings = map (\<lambda>k. dataset ! k ! y) users_neighborhood;
            neighborhood_means = take_idx means users_neighborhood;
            valid_mask =
              map2 (\<lambda>rating similarity. \<not> isnan rating \<and> similarity \<noteq> Fin 0)
                   neighborhood_ratings neighborhood_similarity
        in if \<not> list_ex (\<lambda>b. b) valid_mask then Inr ([], [], [])
           else
             let valid_neighborhood_similarity = masked neighborhood_similarity valid_mask;
                 valid_neighborhood_ratings = masked neighborhood_ratings valid_mask;
                 valid_neighborhood_means = masked neighborhood_means valid_mask;
                 k_top_neighbors_indices_asc =
                   py_last (min knn_k (length valid_neighborhood_similarity))
                     (argsort valid_neighborhood_similarity);
                 k_top_neighbors_indices_desc = rev k_top_neighbors_indices_asc
             in Inr (take_idx valid_neighborhood_ratings k_top_neighbors_indices_desc,
                     take_idx valid_neighborhood_similarity k_top_neighbors_indices_desc,
                     take_idx valid_neighborhood_means k_top_neighbors_indices_desc))"

subsection \<open>pattern\_mining/common.py: the bicluster filters\<close>

text \<open>
  pattern\_mining/common.py. \<^verbatim>\<open>apply_bicluster_sparsity_filter\<close> keeps the biclusters whose
  share of positive cells is at least the threshold, \<^verbatim>\<open>apply_bicluster_coverage_filter\<close>
  those that hold at least the threshold share of the positive cells of the dataset. The
  assertions that do not hold by typing come first. Both shares are quotients of two
  counts in binary64: a zero divisor gives NaN or an infinity and no exception.
\<close>

definition count_positive :: "float64 list list \<Rightarrow> nat" where
  "count_positive m = sum_list (map (\<lambda>row. length (filter (\<lambda>x. fgt x (Fin 0)) row)) m)"

definition apply_bicluster_sparsity_filter ::
  "float64 list list \<Rightarrow> concept list \<Rightarrow> real \<Rightarrow> error + concept list" where
  "apply_bicluster_sparsity_filter ratings_dataset biclusters threshold =
     (if \<not> length ratings_dataset > 0 then Inl AssertionError
      else if \<not> ncols ratings_dataset > 0 then Inl AssertionError
      else if \<not> list_all
                 (\<lambda>bicluster.
                    list_all (\<lambda>extent_item. extent_item < length ratings_dataset) (extent bicluster)
                    \<and> list_all (\<lambda>intent_item. intent_item < ncols ratings_dataset)
                         (intent bicluster))
                 biclusters
        then Inl AssertionError
      else if \<not> (0 \<le> threshold \<and> threshold \<le> 1) then Inl AssertionError
      else
        Inr (filter
               (\<lambda>a_concept.
                  let bicluster = submatrix_of ratings_dataset (extent a_concept) (intent a_concept);
                      bicluster_sparsity =
                        fdiv (Fin (real (count_positive bicluster)))
                             (Fin (real (length (extent a_concept) * length (intent a_concept))))
                  in fge bicluster_sparsity (Fin threshold))
               biclusters))"

definition apply_bicluster_coverage_filter ::
  "float64 list list \<Rightarrow> concept list \<Rightarrow> real \<Rightarrow> error + concept list" where
  "apply_bicluster_coverage_filter ratings_dataset biclusters threshold =
     (if \<not> length ratings_dataset > 0 then Inl AssertionError
      else if \<not> ncols ratings_dataset > 0 then Inl AssertionError
      else if \<not> list_all
                 (\<lambda>bicluster.
                    list_all (\<lambda>extent_item. extent_item < length ratings_dataset) (extent bicluster)
                    \<and> list_all (\<lambda>intent_item. intent_item < ncols ratings_dataset)
                         (intent bicluster))
                 biclusters
        then Inl AssertionError
      else if \<not> (0 \<le> threshold \<and> threshold \<le> 1) then Inl AssertionError
      else
        Inr (filter
               (\<lambda>a_concept.
                  let bicluster = submatrix_of ratings_dataset (extent a_concept) (intent a_concept);
                      bicluster_coverage =
                        fdiv (Fin (real (count_positive bicluster)))
                             (Fin (real (count_positive ratings_dataset)))
                  in fge bicluster_coverage (Fin threshold))
               biclusters))"

subsection \<open>The class BiAKNN\<close>

text \<open>
  The attributes of a \<^verbatim>\<open>BiAKNN\<close> object that the modelled methods read or write (the logger
  is left out). The neighbourhood of a user is one index array (the extent or the intent
  of the merged bicluster). The attributes that \<^verbatim>\<open>__init__\<close> sets to \<^verbatim>\<open>None\<close> are empty
  until \<^verbatim>\<open>fit\<close>.
\<close>

record biaknn =
  biaknn_minimum_bicluster_sparsity :: "real option"
  biaknn_minimum_bicluster_coverage :: "real option"
  biaknn_minimum_bicluster_relative_size :: "real option"
  biaknn_user_binarization_threshold :: real
  biaknn_number_of_top_k_biclusters :: "nat option"
  biaknn_knn_type :: knn_kind
  biaknn_knn_k :: nat
  biaknn_dataset :: "float64 list list"
  biaknn_neighborhood :: "nat \<rightharpoonup> nat list"
  biaknn_similarity_matrix :: "float64 list list"
  biaknn_means :: "float64 list"
  biaknn_biclusters :: "concept list"
  biaknn_trainset :: "trainset option"

text \<open>
  \<^verbatim>\<open>BiAKNN.__init__\<close>: the assertions on the arguments that do not hold by typing, then the
  attributes.
\<close>

definition biaknn_init ::
  "real option \<Rightarrow> real option \<Rightarrow> real option \<Rightarrow> knn_kind \<Rightarrow> real \<Rightarrow> nat option \<Rightarrow> nat
   \<Rightarrow> error + biaknn" where
  "biaknn_init minimum_bicluster_sparsity minimum_bicluster_coverage
       minimum_bicluster_relative_size knn_type user_binarization_threshold
       number_of_top_k_biclusters knn_k =
     (if minimum_bicluster_sparsity \<noteq> None
         \<and> \<not> (0 \<le> the minimum_bicluster_sparsity \<and> the minimum_bicluster_sparsity \<le> 1)
        then Inl AssertionError
      else if minimum_bicluster_coverage \<noteq> None
         \<and> \<not> (0 \<le> the minimum_bicluster_coverage \<and> the minimum_bicluster_coverage \<le> 1)
        then Inl AssertionError
      else if minimum_bicluster_relative_size \<noteq> None
         \<and> \<not> (0 \<le> the minimum_bicluster_relative_size
                \<and> the minimum_bicluster_relative_size \<le> 1)
        then Inl AssertionError
      else if \<not> user_binarization_threshold \<ge> 0 then Inl AssertionError
      else if number_of_top_k_biclusters \<noteq> None \<and> \<not> the number_of_top_k_biclusters > 0
        then Inl AssertionError
      else if \<not> knn_k > 0 then Inl AssertionError
      else Inr \<lparr>biaknn_minimum_bicluster_sparsity = minimum_bicluster_sparsity,
                biaknn_minimum_bicluster_coverage = minimum_bicluster_coverage,
                biaknn_minimum_bicluster_relative_size = minimum_bicluster_relative_size,
                biaknn_user_binarization_threshold = user_binarization_threshold,
                biaknn_number_of_top_k_biclusters = number_of_top_k_biclusters,
                biaknn_knn_type = knn_type,
                biaknn_knn_k = knn_k,
                biaknn_dataset = [],
                biaknn_neighborhood = Map.empty,
                biaknn_similarity_matrix = [],
                biaknn_means = [],
                biaknn_biclusters = [],
                biaknn_trainset = None\<rparr>)"

text \<open>
  The body of the loop of \<^verbatim>\<open>BiAKNN.fit\<close> for one user: the index array that becomes the
  neighbourhood of the user, or the exception raised. \<^verbatim>\<open>get_top_k_biclusters_for_user\<close> is
  compiled by numba and receives the Python list \<^verbatim>\<open>self.biclusters\<close>: an empty list is
  refused with \<^verbatim>\<open>ValueError\<close>, as for \<^verbatim>\<open>merge_biclusters\<close> above. The merge is the one of
  this module, with its assertions.
\<close>

definition biaknn_user_neighborhood :: "biaknn \<Rightarrow> nat \<Rightarrow> error + nat list" where
  "biaknn_user_neighborhood self user_id =
     (let user_as_tidset =
            get_indices_above_threshold (biaknn_dataset self ! user_id)
              (Fin (biaknn_user_binarization_threshold self))
      in if biaknn_biclusters self = [] then Inl ValueError
         else
           let top_k_biclusters =
                 get_top_k_biclusters_for_user (biaknn_biclusters self) user_as_tidset
                   (the (biaknn_number_of_top_k_biclusters self)) user_pattern_similarity
           in (case knn_merge_biclusters top_k_biclusters of
                 Inl e \<Rightarrow> Inl e
               | Inr merged_bicluster \<Rightarrow>
                   Inr (if biaknn_knn_type self = UserBased then extent merged_bicluster
                        else intent merged_bicluster)))"

fun biaknn_generate_neighborhood :: "biaknn \<Rightarrow> nat list \<Rightarrow> error + biaknn" where
  "biaknn_generate_neighborhood self [] = Inr self"
| "biaknn_generate_neighborhood self (user_id # user_ids) =
     (case biaknn_user_neighborhood self user_id of
        Inl e \<Rightarrow> Inl e
      | Inr neighborhood \<Rightarrow>
          biaknn_generate_neighborhood
            (self\<lparr>biaknn_neighborhood := (biaknn_neighborhood self)(user_id \<mapsto> neighborhood)\<rparr>)
            user_ids)"

text \<open>
  The three filters of \<^verbatim>\<open>BiAKNN.fit\<close>, in their order. A filter runs when its threshold is
  neither \<^verbatim>\<open>None\<close> nor zero. The third one, \<^verbatim>\<open>apply_bicluster_relative_size_filter\<close>, is
  imported from pattern\_mining/common.py, which does not define it: it is a parameter.
\<close>

definition biaknn_filtered_biclusters ::
  "(float64 list list \<Rightarrow> concept list \<Rightarrow> real \<Rightarrow> error + concept list)
   \<Rightarrow> biaknn \<Rightarrow> error + concept list" where
  "biaknn_filtered_biclusters apply_bicluster_relative_size_filter self =
     (case (if biaknn_minimum_bicluster_sparsity self \<noteq> None
                  \<and> biaknn_minimum_bicluster_sparsity self \<noteq> Some 0
               then apply_bicluster_sparsity_filter (biaknn_dataset self) (biaknn_biclusters self)
                      (the (biaknn_minimum_bicluster_sparsity self))
               else Inr (biaknn_biclusters self)) of
           Inl e \<Rightarrow> Inl e
         | Inr sparse_biclusters \<Rightarrow>
        (case (if biaknn_minimum_bicluster_coverage self \<noteq> None
                  \<and> biaknn_minimum_bicluster_coverage self \<noteq> Some 0
               then apply_bicluster_coverage_filter (biaknn_dataset self) sparse_biclusters
                      (the (biaknn_minimum_bicluster_coverage self))
               else Inr sparse_biclusters) of
           Inl e \<Rightarrow> Inl e
         | Inr covering_biclusters \<Rightarrow>
             (if biaknn_minimum_bicluster_relative_size self \<noteq> None
                  \<and> biaknn_minimum_bicluster_relative_size self \<noteq> Some 0
               then apply_bicluster_relative_size_filter (biaknn_dataset self) covering_biclusters
                      (the (biaknn_minimum_bicluster_relative_size self))
               else Inr covering_biclusters)))"

text \<open>
  \<^verbatim>\<open>BiAKNN.fit\<close>, in two parts. The class is abstract: \<^verbatim>\<open>compute_biclusters_from_trainset\<close>
  is the method of a subclass, which stores the mined biclusters in \<^verbatim>\<open>self.biclusters\<close>; it
  is the parameter that gives this list for the object it is called on. The first part
  runs up to the loop over the users: the training set, the ratings matrix, the mined and
  filtered biclusters and the default of \<^verbatim>\<open>number_of_top_k_biclusters\<close>. The second part is
  the loop, the means and the empty similarity matrix. An exception ends \<^verbatim>\<open>fit\<close>; the
  result is then the exception.
\<close>

definition biaknn_fit_biclusters ::
  "(biaknn \<Rightarrow> concept list)
   \<Rightarrow> (float64 list list \<Rightarrow> concept list \<Rightarrow> real \<Rightarrow> error + concept list)
   \<Rightarrow> biaknn \<Rightarrow> trainset \<Rightarrow> error + biaknn" where
  "biaknn_fit_biclusters compute_biclusters_from_trainset apply_bicluster_relative_size_filter
       self ts =
     (let s1 = self\<lparr>biaknn_trainset := Some ts\<rparr>;
          s2 = s1\<lparr>biaknn_dataset := convert_trainset_to_matrix ts\<rparr>;
          s3 = s2\<lparr>biaknn_biclusters := compute_biclusters_from_trainset s2\<rparr>
      in case biaknn_filtered_biclusters apply_bicluster_relative_size_filter s3 of
           Inl e \<Rightarrow> Inl e
         | Inr filtered_biclusters \<Rightarrow>
             let s4 = s3\<lparr>biaknn_biclusters := filtered_biclusters\<rparr>
             in Inr (if biaknn_number_of_top_k_biclusters s4 = None
                        \<or> biaknn_number_of_top_k_biclusters s4 = Some 0
                     then s4\<lparr>biaknn_number_of_top_k_biclusters :=
                                Some (length (biaknn_biclusters s4))\<rparr>
                     else s4))"

definition biaknn_fit ::
  "(biaknn \<Rightarrow> concept list)
   \<Rightarrow> (float64 list list \<Rightarrow> concept list \<Rightarrow> real \<Rightarrow> error + concept list)
   \<Rightarrow> biaknn \<Rightarrow> trainset \<Rightarrow> error + biaknn" where
  "biaknn_fit compute_biclusters_from_trainset apply_bicluster_relative_size_filter self ts =
     (case biaknn_fit_biclusters compute_biclusters_from_trainset
             apply_bicluster_relative_size_filter self ts of
        Inl e \<Rightarrow> Inl e
      | Inr s5 \<Rightarrow>
          (case biaknn_generate_neighborhood s5 [0..<length (biaknn_dataset s5)] of
             Inl e \<Rightarrow> Inl e
           | Inr s6 \<Rightarrow>
               let user_based = (biaknn_knn_type s6 = UserBased);
                   n = (if user_based then n_users ts else n_items ts);
                   ratings_map = (if user_based then ur ts else ir ts)
               in Inr (s6\<lparr>biaknn_means := calculate_means n ratings_map,
                          biaknn_similarity_matrix := replicate n (replicate n NaN)\<rparr>)))"

text \<open>
  \<^verbatim>\<open>BiAKNN.estimate\<close>. The function \<^verbatim>\<open>compute_neighborhood_cosine_similarity\<close> it calls is
  imported from recommenders/common.py, which does not define it: it is the parameter
  \<open>compute\<close>, which fills the similarity matrix or raises. The result is the prediction
  with the \<^verbatim>\<open>actual_k\<close> of the details. The last statement unpacks the float returned by
  \<^verbatim>\<open>calculate_weighted_rating\<close> into two names, which raises \<^verbatim>\<open>TypeError\<close>.
\<close>

definition biaknn_estimate ::
  "(float64 list list \<Rightarrow> float64 list list \<Rightarrow> nat \<Rightarrow> nat list \<Rightarrow> error + float64 list list)
   \<Rightarrow> biaknn \<Rightarrow> nat \<Rightarrow> nat \<Rightarrow> (error + float64 \<times> nat) \<times> biaknn" where
  "biaknn_estimate compute self user item =
     (case biaknn_trainset self of
        None \<Rightarrow> (Inl AttributeError, self)
      | Some ts \<Rightarrow>
          if \<not> (knows_user ts user \<and> knows_item ts item)
          then (Inl (PredictionImpossible ''User and/or item is unknown.''), self)
          else
            let user_based = (biaknn_knn_type self = UserBased);
                x = (if user_based then user else item);
                y = (if user_based then item else user);
                dataset = (if user_based then biaknn_dataset self
                           else transposed (biaknn_dataset self))
            in (case biaknn_neighborhood self user of
                  None \<Rightarrow> (Inl KeyError, self)
                | Some user_neighborhood \<Rightarrow>
                    if length user_neighborhood = 0
                    then (if x < length (biaknn_means self)
                          then (Inr (biaknn_means self ! x, 0), self)
                          else (Inl IndexError, self))
                    else
                      (case compute dataset (biaknn_similarity_matrix self) x user_neighborhood of
                         Inl e \<Rightarrow> (Inl e, self)
                       | Inr similarity_matrix \<Rightarrow>
                           let self' = self\<lparr>biaknn_similarity_matrix := similarity_matrix\<rparr>
                           in (case get_k_top_neighbors x y dataset user_neighborhood
                                      similarity_matrix (biaknn_means self) (biaknn_knn_k self) of
                                 Inl e \<Rightarrow> (Inl e, self')
                               | Inr (k_top_neighbors_ratings, k_top_neighbors_similarity,
                                      k_top_means) \<Rightarrow>
                                   if length k_top_neighbors_ratings = 0
                                   then (if x < length (biaknn_means self)
                                         then (Inr (biaknn_means self ! x, 0), self')
                                         else (Inl IndexError, self'))
                                   else
                                     (case calculate_weighted_rating (biaknn_means self ! x)
                                             k_top_neighbors_ratings k_top_neighbors_similarity
                                             k_top_means of
                                        Inl e \<Rightarrow> (Inl e, self')
                                      | Inr _ \<Rightarrow> (Inl TypeError, self'))))))"

section \<open>Two small training sets\<close>

text \<open>
  Three users and three items; user 0 has no rating for item 2. The two biclusters are
  the formal concepts of the matrix binarised at 1.0, in the order in which GreConD
  emits them. The estimator is user-based with the default settings.
\<close>

definition example_trainset :: trainset where
  "example_trainset =
     \<lparr>ur = [(0, [(0, 1), (1, 3)]), (1, [(0, 1), (1, 3), (2, 2)]), (2, [(0, 3), (1, 1), (2, 2)])],
      ir = [(0, [(0, 1), (1, 1), (2, 3)]), (1, [(0, 3), (1, 3), (2, 1)]), (2, [(1, 2), (2, 2)])],
      n_users = 3, n_items = 3\<rparr>"

definition example_biclusters :: "concept list" where
  "example_biclusters =
     [\<lparr>extent = [0, 1, 2], intent = [0, 1]\<rparr>, \<lparr>extent = [1, 2], intent = [0, 1, 2]\<rparr>]"

definition example_bbcf :: bbcf where
  "example_bbcf =
     bbcf_fit
       (projr (bbcf_init \<lparr>dataset_binarization_threshold = None,
                          mine_patterns = (\<lambda>ts. example_biclusters)\<rparr>
                 UserBased None weight_frequency 5 None False))
       example_trainset"

text \<open>
  Two users and three items, and a mining strategy that returns one bicluster, which
  holds user 0 only. The item-based estimator fitted on it gives user 0 the
  neighbourhood \<open>([0], [0, 1])\<close> and user 1 the empty one.
\<close>

definition example_trainset_2 :: trainset where
  "example_trainset_2 =
     \<lparr>ur = [(0, [(0, 5), (1, 4)]), (1, [(2, 3)])],
      ir = [(0, [(0, 5)]), (1, [(0, 4)]), (2, [(1, 3)])],
      n_users = 2, n_items = 3\<rparr>"

definition example_bbcf_2 :: bbcf where
  "example_bbcf_2 =
     bbcf_fit
       (projr (bbcf_init \<lparr>dataset_binarization_threshold = None,
                          mine_patterns = (\<lambda>ts. [\<lparr>extent = [0], intent = [0, 1]\<rparr>])\<rparr>
                 ItemBased None weight_frequency 5 None False))
       example_trainset_2"

text \<open>
  A \<^verbatim>\<open>BiAKNN\<close> subclass whose mining returns the two biclusters above, user-based with the
  default settings and without filters, fitted on the first training set.
\<close>

definition example_biaknn_fit :: "error + biaknn" where
  "example_biaknn_fit =
     biaknn_fit (\<lambda>self. example_biclusters) (\<lambda>ratings_dataset biclusters threshold. Inr biclusters)
       (projr (biaknn_init None None None UserBased 1 (Some 8) 5))
       example_trainset"

section \<open>pattern\_mining/formal\_concept\_analysis.py: GreConD\<close>

text \<open>
  A binary matrix is the list of its rows, each a list of truth values.

  Modelled from the spec: \<^verbatim>\<open>_it\<close> (dataset/binary\_dataset.py is not part of the sources).
  The spec gives the two closure operators as \<open>t(columns)\<close>, the rows that are true for
  all the given columns, and \<open>i(rows)\<close>, the columns that are true for all the given rows.
  \<^verbatim>\<open>_it(matrix, T)\<close> is the one function behind both: the ascending indices of the rows of
  \<open>matrix\<close> that are true at every index of \<open>T\<close>; on the transposed matrix it is \<open>i\<close>.
\<close>

definition galois_it :: "bool list list \<Rightarrow> nat list \<Rightarrow> nat list" where
  "galois_it binary_dataset T =
     filter (\<lambda>index. list_all (\<lambda>t. binary_dataset ! index ! t) T) [0..<length binary_dataset]"

text \<open>
  The two compiled helpers: the number of true cells of \<open>U\<close> inside a rectangle, and the
  rectangle set to false in \<open>U\<close>. \<open>count_nonzero\<close> is \<^verbatim>\<open>np.count_nonzero\<close>.
\<close>

definition submatrix_intersection_size :: "nat list \<Rightarrow> nat list \<Rightarrow> bool list list \<Rightarrow> nat" where
  "submatrix_intersection_size rows columns U =
     fold (\<lambda>row intersection_size.
             fold (\<lambda>column intersection_size.
                     if U ! row ! column then intersection_size + 1 else intersection_size)
                  columns intersection_size)
          rows 0"

definition erase_submatrix_values :: "nat list \<Rightarrow> nat list \<Rightarrow> bool list list \<Rightarrow> bool list list" where
  "erase_submatrix_values rows columns U =
     fold (\<lambda>row U. fold (\<lambda>column U. set2 U row column False) columns U) rows U"

definition count_nonzero :: "bool list list \<Rightarrow> nat" where
  "count_nonzero U = sum_list (map (\<lambda>row. length (filter (\<lambda>b. b) row)) U)"

text \<open>
  The body of the loop over the candidate columns: the closed extent and the closed
  intent of \<open>D \<union> {j}\<close> and the number of still uncovered cells of their rectangle.
  \<open>grecond_best\<close> is the whole loop: the first candidate with the greatest positive value,
  or \<^verbatim>\<open>None\<close> and 0.
\<close>

definition grecond_candidate ::
  "bool list list \<Rightarrow> bool list list \<Rightarrow> bool list list \<Rightarrow> nat list \<Rightarrow> nat \<Rightarrow> nat list \<times> nat" where
  "grecond_candidate binary_dataset transposed_binary_dataset U D j =
     (let D_u_j = D @ [j];
          D_u_j_closed_extent = galois_it binary_dataset D_u_j;
          D_u_j_closed_intent = galois_it transposed_binary_dataset D_u_j_closed_extent;
          D_u_j_V = submatrix_intersection_size D_u_j_closed_extent D_u_j_closed_intent U
      in (D_u_j_closed_intent, D_u_j_V))"

definition grecond_best ::
  "bool list list \<Rightarrow> bool list list \<Rightarrow> bool list list \<Rightarrow> nat list \<Rightarrow> nat list
   \<Rightarrow> nat list option \<times> nat" where
  "grecond_best binary_dataset transposed_binary_dataset U js_not_in_D D =
     fold (\<lambda>j (best_D_u_j_closed_intent, best_D_u_j_V).
             let (D_u_j_closed_intent, D_u_j_V) =
                   grecond_candidate binary_dataset transposed_binary_dataset U D j
             in if D_u_j_V > best_D_u_j_V then (Some D_u_j_closed_intent, D_u_j_V)
                else (best_D_u_j_closed_intent, best_D_u_j_V))
          js_not_in_D (None, 0)"

text \<open>
  The value of a candidate is bounded by the size of the matrix. This bound is what makes
  the search below terminate: it continues only when the best value strictly grows.
\<close>

lemma inner_fold_le:
  "fold (\<lambda>column n. if U ! row ! column then n + 1 else n) columns (n :: nat) \<le> n + length columns"
proof (induction columns arbitrary: n)
  case Nil
  show ?case by simp
next
  case (Cons c columns)
  show ?case
  proof (cases "U ! row ! c")
    case True
    with Cons [of "n + 1"] show ?thesis by simp
  next
    case False
    with Cons [of n] show ?thesis by simp
  qed
qed

lemma submatrix_intersection_size_fold_le:
  "fold (\<lambda>row n. fold (\<lambda>column n. if U ! row ! column then n + 1 else n) columns n) rows (n :: nat)
   \<le> n + length rows * length columns"
proof (induction rows arbitrary: n)
  case Nil
  show ?case by simp
next
  case (Cons r rows)
  have "fold (\<lambda>row n. fold (\<lambda>column n. if U ! row ! column then n + 1 else n) columns n) (r # rows) n
        \<le> fold (\<lambda>column n. if U ! r ! column then n + 1 else n) columns n + length rows * length columns"
    using Cons.IH by simp
  also have "\<dots> \<le> (n + length columns) + length rows * length columns"
    using inner_fold_le [of U r columns n] by simp
  finally show ?case by simp
qed

lemma submatrix_intersection_size_le:
  "submatrix_intersection_size rows columns U \<le> length rows * length columns"
  using submatrix_intersection_size_fold_le [of U columns rows 0]
  by (simp add: submatrix_intersection_size_def)

lemma length_galois_it_le: "length (galois_it A T) \<le> length A"
  using length_filter_le [of _ "[0..<length A]"] by (simp add: galois_it_def)

lemma grecond_candidate_le:
  "snd (grecond_candidate M MT U D j) \<le> length M * length MT"
proof -
  have "snd (grecond_candidate M MT U D j)
        \<le> length (galois_it M (D @ [j])) * length (galois_it MT (galois_it M (D @ [j])))"
    by (simp add: grecond_candidate_def Let_def submatrix_intersection_size_le)
  also have "\<dots> \<le> length M * length MT"
    by (intro mult_le_mono length_galois_it_le)
  finally show ?thesis .
qed

lemma grecond_best_fold_le:
  assumes "snd acc \<le> length M * length MT"
  shows "snd (fold (\<lambda>j (best_D_u_j_closed_intent, best_D_u_j_V).
             let (D_u_j_closed_intent, D_u_j_V) = grecond_candidate M MT U D j
             in if D_u_j_V > best_D_u_j_V then (Some D_u_j_closed_intent, D_u_j_V)
                else (best_D_u_j_closed_intent, best_D_u_j_V)) js acc)
         \<le> length M * length MT"
  using assms
proof (induction js arbitrary: acc)
  case Nil
  then show ?case by simp
next
  case (Cons j js)
  show ?case
    unfolding fold_simps
    by (rule Cons.IH)
       (use Cons.prems grecond_candidate_le [of M MT U D j] in
         \<open>auto simp: Let_def split: prod.splits\<close>)
qed

lemma grecond_best_le:
  "snd (grecond_best M MT U js D) \<le> length M * length MT"
  unfolding grecond_best_def by (rule grecond_best_fold_le) simp

lemma grecond_search_measure:
  assumes "(best_intent, best_V) = grecond_best M MT U js D" "V < best_V"
  shows "length M * length MT - best_V < length M * length MT - V"
proof -
  from assms(1) [symmetric] have "best_V = snd (grecond_best M MT U js D)" by simp
  then have "best_V \<le> length M * length MT" by (simp add: grecond_best_le)
  with assms(2) show ?thesis by simp
qed

text \<open>
  The loop \<^verbatim>\<open>while searching\<close>: it adopts the best closed intent as long as the best value
  improves on the current one. A best value above the current one is positive, so its
  intent is not \<^verbatim>\<open>None\<close>.
\<close>

function grecond_search ::
  "bool list list \<Rightarrow> bool list list \<Rightarrow> bool list list \<Rightarrow> nat list \<Rightarrow> nat list \<Rightarrow> nat
   \<Rightarrow> nat list \<times> nat" where
  "grecond_search binary_dataset transposed_binary_dataset U js_not_in_D D V =
     (case grecond_best binary_dataset transposed_binary_dataset U js_not_in_D D of
        (best_D_u_j_closed_intent, best_D_u_j_V) \<Rightarrow>
          if best_D_u_j_V > V
          then (case best_D_u_j_closed_intent of
                  Some best \<Rightarrow>
                    grecond_search binary_dataset transposed_binary_dataset U js_not_in_D
                      best best_D_u_j_V
                | None \<Rightarrow> (D, V))
          else (D, V))"
  by pat_completeness auto
termination
proof (relation "measure (\<lambda>(M, MT, U, js, D, V). length M * length MT - V)", goal_cases)
  case 1
  show ?case by simp
next
  case 2
  then show ?case
    using grecond_search_measure by simp
qed

declare grecond_search.simps [simp del]

text \<open>
  The outer loop \<^verbatim>\<open>while coverage > current_coverage\<close>. The list \<open>js_not_in_D\<close> is built
  once per iteration, while \<open>D_u_j\<close> is still empty, so it holds every column. The two
  counts are Python integers: their quotient raises \<^verbatim>\<open>ZeroDivisionError\<close> when the matrix
  had no true cell. If the search adopted nothing, \<open>D\<close> is still the empty array of floats
  and the concept cannot be created. Nothing bounds the number of iterations in the
  code, so the loop is a partial function: \<open>None\<close> stands for a run that does not end.
\<close>

partial_function (option) grecond_loop ::
  "bool list list \<Rightarrow> bool list list \<Rightarrow> nat list \<Rightarrow> nat \<Rightarrow> real \<Rightarrow> bool list list \<Rightarrow> concept list
   \<Rightarrow> real \<Rightarrow> (error + concept list \<times> real) option" where
  "grecond_loop binary_dataset transposed_binary_dataset Y initial_number_of_trues coverage U F
       current_coverage =
     (if coverage > current_coverage then
        if initial_number_of_trues = 0 then Some (Inl ZeroDivisionError)
        else
          (case grecond_search binary_dataset transposed_binary_dataset U
                  (filter (\<lambda>j. j \<notin> set ([] :: nat list)) Y) [] 0 of
             (D, V) \<Rightarrow>
               if V = 0 then Some (Inl AssertionError)
               else
                 let C = galois_it binary_dataset D;
                     new_concept = \<lparr>extent = C, intent = D\<rparr>;
                     U' = erase_submatrix_values (extent new_concept) (intent new_concept) U
                 in grecond_loop binary_dataset transposed_binary_dataset Y initial_number_of_trues
                      coverage U' (F @ [new_concept])
                      (1 - real (count_nonzero U') / real initial_number_of_trues))
      else Some (Inr (F, current_coverage)))"

text \<open>
  \<^verbatim>\<open>grecond\<close>: the assertions that do not hold by typing (a two-dimensional array has rows
  of one length; the array is not empty; the coverage is in \<open>(0, 1]\<close>), then the loop from
  \<open>U\<close> a copy of the matrix, no concept and the coverage 0.
\<close>

definition grecond :: "bool list list \<Rightarrow> real \<Rightarrow> (error + concept list \<times> real) option" where
  "grecond binary_dataset coverage =
     (if \<not> list_all (\<lambda>row. length row = ncols binary_dataset) binary_dataset
        then Some (Inl AssertionError)
      else if \<not> length binary_dataset * ncols binary_dataset > 0 then Some (Inl AssertionError)
      else if \<not> (0 < coverage \<and> coverage \<le> 1) then Some (Inl AssertionError)
      else
        let U = binary_dataset;
            Y = [0..<ncols binary_dataset];
            transposed_binary_dataset = transposed binary_dataset;
            initial_number_of_trues = count_nonzero U
        in grecond_loop binary_dataset transposed_binary_dataset Y initial_number_of_trues
             coverage U [] 0)"

text \<open>
  \<^verbatim>\<open>get_factor_matrices_from_concepts\<close> with its kernel \<^verbatim>\<open>_get_matrices\<close>: column \<open>k\<close> of \<open>Af\<close>
  marks the extent of concept \<open>k\<close> and row \<open>k\<close> of \<open>Bf\<close> marks its intent. \<open>matmul\<close> is
  \<^verbatim>\<open>np.matmul\<close> on two boolean matrices: the disjunction over \<open>k\<close> of the conjunctions.
\<close>

definition get_matrices ::
  "concept list \<Rightarrow> nat \<Rightarrow> nat \<Rightarrow> bool list list \<times> bool list list" where
  "get_matrices concepts dataset_number_rows dataset_number_cols =
     fold (\<lambda>(concept_index, a_concept) (Af, Bf).
             (fold (\<lambda>item Af. set2 Af item concept_index True) (extent a_concept) Af,
              fold (\<lambda>item Bf. set2 Bf concept_index item True) (intent a_concept) Bf))
          (zip [0..<length concepts] concepts)
          (replicate dataset_number_rows (replicate (length concepts) False),
           replicate (length concepts) (replicate dataset_number_cols False))"

definition get_factor_matrices_from_concepts ::
  "concept list \<Rightarrow> nat \<Rightarrow> nat \<Rightarrow> error + bool list list \<times> bool list list" where
  "get_factor_matrices_from_concepts concepts dataset_number_rows dataset_number_cols =
     (if \<not> length concepts > 0 then Inl AssertionError
      else if \<not> dataset_number_rows > 0 then Inl AssertionError
      else if \<not> dataset_number_cols > 0 then Inl AssertionError
      else Inr (get_matrices concepts dataset_number_rows dataset_number_cols))"

definition matmul :: "bool list list \<Rightarrow> bool list list \<Rightarrow> bool list list" where
  "matmul A B =
     map (\<lambda>row. map (\<lambda>c. list_ex (\<lambda>k. row ! k \<and> B ! k ! c) [0..<length B]) [0..<ncols B]) A"

subsection \<open>Notions for the correctness of GreConD\<close>

text \<open>
  These predicates are not in the source: they state what the loops of \<^verbatim>\<open>grecond\<close> maintain.
  \<open>rect M n m\<close>: the array \<open>M\<close> has shape \<open>(n, m)\<close>.
\<close>

definition rect :: "'a list list \<Rightarrow> nat \<Rightarrow> nat \<Rightarrow> bool" where
  "rect M n m = (length M = n \<and> list_all (\<lambda>row. length row = m) M)"

text \<open>
  The pair \<open>(D, V)\<close> held by the search is the closed intent of some column set \<open>Dj\<close>,
  together with the number of cells of \<open>U\<close> that its concept still covers.
\<close>

definition from_candidate ::
  "bool list list \<Rightarrow> bool list list \<Rightarrow> bool list list \<Rightarrow> nat list \<Rightarrow> nat \<Rightarrow> bool" where
  "from_candidate M MT U D V =
     (\<exists>Dj. D = galois_it MT (galois_it M Dj)
           \<and> V = submatrix_intersection_size (galois_it M Dj) D U)"

text \<open>A cell \<open>(r, c)\<close> lies in the rectangle of one of the concepts of \<open>F\<close>.\<close>

definition covered :: "concept list \<Rightarrow> nat \<Rightarrow> nat \<Rightarrow> bool" where
  "covered F r c = list_ex (\<lambda>k. r \<in> set (extent k) \<and> c \<in> set (intent k)) F"

text \<open>
  The invariant of the outer loop: \<open>U\<close> has the shape of the dataset and holds exactly the
  cells of the dataset that no concept of \<open>F\<close> covers, and every concept of \<open>F\<close> is a
  rectangle of True cells of the dataset.
\<close>

definition grecond_inv ::
  "bool list list \<Rightarrow> nat \<Rightarrow> nat \<Rightarrow> bool list list \<Rightarrow> concept list \<Rightarrow> bool" where
  "grecond_inv M n m U F =
     (rect U n m
      \<and> (\<forall>r < n. \<forall>c < m. U ! r ! c \<longleftrightarrow> (M ! r ! c \<and> \<not> covered F r c))
      \<and> (\<forall>k \<in> set F. \<forall>r \<in> set (extent k). \<forall>c \<in> set (intent k). r < n \<and> c < m \<and> M ! r ! c))"

text \<open>One pass of the outer loop: the concept it appends and the array it leaves.\<close>

definition grecond_next_concept :: "bool list list \<Rightarrow> bool list list \<Rightarrow> concept" where
  "grecond_next_concept M U =
     (let D = fst (grecond_search M (transposed M) U
                     (filter (\<lambda>j. j \<notin> set ([] :: nat list)) [0..<ncols M]) [] 0)
      in \<lparr>extent = galois_it M D, intent = D\<rparr>)"

definition grecond_next_U :: "bool list list \<Rightarrow> bool list list \<Rightarrow> bool list list" where
  "grecond_next_U M U =
     erase_submatrix_values (extent (grecond_next_concept M U)) (intent (grecond_next_concept M U)) U"

text \<open>The body of the loop of \<^verbatim>\<open>_get_matrices\<close>, for one enumerated concept.\<close>

definition mark_step ::
  "nat \<times> concept \<Rightarrow> bool list list \<times> bool list list \<Rightarrow> bool list list \<times> bool list list" where
  "mark_step = (\<lambda>(concept_index, a_concept) (Af, Bf).
             (fold (\<lambda>item Af. set2 Af item concept_index True) (extent a_concept) Af,
              fold (\<lambda>item Bf. set2 Bf concept_index item True) (intent a_concept) Bf))"

section \<open>Properties of the rounding\<close>

lemma round_half_even_ge_floor: "\<lfloor>y\<rfloor> \<le> round_half_even y"
  by (simp add: round_half_even_def Let_def)

lemma round_half_even_le_ceiling: "round_half_even y \<le> \<lceil>y\<rceil>"
proof -
  have "y - of_int \<lfloor>y\<rfloor> \<noteq> 0 \<Longrightarrow> \<lfloor>y\<rfloor> + 1 \<le> \<lceil>y\<rceil>"
    by (metis add.commute ceiling_altdef diff_eq_eq eq_iff add_0)
  moreover have "\<lfloor>y\<rfloor> \<le> \<lceil>y\<rceil>" by (rule floor_le_ceiling)
  ultimately show ?thesis
    by (auto simp: round_half_even_def Let_def)
qed

lemma round_half_even_of_int [simp]: "round_half_even (of_int n) = n"
  by (simp add: round_half_even_def)

lemma round_half_even_lower:
  assumes "of_int n \<le> y"
  shows "n \<le> round_half_even y"
proof -
  from assms have "n \<le> \<lfloor>y\<rfloor>" by (simp add: le_floor_iff)
  with round_half_even_ge_floor [of y] show ?thesis by (rule order_trans [rotated])
qed

lemma round_half_even_upper:
  assumes "y \<le> of_int n"
  shows "round_half_even y \<le> n"
proof -
  from assms have "\<lceil>y\<rceil> \<le> n" by (simp add: ceiling_le_iff)
  with round_half_even_le_ceiling [of y] show ?thesis by (rule order_trans)
qed

lemma ulp64_pos [simp]: "0 < ulp64 x"
  by (simp add: ulp64_def)

lemma ulp64_nonneg [simp]: "0 \<le> ulp64 x"
  by (simp add: ulp64_def)

lemma ulp64_neq_0 [simp]: "ulp64 x \<noteq> 0"
  by (simp add: ulp64_def)

lemma round64_not_NaN [simp]: "round64 x \<noteq> NaN"
  by (simp add: round64_def Let_def)

lemma isnan_round64 [simp]: "isnan (round64 x) = False"
  by (cases "round64 x") simp_all

lemma round64_nonneg:
  assumes "0 \<le> x"
  shows "round64 x = PInf \<or> (\<exists>r. round64 x = Fin r \<and> 0 \<le> r)"
proof (cases "x = 0")
  case True
  then show ?thesis by (simp add: round64_def)
next
  case False
  have "0 \<le> x / ulp64 x"
    using assms by (intro divide_nonneg_pos) simp_all
  then have "0 \<le> round_half_even (x / ulp64 x)"
    using round_half_even_lower [of 0 "x / ulp64 x"] by simp
  then have "0 \<le> of_int (round_half_even (x / ulp64 x)) * ulp64 x"
    by (intro mult_nonneg_nonneg) simp_all
  with False assms show ?thesis by (auto simp: round64_def Let_def)
qed

lemma floor_log2_eq:
  assumes "2 powr of_int e \<le> \<bar>x\<bar>" "\<bar>x\<bar> < 2 powr of_int (e + 1)"
  shows "\<lfloor>log 2 \<bar>x\<bar>\<rfloor> = e"
proof -
  have "0 < \<bar>x\<bar>" using assms(1) by (smt (verit) powr_gt_zero)
  then show ?thesis using assms by (simp add: floor_log_eq_powr_iff)
qed

text \<open>
  A real that is a binary64 number (at most 53 significant bits, at a scale the format
  has) is its own rounding.
\<close>

lemma round64_exact:
  assumes x: "x = of_int m * 2 powr of_int e"
    and m: "\<bar>m\<bar> < 2 ^ 53" and e: "- 1074 \<le> e" "e \<le> 971"
  shows "round64 x = Fin x"
proof (cases "x = 0")
  case True
  then show ?thesis by (simp add: round64_def)
next
  case False
  then have ax: "0 < \<bar>x\<bar>" by simp
  define q where "q = max \<lfloor>log 2 \<bar>x\<bar>\<rfloor> (- 1022) - 52"
  have u: "ulp64 x = 2 powr of_int q" by (simp add: ulp64_def q_def)
  have "\<bar>x\<bar> = of_int \<bar>m\<bar> * 2 powr of_int e" by (simp add: x abs_mult)
  also have "\<dots> < 2 ^ 53 * 2 powr of_int e"
    using m by (intro mult_strict_right_mono) (simp_all add: of_int_less_numeral_power_cancel_iff)
  also have "\<dots> = 2 powr of_int (e + 53)"
    by (simp add: powr_add powr_realpow [symmetric])
  finally have "log 2 \<bar>x\<bar> < of_int (e + 53)"
    using ax by (simp add: log_less_iff)
  then have "\<lfloor>log 2 \<bar>x\<bar>\<rfloor> < e + 53" by (simp add: floor_less_iff)
  with e have qe: "q \<le> e" by (simp add: q_def)
  define n where "n = nat (e - q)"
  have eq: "e = q + int n" using qe by (simp add: n_def)
  have "(2::real) powr of_int e = 2 powr of_int q * 2 powr of_int (int n)"
    by (simp only: eq of_int_add powr_add)
  also have "(2::real) powr of_int (int n) = 2 ^ n"
    by (simp add: powr_realpow)
  finally have x2: "x = of_int (m * 2 ^ n) * 2 powr of_int q"
    by (simp add: x)
  have "x / ulp64 x = x / 2 powr of_int q" by (simp only: u)
  also have "\<dots> = of_int (m * 2 ^ n)" by (subst x2) simp
  finally have "round_half_even (x / ulp64 x) = m * 2 ^ n"
    by (simp only: round_half_even_of_int)
  then have r: "of_int (round_half_even (x / ulp64 x)) * ulp64 x = x"
    by (simp only: u x2 [symmetric])
  have "\<bar>x\<bar> = of_int \<bar>m\<bar> * 2 powr of_int e" by (simp add: x abs_mult)
  also have "\<dots> \<le> (2 ^ 53 - 1) * 2 powr of_int e"
  proof (intro mult_right_mono)
    from m have "\<bar>m\<bar> \<le> 2 ^ 53 - 1" by simp
    then have "(of_int \<bar>m\<bar> :: real) \<le> of_int (2 ^ 53 - 1)" by (simp only: of_int_le_iff)
    then show "(of_int \<bar>m\<bar> :: real) \<le> 2 ^ 53 - 1" by simp
  qed simp
  also have "(2::real) powr of_int e \<le> 2 powr of_int 971"
    using e by (intro powr_mono) simp_all
  then have "(2 ^ 53 - 1) * (2::real) powr of_int e \<le> (2 ^ 53 - 1) * 2 powr of_int 971"
    by (intro mult_left_mono) simp_all
  also have "(2::real) powr of_int 971 = 2 ^ 971"
    by (simp add: powr_realpow [symmetric])
  finally have "\<bar>x\<bar> \<le> float64_max" by (simp add: float64_max_def)
  with False r show ?thesis by (simp add: round64_def Let_def)
qed


lemma float64_max_less: "float64_max < 2 ^ 1024"
  by (simp add: float64_max_def)

lemma float64_max_ge: "2 ^ 1023 \<le> float64_max"
  by (simp add: float64_max_def)

lemma powr_floor_log_le:
  assumes "0 < a"
  shows "2 powr of_int \<lfloor>log 2 a\<rfloor> \<le> a"
proof -
  have "of_int \<lfloor>log 2 a\<rfloor> \<le> log 2 a" by simp
  then show ?thesis using assms by (simp only: powr_le_iff [of 2 a, OF _ assms])
qed

lemma less_powr_floor_log:
  assumes "0 < a"
  shows "a < 2 powr of_int (\<lfloor>log 2 a\<rfloor> + 1)"
proof -
  have "log 2 a < of_int (\<lfloor>log 2 a\<rfloor> + 1)" by linarith
  then show ?thesis using assms by (simp only: less_powr_iff [of 2 a, OF _ assms])
qed

lemma round64_overflow:
  assumes "2 ^ 1024 \<le> x"
  shows "round64 x = PInf"
proof -
  have x0: "0 < x" using assms by (smt (verit) zero_less_power)
  define E where "E = \<lfloor>log 2 x\<rfloor>"
  have "(1024::real) \<le> log 2 x"
    using assms x0 by (simp add: le_log_iff powr_realpow)
  then have E: "1024 \<le> E" by (simp add: E_def le_floor_iff)
  then have u: "ulp64 x = 2 powr of_int (E - 52)"
    using x0 by (simp add: ulp64_def E_def max_def)
  have xE: "2 powr of_int E \<le> x"
    unfolding E_def by (rule powr_floor_log_le [OF x0])
  have split: "(2::real) powr of_int E = 2 ^ 52 * 2 powr of_int (E - 52)"
  proof -
    have "(2::real) powr of_int E = 2 powr (52 + of_int (E - 52))" by simp
    also have "\<dots> = 2 powr 52 * 2 powr of_int (E - 52)" by (rule powr_add)
    also have "(2::real) powr 52 = 2 ^ 52" by (simp add: powr_realpow [symmetric])
    finally show ?thesis .
  qed
  have "of_int (2 ^ 52) \<le> x / ulp64 x"
    using xE by (simp add: u split pos_le_divide_eq)
  then have "2 ^ 52 \<le> round_half_even (x / ulp64 x)"
    by (rule round_half_even_lower)
  then have "(2 ^ 52 :: real) \<le> of_int (round_half_even (x / ulp64 x))"
    by (metis of_int_le_iff of_int_numeral of_int_power)
  then have "2 ^ 52 * 2 powr of_int (E - 52)
             \<le> of_int (round_half_even (x / ulp64 x)) * ulp64 x"
    unfolding u by (intro mult_right_mono) simp_all
  moreover have "(2::real) powr of_int 1024 \<le> 2 powr of_int E"
    using E by (intro powr_mono) simp_all
  then have "(2::real) ^ 1024 \<le> 2 powr of_int E"
    by (simp add: powr_realpow [symmetric])
  ultimately have "2 ^ 1024 \<le> of_int (round_half_even (x / ulp64 x)) * ulp64 x"
    by (simp only: split)
  with float64_max_less
  have "float64_max < \<bar>of_int (round_half_even (x / ulp64 x)) * ulp64 x\<bar>"
    by linarith
  then show ?thesis using x0 by (simp add: round64_def Let_def)
qed

lemma round64_finite:
  assumes "\<bar>x\<bar> < 2 ^ 1023"
  shows "\<exists>r. round64 x = Fin r \<and> \<bar>r\<bar> \<le> 2 ^ 1023"
proof (cases "x = 0")
  case True
  then show ?thesis by (simp add: round64_def)
next
  case False
  then have ax: "0 < \<bar>x\<bar>" by simp
  define E where "E = max \<lfloor>log 2 \<bar>x\<bar>\<rfloor> (- 1022)"
  have u: "ulp64 x = 2 powr of_int (E - 52)" by (simp add: ulp64_def E_def)
  have "log 2 \<bar>x\<bar> < 1023"
    using assms ax by (simp add: log_less_iff powr_realpow)
  then have "\<lfloor>log 2 \<bar>x\<bar>\<rfloor> < 1023" by (simp add: floor_less_iff)
  then have E: "E \<le> 1022" by (simp add: E_def)
  have "\<bar>x\<bar> < 2 powr of_int (\<lfloor>log 2 \<bar>x\<bar>\<rfloor> + 1)" by (rule less_powr_floor_log [OF ax])
  also have "\<dots> \<le> 2 powr of_int (E + 1)"
    by (intro powr_mono) (simp_all add: E_def)
  finally have xE: "\<bar>x\<bar> < 2 powr of_int (E + 1)" .
  have split: "(2::real) powr of_int (E + 1) = 2 ^ 53 * 2 powr of_int (E - 52)"
  proof -
    have "(2::real) powr of_int (E + 1) = 2 powr (53 + of_int (E - 52))"
      by (simp add: algebra_simps)
    also have "\<dots> = 2 powr 53 * 2 powr of_int (E - 52)" by (rule powr_add)
    also have "(2::real) powr 53 = 2 ^ 53" by (simp add: powr_realpow [symmetric])
    finally show ?thesis .
  qed
  have "\<bar>x / ulp64 x\<bar> = \<bar>x\<bar> / ulp64 x" by simp
  also have "\<dots> \<le> 2 ^ 53"
  proof -
    from xE have "\<bar>x\<bar> < 2 ^ 53 * 2 powr of_int (E - 52)" by (simp only: split)
    then have "\<bar>x\<bar> \<le> 2 ^ 53 * ulp64 x" by (simp only: u)
    then show ?thesis by (simp only: pos_divide_le_eq [OF ulp64_pos])
  qed
  finally have b: "\<bar>x / ulp64 x\<bar> \<le> 2 ^ 53" .
  have "x / ulp64 x \<le> 2 ^ 53" "- (2 ^ 53) \<le> x / ulp64 x"
    using b by (simp_all only: abs_le_iff minus_le_iff)
  then have bb: "x / ulp64 x \<le> of_int (2 ^ 53)" "of_int (- (2 ^ 53)) \<le> x / ulp64 x"
    by simp_all
  from bb(1) have hi: "round_half_even (x / ulp64 x) \<le> 2 ^ 53" by (rule round_half_even_upper)
  from bb(2) have lo: "- (2 ^ 53) \<le> round_half_even (x / ulp64 x)" by (rule round_half_even_lower)
  from hi lo have "\<bar>round_half_even (x / ulp64 x)\<bar> \<le> 2 ^ 53" by simp
  then have "\<bar>of_int (round_half_even (x / ulp64 x)) :: real\<bar> \<le> 2 ^ 53"
    by (metis of_int_abs of_int_le_iff of_int_numeral of_int_power)
  then have "\<bar>of_int (round_half_even (x / ulp64 x)) * ulp64 x\<bar> \<le> 2 ^ 53 * 2 powr of_int (E - 52)"
    unfolding u abs_mult by (intro mult_mono) simp_all
  also have "\<dots> = 2 powr of_int (E + 1)" by (simp only: split)
  also have "\<dots> \<le> 2 powr of_int 1023"
    using E by (intro powr_mono) simp_all
  also have "\<dots> = 2 ^ 1023" by (simp add: powr_realpow [symmetric])
  finally have r: "\<bar>of_int (round_half_even (x / ulp64 x)) * ulp64 x\<bar> \<le> 2 ^ 1023" .
  with float64_max_ge
  have "\<not> float64_max < \<bar>of_int (round_half_even (x / ulp64 x)) * ulp64 x\<bar>"
    by linarith
  with False r show ?thesis by (simp add: round64_def Let_def)
qed

lemma round64_of_int:
  assumes "\<bar>m\<bar> < 2 ^ 53"
  shows "round64 (of_int m) = Fin (of_int m)"
proof (rule round64_exact [of _ m 0])
  show "(of_int m :: real) = of_int m * 2 powr of_int 0" by simp
  show "\<bar>m\<bar> < 2 ^ 53" by (rule assms)
qed simp_all

lemma round64_of_int_half:
  assumes "\<bar>m\<bar> < 2 ^ 53"
  shows "round64 (of_int m / 2) = Fin (of_int m / 2)"
proof (rule round64_exact [of _ m "- 1"])
  show "(of_int m / 2 :: real) = of_int m * 2 powr of_int (- 1)"
    by (simp add: powr_neg_one)
  show "\<bar>m\<bar> < 2 ^ 53" by (rule assms)
qed simp_all

lemma round64_numeral [simp]:
  "numeral n < (9007199254740992::int) \<Longrightarrow> round64 (numeral n) = Fin (numeral n)"
  "numeral n < (9007199254740992::int) \<Longrightarrow> round64 (- numeral n) = Fin (- numeral n)"
  "round64 0 = Fin 0" "round64 1 = Fin 1" "round64 (- 1) = Fin (- 1)"
  "numeral n < (9007199254740992::int) \<Longrightarrow> round64 (numeral n / 2) = Fin (numeral n / 2)"
  "numeral n < (9007199254740992::int) \<Longrightarrow> round64 (- (numeral n / 2)) = Fin (- (numeral n / 2))"
  using round64_of_int [of "numeral n"] round64_of_int [of "- numeral n"]
    round64_of_int [of 0] round64_of_int [of 1] round64_of_int [of "- 1"]
    round64_of_int_half [of "numeral n"] round64_of_int_half [of "- numeral n"]
  by simp_all

section \<open>Properties of the set routines\<close>

lemma set_union1d: "set (union1d a b) = set a \<union> set b"
  by (simp add: union1d_def)

lemma sorted_union1d: "sorted (union1d a b)"
  by (simp add: union1d_def)

lemma distinct_union1d: "distinct (union1d a b)"
  by (simp add: union1d_def)

lemma union1d_eq_sorted_list: "union1d a b = sorted_list_of_set (set a \<union> set b)"
proof -
  have "sorted_list_of_set (set (a @ b)) = sort (remdups (a @ b))"
    by (rule sorted_list_of_set_sort_remdups)
  then show ?thesis by (simp add: union1d_def)
qed

lemma set_intersect1d: "set (intersect1d a b) = set a \<inter> set b"
  by (auto simp: intersect1d_def)

lemma distinct_intersect1d: "distinct (intersect1d a b)"
  by (simp add: intersect1d_def)

lemma length_intersect1d_le: "length (intersect1d a b) \<le> length b"
proof -
  have "length (intersect1d a b) = card (set a \<inter> set b)"
    using distinct_card [OF distinct_intersect1d, of a b] by (simp add: set_intersect1d)
  also have "\<dots> \<le> card (set b)"
    by (rule card_mono) auto
  also have "\<dots> \<le> length b"
    by (rule card_length)
  finally show ?thesis .
qed

lemma length_intersect1d_card: "length (intersect1d a b) = card (set a \<inter> set b)"
  using distinct_card [OF distinct_intersect1d, of a b] by (simp add: set_intersect1d)

section \<open>Properties of the merge loop\<close>

lemma merge_loop_sets:
  "set (extent (merge_loop bs e i)) = set e \<union> (\<Union>b \<in> set bs. set (extent b))
   \<and> set (intent (merge_loop bs e i)) = set i \<union> (\<Union>b \<in> set bs. set (intent b))"
  by (induction bs arbitrary: e i) (auto simp: set_union1d)

lemma merge_loop_Cons_eq:
  "merge_loop (b # bs) e i =
     \<lparr>extent = sorted_list_of_set (set e \<union> (\<Union>c \<in> set (b # bs). set (extent c))),
      intent = sorted_list_of_set (set i \<union> (\<Union>c \<in> set (b # bs). set (intent c)))\<rparr>"
proof (induction bs arbitrary: b e i)
  case Nil
  show ?case by (simp add: union1d_eq_sorted_list)
next
  case (Cons c bs)
  have "merge_loop (b # c # bs) e i
        = merge_loop (c # bs) (union1d e (extent b)) (union1d i (intent b))"
    by simp
  also have "\<dots> =
     \<lparr>extent = sorted_list_of_set (set (union1d e (extent b)) \<union> (\<Union>d \<in> set (c # bs). set (extent d))),
      intent = sorted_list_of_set (set (union1d i (intent b)) \<union> (\<Union>d \<in> set (c # bs). set (intent d)))\<rparr>"
    by (rule Cons.IH)
  also have "set (union1d e (extent b)) \<union> (\<Union>d \<in> set (c # bs). set (extent d))
             = set e \<union> (\<Union>d \<in> set (b # c # bs). set (extent d))"
    by (auto simp: set_union1d)
  also have "set (union1d i (intent b)) \<union> (\<Union>d \<in> set (c # bs). set (intent d))
             = set i \<union> (\<Union>d \<in> set (b # c # bs). set (intent d))"
    by (auto simp: set_union1d)
  finally show ?case .
qed

lemma merge_loop_Nil_eq:
  "merge_loop bs [] [] =
     \<lparr>extent = sorted_list_of_set (\<Union>c \<in> set bs. set (extent c)),
      intent = sorted_list_of_set (\<Union>c \<in> set bs. set (intent c))\<rparr>"
proof (cases bs)
  case Nil
  then show ?thesis by simp
next
  case (Cons b cs)
  show ?thesis unfolding Cons merge_loop_Cons_eq by simp
qed

lemma sorted_list_of_set_set_nat:
  "set (sorted_list_of_set (\<Union>c \<in> set bs. set (f c))) = (\<Union>c \<in> set bs. set ((f c) :: nat list))"
  by simp

lemma user_pattern_similarity_card:
  "intent pattern \<noteq> [] \<Longrightarrow>
   user_pattern_similarity user pattern
     = real (card (set user \<inter> set (intent pattern))) / real (length (intent pattern))"
  by (simp add: user_pattern_similarity_def length_intersect1d_card)

section \<open>Claims about the bicluster similarity and the merge\<close>

text \<open>
  C10. For every user array and every pattern, \<open>user_pattern_similarity\<close> returns a value
  between 0 and 1; when the intent of the pattern is empty the guard returns 0 and nothing
  is divided; \<open>weight_frequency\<close> is the size of the extent times that ratio, and it is 4
  for the user \<open>[1]\<close> and the pattern with extent \<open>{1,2,3,4}\<close> and intent \<open>{1}\<close>.
\<close>

theorem user_pattern_similarity_unit_interval:
  "0 \<le> user_pattern_similarity user pattern
   \<and> user_pattern_similarity user pattern \<le> 1
   \<and> user_pattern_similarity user \<lparr>extent = e, intent = []\<rparr> = 0
   \<and> weight_frequency user pattern
       = real (length (extent pattern)) * user_pattern_similarity user pattern
   \<and> weight_frequency [1] \<lparr>extent = [1, 2, 3, 4], intent = [1]\<rparr> = 4"
proof -
  have lo: "0 \<le> user_pattern_similarity user pattern"
    by (simp add: user_pattern_similarity_def Let_def)
  have "real (length (intersect1d user (intent pattern))) \<le> real (length (intent pattern))"
    using length_intersect1d_le [of user "intent pattern"] by simp
  then have hi: "user_pattern_similarity user pattern \<le> 1"
    by (simp add: user_pattern_similarity_def Let_def divide_le_eq_1)
  have guard: "user_pattern_similarity user \<lparr>extent = e, intent = []\<rparr> = 0"
    by (simp add: user_pattern_similarity_def)
  have wf: "weight_frequency user pattern
       = real (length (extent pattern)) * user_pattern_similarity user pattern"
    by (simp add: weight_frequency_def)
  have ex: "weight_frequency [1] \<lparr>extent = [1, 2, 3, 4], intent = [1]\<rparr> = 4"
    by (simp add: weight_frequency_def user_pattern_similarity_def intersect1d_def)
  from lo hi guard wf ex show ?thesis by blast
qed

lemma merge_biclusters_nonempty:
  "bs \<noteq> [] \<Longrightarrow> merge_biclusters bs = Inr (merge_biclusters_py_func bs)"
  by (simp add: merge_biclusters_def)

text \<open>
  C7, as the code has it. The function of recommenders/common.py, called with a Python
  list that is not empty, returns the sorted union of the extents and the sorted union
  of the intents, and it is commutative and associative; the empty list is rejected with
  \<^verbatim>\<open>ValueError\<close> before the body runs. The function of knn\_based\_recommenders.py raises
  an assertion error on the empty list and also on every list that holds a bicluster with
  an empty extent or an empty intent; otherwise it returns the same unions.
\<close>

theorem merge_biclusters_union:
  "(bs \<noteq> [] \<longrightarrow>
      merge_biclusters bs =
        Inr \<lparr>extent = sorted_list_of_set (\<Union>b \<in> set bs. set (extent b)),
             intent = sorted_list_of_set (\<Union>b \<in> set bs. set (intent b))\<rparr>)
   \<and> merge_biclusters [] = Inl ValueError
   \<and> merge_biclusters [A, B] = merge_biclusters [B, A]
   \<and> (\<exists>AB BC. merge_biclusters [A, B] = Inr AB \<and> merge_biclusters [B, C] = Inr BC
         \<and> merge_biclusters [AB, C] = merge_biclusters [A, BC])
   \<and> knn_merge_biclusters [] = Inl AssertionError
   \<and> knn_merge_biclusters bs =
       (if bs = [] \<or> list_ex (\<lambda>b. extent b = [] \<or> intent b = []) bs
        then Inl AssertionError else merge_biclusters bs)"
proof -
  have u: "\<And>cs. merge_biclusters_py_func cs =
     \<lparr>extent = sorted_list_of_set (\<Union>b \<in> set cs. set (extent b)),
      intent = sorted_list_of_set (\<Union>b \<in> set cs. set (intent b))\<rparr>"
    by (simp add: merge_biclusters_py_func_def merge_loop_Nil_eq)
  have union: "bs \<noteq> [] \<longrightarrow>
      merge_biclusters bs =
        Inr \<lparr>extent = sorted_list_of_set (\<Union>b \<in> set bs. set (extent b)),
             intent = sorted_list_of_set (\<Union>b \<in> set bs. set (intent b))\<rparr>"
    by (simp add: merge_biclusters_def u)
  have rejected: "merge_biclusters [] = Inl ValueError"
    by (simp add: merge_biclusters_def)
  have comm: "merge_biclusters [A, B] = merge_biclusters [B, A]"
    by (simp add: merge_biclusters_def u Un_commute)
  have "merge_biclusters [merge_biclusters_py_func [A, B], C]
       = merge_biclusters [A, merge_biclusters_py_func [B, C]]"
    by (simp add: merge_biclusters_def u Un_assoc)
  then have assoc: "\<exists>AB BC. merge_biclusters [A, B] = Inr AB \<and> merge_biclusters [B, C] = Inr BC
         \<and> merge_biclusters [AB, C] = merge_biclusters [A, BC]"
    by (simp add: merge_biclusters_nonempty)
  have empty: "knn_merge_biclusters [] = Inl AssertionError"
    by (simp add: knn_merge_biclusters_def)
  have knn: "knn_merge_biclusters bs =
       (if bs = [] \<or> list_ex (\<lambda>b. extent b = [] \<or> intent b = []) bs
        then Inl AssertionError else merge_biclusters bs)"
    by (auto simp: knn_merge_biclusters_def merge_biclusters_def merge_biclusters_py_func_def
          list_all_iff list_ex_iff)
  from union rejected comm assoc empty knn show ?thesis by blast
qed

theorem merge_biclusters_union_witness:
  "merge_biclusters [\<lparr>extent = [1, 2], intent = [1, 2]\<rparr>, \<lparr>extent = [2, 3], intent = [2, 3]\<rparr>]
     = Inr \<lparr>extent = [1, 2, 3], intent = [1, 2, 3]\<rparr>
   \<and> knn_merge_biclusters [\<lparr>extent = [1, 2], intent = [1, 2]\<rparr>, \<lparr>extent = [2, 3], intent = [2, 3]\<rparr>]
     = Inr \<lparr>extent = [1, 2, 3], intent = [1, 2, 3]\<rparr>"
proof -
  let ?bs = "[\<lparr>extent = [1, 2], intent = [1, 2]\<rparr>, \<lparr>extent = [2, 3], intent = [2::nat, 3]\<rparr>]"
  have s: "(\<Union>b \<in> set ?bs. set (extent b)) = {1, 2, 3}"
          "(\<Union>b \<in> set ?bs. set (intent b)) = {1, 2, 3}"
    by auto
  have l: "sorted_list_of_set {1, 2, 3 :: nat} = [1, 2, 3]"
    by simp
  from merge_biclusters_union [of ?bs] show ?thesis
    unfolding s l by simp
qed

text \<open>
  C7, as stated, fails on the function of knn\_based\_recommenders.py: for the bicluster
  with the extent \<open>[0]\<close> and an empty intent (the one \<^verbatim>\<open>BBCF\<close> builds to include a user) it
  raises an assertion error instead of returning the union, which the function of
  recommenders/common.py returns.
\<close>

theorem knn_merge_biclusters_rejects_empty_intent:
  "knn_merge_biclusters [\<lparr>extent = [0], intent = []\<rparr>] = Inl AssertionError
   \<and> merge_biclusters [\<lparr>extent = [0], intent = []\<rparr>] = Inr \<lparr>extent = [0], intent = []\<rparr>"
  by (simp add: knn_merge_biclusters_def merge_biclusters_def merge_biclusters_py_func_def
        union1d_def)

section \<open>The similarity functions\<close>

lemma set_not_null: "set (not_null u) = {k. k < length u \<and> \<not> isnan (u ! k)}"
  by (auto simp: not_null_def)

lemma set_overlap:
  "set (intersect1d (not_null u) (not_null v))
   = {k. k < length u \<and> k < length v \<and> \<not> isnan (u ! k) \<and> \<not> isnan (v ! k)}"
  by (auto simp: set_intersect1d set_not_null)

text \<open>
  A sum of squares is NaN, \<open>+inf\<close> or a number that is not negative: the rounding keeps
  the sign.
\<close>

lemma fmul_self_nonneg:
  "fmul x x \<noteq> NInf \<and> (\<forall>r. fmul x x = Fin r \<longrightarrow> 0 \<le> r)"
proof (cases x)
  case (Fin a)
  have "0 \<le> a * a" by simp
  from round64_nonneg [OF this] show ?thesis by (auto simp: Fin)
qed simp_all

lemma fadd_nonneg:
  assumes "a \<noteq> NInf \<and> (\<forall>r. a = Fin r \<longrightarrow> 0 \<le> r)"
    and "b \<noteq> NInf \<and> (\<forall>r. b = Fin r \<longrightarrow> 0 \<le> r)"
  shows "fadd a b \<noteq> NInf \<and> (\<forall>r. fadd a b = Fin r \<longrightarrow> 0 \<le> r)"
proof (cases a)
  case (Fin x)
  show ?thesis
  proof (cases b)
    case (Fin y)
    from assms \<open>a = Fin x\<close> Fin have "0 \<le> x + y" by simp
    from round64_nonneg [OF this] show ?thesis by (auto simp: \<open>a = Fin x\<close> Fin)
  qed (use assms \<open>a = Fin x\<close> in simp_all)
next
  case PInf
  then show ?thesis using assms by (cases b) simp_all
qed (use assms in simp_all)

lemma foldl_fadd_nonneg:
  assumes "acc \<noteq> NInf \<and> (\<forall>r. acc = Fin r \<longrightarrow> 0 \<le> r)"
    and "\<forall>x \<in> set xs. x \<noteq> NInf \<and> (\<forall>r. x = Fin r \<longrightarrow> 0 \<le> r)"
  shows "foldl fadd acc xs \<noteq> NInf \<and> (\<forall>r. foldl fadd acc xs = Fin r \<longrightarrow> 0 \<le> r)"
  using assms
proof (induction xs arbitrary: acc)
  case Nil
  then show ?case by simp
next
  case (Cons x xs)
  have "fadd acc x \<noteq> NInf \<and> (\<forall>r. fadd acc x = Fin r \<longrightarrow> 0 \<le> r)"
    by (rule fadd_nonneg) (use Cons.prems in simp_all)
  then show ?case
    unfolding foldl_Cons by (rule Cons.IH) (use Cons.prems in simp)
qed

lemma dot_self_nonneg:
  assumes "dot u u = Fin a"
  shows "0 \<le> a"
proof -
  have "\<forall>x \<in> set (map2 fmul u u). x \<noteq> NInf \<and> (\<forall>r. x = Fin r \<longrightarrow> 0 \<le> r)"
    using fmul_self_nonneg by (auto simp: zip_same_conv_map)
  from foldl_fadd_nonneg [OF _ this, of "Fin 0"] assms show ?thesis
    by (simp add: dot_def)
qed

text \<open>
  The shared tail on finite dot products: the denominator is \<open>+inf\<close> (the product of the
  two squared norms overflowed) or a number that is not below \<open>eps\<close>, so nothing is
  divided by zero.
\<close>

lemma similarity_ratio_finite_dots:
  assumes n: "dot cu cv = Fin n" and a: "dot cu cu = Fin a" and b: "dot cv cv = Fin b"
    and e: "0 < e"
  shows "(py_max (fsqrt (fmul (Fin a) (Fin b))) (Fin e) = PInf
            \<and> similarity_ratio cu cv (Fin e) = Fin 0)
         \<or> (\<exists>d. py_max (fsqrt (fmul (Fin a) (Fin b))) (Fin e) = Fin d \<and> e \<le> d
                \<and> similarity_ratio cu cv (Fin e) = round64 (n / d))"
proof -
  define den where "den = py_max (fsqrt (fmul (Fin a) (Fin b))) (Fin e)"
  have ab: "0 \<le> a * b"
    using dot_self_nonneg [OF a] dot_self_nonneg [OF b] by simp
  have sr: "similarity_ratio cu cv (Fin e) = fdiv (Fin n) den"
    by (simp add: similarity_ratio_def n a b den_def)
  have "den = PInf \<or> (\<exists>d. den = Fin d \<and> e \<le> d)"
    using round64_nonneg [OF ab]
  proof
    assume "round64 (a * b) = PInf"
    then show ?thesis by (simp add: den_def py_max_def)
  next
    assume "\<exists>p. round64 (a * b) = Fin p \<and> 0 \<le> p"
    then obtain p where p: "round64 (a * b) = Fin p" "0 \<le> p" by blast
    then have "0 \<le> sqrt p" by simp
    from round64_nonneg [OF this] show ?thesis
    proof
      assume "round64 (sqrt p) = PInf"
      then show ?thesis using p by (simp add: den_def py_max_def)
    next
      assume "\<exists>s. round64 (sqrt p) = Fin s \<and> 0 \<le> s"
      then obtain s where s: "round64 (sqrt p) = Fin s" by blast
      then have "den = Fin (if s < e then e else s)"
        using p by (simp add: den_def py_max_def)
      moreover have "e \<le> (if s < e then e else s)" by simp
      ultimately show ?thesis by blast
    qed
  qed
  then show ?thesis
  proof
    assume "den = PInf"
    then show ?thesis unfolding sr den_def [symmetric] by simp
  next
    assume "\<exists>d. den = Fin d \<and> e \<le> d"
    then obtain d where d: "den = Fin d" "e \<le> d" by blast
    with e have "d \<noteq> 0" by simp
    then have "fdiv (Fin n) den = round64 (n / d)" by (simp add: d(1))
    with d show ?thesis unfolding sr den_def [symmetric] by blast
  qed
qed

lemma similarity_ratio_not_nan:
  assumes "is_fin (dot cu cv)" "is_fin (dot cu cu)" "is_fin (dot cv cv)" "0 < e"
  shows "\<not> isnan (similarity_ratio cu cv (Fin e))"
proof -
  from assms(1) obtain n where n: "dot cu cv = Fin n" by (cases "dot cu cv") auto
  from assms(2) obtain a where a: "dot cu cu = Fin a" by (cases "dot cu cu") auto
  from assms(3) obtain b where b: "dot cv cv = Fin b" by (cases "dot cv cv") auto
  from similarity_ratio_finite_dots [OF n a b assms(4)] show ?thesis
    by auto
qed

lemma similarity_ratio_is_fin:
  assumes "is_fin (dot cu cv)" "is_fin (dot cu cu)" "is_fin (dot cv cv)" "0 < e"
    and bound: "\<bar>fval (dot cu cv)\<bar> / e < 2 ^ 1023"
  shows "is_fin (similarity_ratio cu cv (Fin e))"
proof -
  from assms(1) obtain n where n: "dot cu cv = Fin n" by (cases "dot cu cv") auto
  from assms(2) obtain a where a: "dot cu cu = Fin a" by (cases "dot cu cu") auto
  from assms(3) obtain b where b: "dot cv cv = Fin b" by (cases "dot cv cv") auto
  from similarity_ratio_finite_dots [OF n a b assms(4)] show ?thesis
  proof
    assume "py_max (fsqrt (fmul (Fin a) (Fin b))) (Fin e) = PInf
            \<and> similarity_ratio cu cv (Fin e) = Fin 0"
    then show ?thesis by simp
  next
    assume "\<exists>d. py_max (fsqrt (fmul (Fin a) (Fin b))) (Fin e) = Fin d \<and> e \<le> d
                \<and> similarity_ratio cu cv (Fin e) = round64 (n / d)"
    then obtain d where d: "e \<le> d" "similarity_ratio cu cv (Fin e) = round64 (n / d)"
      by blast
    have "\<bar>n / d\<bar> = \<bar>n\<bar> / d" using d(1) assms(4) by simp
    also have "\<dots> \<le> \<bar>n\<bar> / e"
      using d(1) assms(4) by (intro divide_left_mono) simp_all
    also have "\<dots> < 2 ^ 1023" using bound by (simp add: n)
    finally obtain r where "round64 (n / d) = Fin r"
      using round64_finite by blast
    then show ?thesis by (simp add: d(2))
  qed
qed

lemma default_eps_value: "default_eps = Fin (3022314549036573 / 2 ^ 78)"
proof -
  have p: "(2::real) powr of_int (- 27) = 1 / 2 ^ 27" "(2::real) powr of_int (- 27 + 1) = 1 / 2 ^ 26"
    "(2::real) powr of_int (max (- 27) (- 1022) - 52) = 1 / 2 ^ 79"
    by (simp_all add: powr_minus_divide)
  have lo: "2 powr of_int (- 27) \<le> \<bar>1 / 10 ^ 8 :: real\<bar>"
    unfolding p by simp
  have hi: "\<bar>1 / 10 ^ 8 :: real\<bar> < 2 powr of_int (- 27 + 1)"
    unfolding p by simp
  have u: "ulp64 (1 / 10 ^ 8) = 1 / 2 ^ 79"
    unfolding ulp64_def floor_log2_eq [OF lo hi] p ..
  have r: "round_half_even (2 ^ 79 / 10 ^ 8) = 6044629098073146"
    by (simp add: round_half_even_def Let_def)
  show ?thesis
    unfolding default_eps_def round64_def u using r
    by (simp add: Let_def float64_max_def)
qed

text \<open>
  C8, as the code has it. Let \<open>common\<close> be the positions at which both vectors hold a value
  that is not NaN. Each of the three similarity functions returns NaN when \<open>common\<close> is
  empty. Otherwise it restricts (and centres) the two vectors to \<open>common\<close> and returns
  the dot product of the two over \<open>max(sqrt(uu * vv), eps)\<close>, all in binary64. When the
  three dot products are finite and \<open>eps\<close> is positive, the denominator is \<open>+inf\<close> or is
  not below \<open>eps\<close>, the result is not NaN, and it is finite whenever the numerator over
  \<open>eps\<close> is below \<open>2^1023\<close>.
\<close>

theorem similarity_overlap_contract:
  fixes dataset :: "float64 list list" and means :: "float64 list" and u_id v_id :: nat
  defines "u \<equiv> dataset ! u_id" and "v \<equiv> dataset ! v_id"
  defines "common \<equiv> intersect1d (not_null u) (not_null v)"
  assumes f: "(sim = cosine_similarity dataset u_id v_id means eps
                 \<and> cu = take_idx u common \<and> cv = take_idx v common)
            \<or> (sim = pearson_similarity dataset u_id v_id means eps
                 \<and> cu = map (\<lambda>x. fsub x (means ! u_id)) (take_idx u common)
                 \<and> cv = map (\<lambda>x. fsub x (means ! v_id)) (take_idx v common))
            \<or> (sim = adjusted_cosine_similarity dataset u_id v_id means eps
                 \<and> cu = map2 fsub (take_idx u common) (take_idx means common)
                 \<and> cv = map2 fsub (take_idx v common) (take_idx means common))"
  shows "set common = {k. k < length u \<and> k < length v \<and> \<not> isnan (u ! k) \<and> \<not> isnan (v ! k)}
    \<and> (common = [] \<longrightarrow> sim = NaN)
    \<and> (common \<noteq> [] \<longrightarrow>
          sim = fdiv (dot cu cv) (py_max (fsqrt (fmul (dot cu cu) (dot cv cv))) eps))
    \<and> (common \<noteq> [] \<and> is_fin (dot cu cv) \<and> is_fin (dot cu cu) \<and> is_fin (dot cv cv)
          \<and> eps = Fin e \<and> 0 < e \<longrightarrow>
          \<not> isnan sim
          \<and> (py_max (fsqrt (fmul (dot cu cu) (dot cv cv))) eps = PInf
              \<or> (\<exists>d. py_max (fsqrt (fmul (dot cu cu) (dot cv cv))) eps = Fin d \<and> e \<le> d))
          \<and> (\<bar>fval (dot cu cv)\<bar> / e < 2 ^ 1023 \<longrightarrow> is_fin sim))"
proof -
  have A: "set common = {k. k < length u \<and> k < length v \<and> \<not> isnan (u ! k) \<and> \<not> isnan (v ! k)}"
    unfolding common_def by (rule set_overlap)
  have B: "common = [] \<Longrightarrow> sim = NaN"
    using f unfolding common_def u_def v_def
    by (auto simp: cosine_similarity_def pearson_similarity_def adjusted_cosine_similarity_def)
  have C: "common \<noteq> [] \<Longrightarrow> sim = similarity_ratio cu cv eps"
    using f unfolding common_def u_def v_def
    by (auto simp: cosine_similarity_def pearson_similarity_def adjusted_cosine_similarity_def
          Let_def)
  have C': "common \<noteq> [] \<Longrightarrow>
            sim = fdiv (dot cu cv) (py_max (fsqrt (fmul (dot cu cu) (dot cv cv))) eps)"
    using C by (simp add: similarity_ratio_def Let_def)
  have D: "\<not> isnan sim
          \<and> (py_max (fsqrt (fmul (dot cu cu) (dot cv cv))) eps = PInf
              \<or> (\<exists>d. py_max (fsqrt (fmul (dot cu cu) (dot cv cv))) eps = Fin d \<and> e \<le> d))
          \<and> (\<bar>fval (dot cu cv)\<bar> / e < 2 ^ 1023 \<longrightarrow> is_fin sim)"
    if h: "common \<noteq> []" "is_fin (dot cu cv)" "is_fin (dot cu cu)" "is_fin (dot cv cv)"
          "eps = Fin e" "0 < e"
  proof -
    from h(2) obtain n where n: "dot cu cv = Fin n" by (cases "dot cu cv") auto
    from h(3) obtain a where a: "dot cu cu = Fin a" by (cases "dot cu cu") auto
    from h(4) obtain b where b: "dot cv cv = Fin b" by (cases "dot cv cv") auto
    have 1: "\<not> isnan sim"
      using similarity_ratio_not_nan [OF h(2,3,4,6)] C [OF h(1)] h(5) by simp
    have 2: "py_max (fsqrt (fmul (dot cu cu) (dot cv cv))) eps = PInf
              \<or> (\<exists>d. py_max (fsqrt (fmul (dot cu cu) (dot cv cv))) eps = Fin d \<and> e \<le> d)"
      using similarity_ratio_finite_dots [OF n a b h(6)] unfolding a b h(5) by blast
    have 3: "\<bar>fval (dot cu cv)\<bar> / e < 2 ^ 1023 \<Longrightarrow> is_fin sim"
      using similarity_ratio_is_fin [OF h(2,3,4,6)] C [OF h(1)] h(5) by simp
    from 1 2 3 show ?thesis by blast
  qed
  from A B C' D show ?thesis by blast
qed

lemma upt_4: "[0..<4] = [0, 1, 2, 3]"
  by (simp add: upt_rec)

theorem similarity_overlap_contract_witness:
  "\<not> isnan (cosine_similarity [[Fin 2, Fin 3, Fin 1, NaN], [Fin 1, Fin 2, Fin 5, Fin 4]] 0 1 []
              default_eps)
   \<and> is_fin (cosine_similarity [[Fin 2, Fin 3, Fin 1, NaN], [Fin 1, Fin 2, Fin 5, Fin 4]] 0 1 []
              default_eps)
   \<and> cosine_similarity [[Fin 2, Fin 3, Fin 1, NaN], [Fin 1, Fin 2, Fin 5, Fin 4]] 0 1 []
        default_eps
      = fdiv (Fin 13) (py_max (fsqrt (fmul (Fin 14) (Fin 30))) default_eps)
   \<and> pearson_similarity [[Fin 2, NaN], [NaN, Fin 4]] 0 1 [Fin 2, Fin 4] default_eps = NaN"
proof -
  let ?ds = "[[Fin 2, Fin 3, Fin 1, NaN], [Fin 1, Fin 2, Fin 5, Fin 4]]"
  let ?sim = "cosine_similarity ?ds 0 1 [] default_eps"
  let ?c = "intersect1d (not_null (?ds ! 0)) (not_null (?ds ! 1))"
  let ?cu = "take_idx (?ds ! 0) ?c" and ?cv = "take_idx (?ds ! 1) ?c"
  let ?e = "3022314549036573 / 2 ^ 78 :: real"
  have c: "?c = [0, 1, 2]"
    by (simp add: intersect1d_def not_null_def upt_4)
  have cu: "?cu = [Fin 2, Fin 3, Fin 1]" and cv: "?cv = [Fin 1, Fin 2, Fin 5]"
    unfolding c by (simp_all add: take_idx_def)
  have d: "dot ?cu ?cv = Fin 13" "dot ?cu ?cu = Fin 14" "dot ?cv ?cv = Fin 30"
    unfolding cu cv by (simp_all add: dot_def)
  have cne: "?c \<noteq> []" unfolding c by simp
  have fin: "is_fin (dot ?cu ?cv)" "is_fin (dot ?cu ?cu)" "is_fin (dot ?cv ?cv)"
    unfolding d by simp_all
  have e: "(0::real) < ?e" by simp
  have b: "\<bar>fval (dot ?cu ?cv)\<bar> / ?e < 2 ^ 1023" unfolding d by simp
  note th = similarity_overlap_contract [of ?sim ?ds 0 1 "[]" default_eps ?cu ?cv ?e]
  from th have C: "?c \<noteq> [] \<longrightarrow>
          ?sim = fdiv (dot ?cu ?cv) (py_max (fsqrt (fmul (dot ?cu ?cu) (dot ?cv ?cv))) default_eps)"
    by blast
  from th have D: "?c \<noteq> [] \<and> is_fin (dot ?cu ?cv) \<and> is_fin (dot ?cu ?cu) \<and> is_fin (dot ?cv ?cv)
          \<and> default_eps = Fin ?e \<and> 0 < ?e \<longrightarrow>
          \<not> isnan ?sim \<and> (\<bar>fval (dot ?cu ?cv)\<bar> / ?e < 2 ^ 1023 \<longrightarrow> is_fin ?sim)"
    by blast
  from D cne fin default_eps_value e b have 1: "\<not> isnan ?sim" "is_fin ?sim"
    by blast+
  from C cne have 2: "?sim = fdiv (Fin 13) (py_max (fsqrt (fmul (Fin 14) (Fin 30))) default_eps)"
    unfolding d by blast
  let ?ds2 = "[[Fin 2, NaN], [NaN, Fin 4]]"
  let ?c2 = "intersect1d (not_null (?ds2 ! 0)) (not_null (?ds2 ! 1))"
  have c2: "?c2 = []"
    by (simp add: intersect1d_def not_null_def upt_rec)
  from similarity_overlap_contract
         [of "pearson_similarity ?ds2 0 1 [Fin 2, Fin 4] default_eps" ?ds2 0 1 "[Fin 2, Fin 4]"
             default_eps
             "map (\<lambda>x. fsub x ([Fin 2, Fin 4] ! 0)) (take_idx (?ds2 ! 0) ?c2)"
             "map (\<lambda>x. fsub x ([Fin 2, Fin 4] ! 1)) (take_idx (?ds2 ! 1) ?c2)"]
  have "?c2 = [] \<longrightarrow> pearson_similarity ?ds2 0 1 [Fin 2, Fin 4] default_eps = NaN"
    by blast
  with c2 have 3: "pearson_similarity ?ds2 0 1 [Fin 2, Fin 4] default_eps = NaN"
    by blast
  from 1 2 3 show ?thesis by blast
qed

text \<open>
  C8, as stated, fails: the two one-element vectors \<open>[2^600]\<close> overlap, and their cosine
  similarity is NaN. The three dot products overflow to \<open>+inf\<close>, the denominator is
  \<open>+inf\<close>, and \<open>inf / inf\<close> is NaN.
\<close>

theorem cosine_similarity_overflow_is_nan:
  "cosine_similarity [[Fin (2 ^ 600)], [Fin (2 ^ 600)]] 0 1 [] default_eps = NaN
   \<and> intersect1d (not_null [Fin (2 ^ 600)]) (not_null [Fin (2 ^ 600)]) = [0]"
proof -
  obtain x :: real where x: "x = 2 ^ 600" by simp
  have "(2::real) ^ 1024 \<le> 2 ^ 600 * 2 ^ 600" by simp
  then have o: "round64 (x * x) = PInf"
    unfolding x by (rule round64_overflow)
  have c: "intersect1d (not_null [Fin x]) (not_null [Fin x]) = [0]"
    by (simp add: intersect1d_def not_null_def)
  have d: "dot [Fin x] [Fin x] = PInf"
    unfolding dot_def by (simp add: o)
  have "cosine_similarity [[Fin x], [Fin x]] 0 1 [] default_eps = NaN"
    by (simp add: cosine_similarity_def c take_idx_def similarity_ratio_def d py_max_def
          default_eps_value)
  with c show ?thesis unfolding x by simp
qed

section \<open>The similarity cache\<close>

lemma set2_nth:
  assumes "a < length m" "b < length (m ! a)"
  shows "set2 m i j v ! a ! b = (if a = i \<and> b = j then v else m ! a ! b)"
  using assms by (cases "a = i") (simp_all add: set2_def nth_list_update)

lemma set2_length [simp]: "length (set2 m i j v) = length m"
  by (simp add: set2_def)

lemma set2_row_length [simp]: "a < length m \<Longrightarrow> length (set2 m i j v ! a) = length (m ! a)"
  by (cases "a = i") (simp_all add: set2_def nth_list_update)

lemma set2_set2_nth:
  assumes "a < length m" "b < length (m ! a)"
  shows "set2 (set2 m i j v) j i v ! a ! b
         = (if (a = i \<and> b = j) \<or> (a = j \<and> b = i) then v else m ! a ! b)"
proof -
  have 1: "set2 (set2 m i j v) j i v ! a ! b
        = (if a = j \<and> b = i then v else set2 m i j v ! a ! b)"
    by (rule set2_nth) (simp_all add: assms)
  have 2: "set2 m i j v ! a ! b = (if a = i \<and> b = j then v else m ! a ! b)"
    by (rule set2_nth) (simp_all add: assms)
  show ?thesis
  proof (cases "a = j \<and> b = i")
    case True
    with 1 show ?thesis by (simp only: if_True simp_thms)
  next
    case False
    with 1 have "set2 (set2 m i j v) j i v ! a ! b = set2 m i j v ! a ! b"
      by (simp only: if_False)
    with 2 False show ?thesis by (simp only: simp_thms)
  qed
qed

text \<open>
  C2, as the code has it. The cache is looked up first, for every pair of indices: a hit
  (an entry that is not NaN) returns the cached value and changes nothing, also when
  \<open>i = j\<close>. On a miss with \<open>i = j\<close> the result is 1.0, the strategy is not invoked,
  and 1.0 is written into the entry \<open>(i, i)\<close>. On a miss with \<open>i \<noteq> j\<close> the strategy is
  invoked once and its result is written into both \<open>(i, j)\<close> and \<open>(j, i)\<close>, every other
  entry staying as it was. Without a cache, \<open>i = j\<close> returns 1.0. In no case does
  \<open>i = j\<close> invoke the strategy.
\<close>

theorem get_similarity_cache_contract:
  assumes "i < length m" "j < length m" "\<forall>row \<in> set m. length row = length m"
  shows "(\<not> isnan (m ! i ! j) \<longrightarrow>
            get_similarity i j dataset means (Some m) strategy calls = (m ! i ! j, Some m, calls))
    \<and> (isnan (m ! i ! i) \<longrightarrow>
            get_similarity i i dataset means (Some m) strategy calls
              = (Fin 1, Some (set2 m i i (Fin 1)), calls))
    \<and> get_similarity i i dataset means None strategy calls = (Fin 1, None, calls)
    \<and> snd (snd (get_similarity i i dataset means (Some m) strategy calls)) = calls
    \<and> (i \<noteq> j \<and> isnan (m ! i ! j) \<longrightarrow>
          (\<exists>m'. get_similarity i j dataset means (Some m) strategy calls
                  = (strategy dataset i j means, Some m', calls @ [(i, j)])
              \<and> length m' = length m
              \<and> (\<forall>a < length m. \<forall>b < length m.
                    length (m' ! a) = length m
                    \<and> m' ! a ! b = (if (a = i \<and> b = j) \<or> (a = j \<and> b = i)
                                     then strategy dataset i j means else m ! a ! b))))"
proof -
  have rows: "\<And>a. a < length m \<Longrightarrow> length (m ! a) = length m"
    using assms(3) by simp
  have hit: "\<not> isnan (m ! i ! j) \<longrightarrow>
            get_similarity i j dataset means (Some m) strategy calls = (m ! i ! j, Some m, calls)"
    by (simp add: get_similarity_def)
  have "set2 (set2 m i i (Fin 1)) i i (Fin 1) = set2 m i i (Fin 1)"
    using assms(1) by (simp add: set2_def)
  then have ident: "isnan (m ! i ! i) \<longrightarrow>
            get_similarity i i dataset means (Some m) strategy calls
              = (Fin 1, Some (set2 m i i (Fin 1)), calls)"
    by (simp add: get_similarity_def)
  have none: "get_similarity i i dataset means None strategy calls = (Fin 1, None, calls)"
    by (simp add: get_similarity_def)
  have nocall: "snd (snd (get_similarity i i dataset means (Some m) strategy calls)) = calls"
    by (simp add: get_similarity_def)
  have miss: "i \<noteq> j \<and> isnan (m ! i ! j) \<longrightarrow>
          (\<exists>m'. get_similarity i j dataset means (Some m) strategy calls
                  = (strategy dataset i j means, Some m', calls @ [(i, j)])
              \<and> length m' = length m
              \<and> (\<forall>a < length m. \<forall>b < length m.
                    length (m' ! a) = length m
                    \<and> m' ! a ! b = (if (a = i \<and> b = j) \<or> (a = j \<and> b = i)
                                     then strategy dataset i j means else m ! a ! b)))"
  proof
    assume h: "i \<noteq> j \<and> isnan (m ! i ! j)"
    let ?v = "strategy dataset i j means"
    let ?m' = "set2 (set2 m i j ?v) j i ?v"
    have 1: "get_similarity i j dataset means (Some m) strategy calls
                  = (?v, Some ?m', calls @ [(i, j)])"
      using h by (simp add: get_similarity_def)
    have 2: "length ?m' = length m" by simp
    have 3: "\<forall>a < length m. \<forall>b < length m.
                    length (?m' ! a) = length m
                    \<and> ?m' ! a ! b = (if (a = i \<and> b = j) \<or> (a = j \<and> b = i)
                                     then ?v else m ! a ! b)"
      using rows by (simp add: set2_set2_nth)
    from 1 2 3 show "\<exists>m'. get_similarity i j dataset means (Some m) strategy calls
                  = (?v, Some m', calls @ [(i, j)])
              \<and> length m' = length m
              \<and> (\<forall>a < length m. \<forall>b < length m.
                    length (m' ! a) = length m
                    \<and> m' ! a ! b = (if (a = i \<and> b = j) \<or> (a = j \<and> b = i)
                                     then ?v else m ! a ! b))"
      by blast
  qed
  from hit ident none nocall miss show ?thesis by blast
qed

theorem get_similarity_cache_contract_witness:
  "get_similarity 0 0 [[Fin 1, Fin 2], [Fin 2, Fin 1]] [Fin 1, Fin 1]
      (Some [[NaN, NaN], [Fin (1 / 2), NaN]]) (\<lambda>d i j ms. cosine_similarity d i j ms default_eps) []
     = (Fin 1, Some [[Fin 1, NaN], [Fin (1 / 2), NaN]], [])
   \<and> get_similarity 1 0 [[Fin 1, Fin 2], [Fin 2, Fin 1]] [Fin 1, Fin 1]
      (Some [[NaN, NaN], [Fin (1 / 2), NaN]]) (\<lambda>d i j ms. cosine_similarity d i j ms default_eps) []
     = (Fin (1 / 2), Some [[NaN, NaN], [Fin (1 / 2), NaN]], [])"
  using get_similarity_cache_contract
    [of 0 "[[NaN, NaN], [Fin (1 / 2), NaN]]" 0 "[[Fin 1, Fin 2], [Fin 2, Fin 1]]" "[Fin 1, Fin 1]"
        "\<lambda>d i j ms. cosine_similarity d i j ms default_eps" "[]"]
    get_similarity_cache_contract
    [of 1 "[[NaN, NaN], [Fin (1 / 2), NaN]]" 0 "[[Fin 1, Fin 2], [Fin 2, Fin 1]]" "[Fin 1, Fin 1]"
        "\<lambda>d i j ms. cosine_similarity d i j ms default_eps" "[]"]
  by (simp add: set2_def)

text \<open>
  C2, as stated, fails twice for \<open>i = j\<close>: with the entry \<open>(0, 0)\<close> of the cache holding
  0.1 the call returns 0.1, not 1.0; and on a cache of NaN the call writes 1.0 into the
  entry \<open>(0, 0)\<close>, so the cache write is not bypassed.
\<close>

theorem get_similarity_identity_reads_and_writes_cache:
  "fst (get_similarity 0 0 [[Fin 1, Fin 2, Fin 3], [Fin 3, Fin 4, Fin 6], [Fin 7, Fin 8, Fin 9]] []
      (Some [[Fin (1 / 10), Fin (2 / 10), Fin (3 / 10)],
             [Fin (4 / 10), Fin (5 / 10), Fin (6 / 10)],
             [Fin (7 / 10), Fin (8 / 10), Fin (9 / 10)]])
      (\<lambda>d i j ms. pearson_similarity d i j ms default_eps) []) = Fin (1 / 10)
   \<and> fst (snd (get_similarity 0 0 [[Fin 1, Fin 2, Fin 3], [Fin 3, Fin 4, Fin 6], [Fin 7, Fin 8, Fin 9]] []
      (Some [[NaN, NaN, NaN], [NaN, NaN, NaN], [NaN, NaN, NaN]])
      (\<lambda>d i j ms. pearson_similarity d i j ms default_eps) []))
     = Some [[Fin 1, NaN, NaN], [NaN, NaN, NaN], [NaN, NaN, NaN]]"
  by (simp add: get_similarity_def set2_def)

section \<open>The estimators\<close>

lemma upt_2: "[0..<2] = [0, 1]"
  by (simp add: upt_rec)

lemma upt_3: "[0..<3] = [0, 1, 2]"
  by (simp add: upt_rec)

lemma ex_dataset:
  "convert_trainset_to_matrix example_trainset
   = [[Fin 1, Fin 3, NaN], [Fin 1, Fin 3, Fin 2], [Fin 3, Fin 1, Fin 2]]"
  by (simp add: convert_trainset_to_matrix_def example_trainset_def upt_3)

lemma ex_means:
  "calculate_means (n_users example_trainset) (ur example_trainset) = [Fin 2, Fin 2, Fin 2]"
  by (simp add: calculate_means_def example_trainset_def np_mean_def numeral_3_eq_3)


lemma ex_item_means:
  "calculate_means (n_items example_trainset) (ir example_trainset)
   = [round64 (5 / 3), round64 (7 / 3), Fin 2]"
  by (simp add: calculate_means_def example_trainset_def np_mean_def numeral_3_eq_3)

lemma ex_init:
  "bbcf_init \<lparr>dataset_binarization_threshold = None, mine_patterns = (\<lambda>ts. example_biclusters)\<rparr>
        UserBased None weight_frequency 5 None False
   = Inr \<lparr>bbcf_mining_strategy =
             \<lparr>dataset_binarization_threshold = None, mine_patterns = (\<lambda>ts. example_biclusters)\<rparr>,
           bbcf_knn_type = UserBased,
           bbcf_number_of_top_k_biclusters = None,
           bbcf_bicluster_similarity_strategy = weight_frequency,
           bbcf_knn_k = 5,
           bbcf_force_knn_similarity_strategy = None,
           bbcf_force_inclusion_of_user = False,
           bbcf_dataset = [],
           bbcf_neighborhood = Map.empty,
           bbcf_similarity_matrix = Map.empty,
           bbcf_user_means = [],
           bbcf_item_means = [],
           bbcf_biclusters = [],
           bbcf_trainset = None\<rparr>"
  by (simp add: bbcf_init_def)

lemma ex_tidset0:
  "get_indices_above_threshold [Fin 1, Fin 3, NaN] (Fin 1) = [0, 1]"
  by (simp add: get_indices_above_threshold_def fge_def upt_3)

lemma ex_wf:
  "weight_frequency [0, 1] \<lparr>extent = [0, 1, 2], intent = [0, 1]\<rparr> = 3"
  "weight_frequency [0, 1] \<lparr>extent = [1, 2], intent = [0, 1, 2]\<rparr> = 4 / 3"
  by (simp_all add: weight_frequency_def user_pattern_similarity_def intersect1d_def)

lemma ex_topk0:
  "get_top_k_biclusters_for_user example_biclusters [0, 1] 2 weight_frequency
   = [\<lparr>extent = [1, 2], intent = [0, 1, 2]\<rparr>, \<lparr>extent = [0, 1, 2], intent = [0, 1]\<rparr>]"
  by (simp add: get_top_k_biclusters_for_user_def example_biclusters_def ex_wf py_last_def
        upt_rec [of 0 2] upt_rec [of 1 2] del: One_nat_def)

lemma ex_merge:
  "merge_biclusters_py_func [\<lparr>extent = [1, 2], intent = [0, 1, 2]\<rparr>, \<lparr>extent = [0, 1, 2], intent = [0, 1]\<rparr>]
   = \<lparr>extent = [0, 1, 2], intent = [0, 1, 2]\<rparr>"
  by (simp add: merge_biclusters_py_func_def union1d_def)

lemma bbcf_merged_bicluster_cong:
  assumes "bbcf_dataset s = bbcf_dataset t" "bbcf_biclusters s = bbcf_biclusters t"
    and "bbcf_number_of_top_k_biclusters s = bbcf_number_of_top_k_biclusters t"
    and "bbcf_bicluster_similarity_strategy s = bbcf_bicluster_similarity_strategy t"
    and "bbcf_force_inclusion_of_user s = bbcf_force_inclusion_of_user t"
  shows "bbcf_merged_bicluster s thr u = bbcf_merged_bicluster t thr u"
  unfolding bbcf_merged_bicluster_def assms ..

lemma bbcf_merged_bicluster_neighborhood_update [simp]:
  "bbcf_merged_bicluster (s\<lparr>bbcf_neighborhood := n\<rparr>) thr u = bbcf_merged_bicluster s thr u"
  by (rule bbcf_merged_bicluster_cong) simp_all

lemma generate_neighborhood_fold:
  "fold (\<lambda>user_id s.
           s\<lparr>bbcf_neighborhood :=
               (bbcf_neighborhood s)(user_id \<mapsto> bbcf_merged_bicluster s thr user_id)\<rparr>) us s
   = s\<lparr>bbcf_neighborhood :=
         (\<lambda>u. if u \<in> set us then Some (bbcf_merged_bicluster s thr u) else bbcf_neighborhood s u)\<rparr>"
proof (induction us arbitrary: s)
  case Nil
  show ?case by simp
next
  case (Cons a us)
  show ?case
    unfolding fold_simps Cons.IH
    by (auto simp: fun_eq_iff)
qed

lemma bbcf_generate_neighborhood_eq:
  "bbcf_generate_neighborhood self =
     self\<lparr>bbcf_neighborhood :=
           (\<lambda>u. if u < length (bbcf_dataset self)
                then Some (bbcf_merged_bicluster self
                             (case dataset_binarization_threshold (bbcf_mining_strategy self) of
                                None \<Rightarrow> Fin 1 | Some t \<Rightarrow> Fin t) u)
                else bbcf_neighborhood self u)\<rparr>"
  unfolding bbcf_generate_neighborhood_def Let_def generate_neighborhood_fold
  by simp

lemma bbcf_fit_fields:
  "bbcf_trainset (bbcf_fit self ts) = Some ts"
  "bbcf_dataset (bbcf_fit self ts) = convert_trainset_to_matrix ts"
  "bbcf_biclusters (bbcf_fit self ts) = mine_patterns (bbcf_mining_strategy self) ts"
  "bbcf_user_means (bbcf_fit self ts) = calculate_means (n_users ts) (ur ts)"
  "bbcf_item_means (bbcf_fit self ts) = calculate_means (n_items ts) (ir ts)"
  "bbcf_knn_type (bbcf_fit self ts) = bbcf_knn_type self"
  "bbcf_knn_k (bbcf_fit self ts) = bbcf_knn_k self"
  "bbcf_force_knn_similarity_strategy (bbcf_fit self ts) = bbcf_force_knn_similarity_strategy self"
  "bbcf_similarity_matrix (bbcf_fit self ts) = bbcf_similarity_matrix self"
  by (simp_all add: bbcf_fit_def Let_def bbcf_generate_neighborhood_eq bbcf_calculate_means_def)

lemma bbcf_fit_neighborhood:
  assumes "u < n_users ts"
  shows "bbcf_neighborhood (bbcf_fit self ts) u =
     Some (bbcf_merged_bicluster
             (self\<lparr>bbcf_dataset := convert_trainset_to_matrix ts,
                   bbcf_biclusters := mine_patterns (bbcf_mining_strategy self) ts,
                   bbcf_number_of_top_k_biclusters :=
                     (if bbcf_number_of_top_k_biclusters self = None
                         \<or> bbcf_number_of_top_k_biclusters self = Some 0
                      then Some (length (mine_patterns (bbcf_mining_strategy self) ts))
                      else bbcf_number_of_top_k_biclusters self)\<rparr>)
             (case dataset_binarization_threshold (bbcf_mining_strategy self) of
                None \<Rightarrow> Fin 1 | Some t \<Rightarrow> Fin t) u)"
    (is "_ = ?rhs")
proof -
  have len: "length (convert_trainset_to_matrix ts) = n_users ts"
    by (simp add: convert_trainset_to_matrix_def)
  have "bbcf_neighborhood (bbcf_fit self ts) u =
     Some (bbcf_merged_bicluster
             (let s1 = self\<lparr>bbcf_trainset := Some ts\<rparr>;
                  s2 = s1\<lparr>bbcf_dataset := convert_trainset_to_matrix ts\<rparr>;
                  s3 = s2\<lparr>bbcf_biclusters := mine_patterns (bbcf_mining_strategy self) ts\<rparr>
              in (if bbcf_number_of_top_k_biclusters s3 = None
                     \<or> bbcf_number_of_top_k_biclusters s3 = Some 0
                  then s3\<lparr>bbcf_number_of_top_k_biclusters := Some (length (bbcf_biclusters s3))\<rparr>
                  else s3))
             (case dataset_binarization_threshold (bbcf_mining_strategy self) of
                None \<Rightarrow> Fin 1 | Some t \<Rightarrow> Fin t) u)"
    using assms
    by (simp add: bbcf_fit_def Let_def bbcf_generate_neighborhood_eq bbcf_calculate_means_def len)
  also have "\<dots> = ?rhs"
    unfolding Let_def
    by (intro arg_cong [where f = Some] bbcf_merged_bicluster_cong) simp_all
  finally show ?thesis .
qed

lemma ex_nb0:
  "bbcf_neighborhood example_bbcf 0 = Some \<lparr>extent = [0, 1, 2], intent = [0, 1, 2]\<rparr>"
proof -
  have n: "(0::nat) < n_users example_trainset" by (simp add: example_trainset_def)
  have l: "length example_biclusters = 2" by (simp add: example_biclusters_def)
  have ne: "example_biclusters \<noteq> []" by (simp add: example_biclusters_def)
  show ?thesis
    unfolding example_bbcf_def ex_init bbcf_fit_neighborhood [OF n]
    by (simp add: bbcf_merged_bicluster_def Let_def ex_dataset l ne ex_tidset0 ex_topk0 ex_merge
          del: One_nat_def)
qed

lemma replicate_3: "replicate 3 x = [x, x, x]"
  by (simp add: numeral_3_eq_3)

lemma sqrt_4: "sqrt 4 = 2"
  using real_sqrt_abs [of 2] by simp

lemma ex_pearson_num:
  "pearson_similarity [[Fin 1, Fin 3, NaN], [Fin 1, Fin 3, Fin 2], [Fin 3, Fin 1, Fin 2]] 0 1
     [Fin 2, Fin 2, Fin 2] default_eps = Fin 1"
  "pearson_similarity [[Fin 1, Fin 3, NaN], [Fin 1, Fin 3, Fin 2], [Fin 3, Fin 1, Fin 2]] 0 2
     [Fin 2, Fin 2, Fin 2] default_eps = Fin (- 1)"
  "pearson_similarity [[Fin 1, Fin 3, NaN], [Fin 1, Fin 3, Fin 2], [Fin 3, Fin 1, Fin 2]] 1 2
     [Fin 2, Fin 2, Fin 2] default_eps = Fin (- 1)"
  by (simp_all add: pearson_similarity_def not_null_def intersect1d_def upt_3 take_idx_def
        similarity_ratio_def dot_def fsub_def py_max_def default_eps_value sqrt_4)

lemma ex_pearson:
  "i = 0 \<Longrightarrow> j = 1 \<Longrightarrow>
   pearson_similarity [[Fin 1, Fin 3, NaN], [Fin 1, Fin 3, Fin 2], [Fin 3, Fin 1, Fin 2]] i j
     [Fin 2, Fin 2, Fin 2] default_eps = Fin 1"
  "i = 0 \<Longrightarrow> j = 2 \<Longrightarrow>
   pearson_similarity [[Fin 1, Fin 3, NaN], [Fin 1, Fin 3, Fin 2], [Fin 3, Fin 1, Fin 2]] i j
     [Fin 2, Fin 2, Fin 2] default_eps = Fin (- 1)"
  "i = 1 \<Longrightarrow> j = 2 \<Longrightarrow>
   pearson_similarity [[Fin 1, Fin 3, NaN], [Fin 1, Fin 3, Fin 2], [Fin 3, Fin 1, Fin 2]] i j
     [Fin 2, Fin 2, Fin 2] default_eps = Fin (- 1)"
  using ex_pearson_num by simp_all

lemma ex_similarity_matrix:
  "get_similarity_matrix [[Fin 1, Fin 3, NaN], [Fin 1, Fin 3, Fin 2], [Fin 3, Fin 1, Fin 2]]
     [Fin 2, Fin 2, Fin 2] (\<lambda>d i j ms. pearson_similarity d i j ms default_eps)
   = [[Fin 1, Fin 1, Fin (- 1)], [Fin 1, Fin 1, Fin (- 1)], [Fin (- 1), Fin (- 1), Fin 1]]"
proof -
  have len: "length [[Fin 1, Fin 3, NaN], [Fin 1, Fin 3, Fin 2], [Fin 3, Fin 1, Fin 2]] = 3"
    by simp
  show ?thesis
    unfolding get_similarity_matrix_def get_similarity_matrix_calls_def Let_def len upt_3 replicate_3
    by (simp add: get_similarity_matrix_step_def get_similarity_def set2_def ex_pearson)
qed

lemma ex_fields:
  "bbcf_trainset example_bbcf = Some example_trainset"
  "bbcf_dataset example_bbcf = [[Fin 1, Fin 3, NaN], [Fin 1, Fin 3, Fin 2], [Fin 3, Fin 1, Fin 2]]"
  "bbcf_user_means example_bbcf = [Fin 2, Fin 2, Fin 2]"
  "bbcf_knn_type example_bbcf = UserBased"
  "bbcf_knn_k example_bbcf = 5"
  "bbcf_force_knn_similarity_strategy example_bbcf = None"
  "bbcf_similarity_matrix example_bbcf = Map.empty"
  unfolding example_bbcf_def ex_init bbcf_fit_fields ex_dataset ex_means
  by simp_all

lemma ex_knows: "knows_user example_trainset 0" "knows_item example_trainset 2"
  by (simp_all add: knows_user_def knows_item_def example_trainset_def)

lemma ex_predict:
  "fst (bbcf_predict example_bbcf 0 2 \<lparr>extent = [0, 1, 2], intent = [0, 1, 2]\<rparr>) = Inr NaN"
proof -
  let ?ds = "[[Fin 1, Fin 3, NaN], [Fin 1, Fin 3, Fin 2], [Fin 3, Fin 1, Fin 2]]"
  have sub: "\<And>xs. xs = [0, 1, 2] \<Longrightarrow> submatrix_of ?ds xs xs = ?ds"
    by (simp add: submatrix_of_def take_idx_def)
  have tk: "\<And>xs. xs = [0, 1, 2] \<Longrightarrow> take_idx [Fin 2, Fin 2, Fin 2] xs = [Fin 2, Fin 2, Fin 2]"
    by (simp add: take_idx_def)
  have fi: "\<And>xs. xs = [0, 1, 2] \<Longrightarrow> first_index xs 0 = 0"
           "\<And>xs. xs = [0, 1, 2] \<Longrightarrow> first_index xs 2 = 2"
    by (simp_all add: first_index_def)
  have col: "column ?ds 2 = [NaN, Fin 2, Fin 2]"
    by (simp add: column_def)
  have srt: "argsort [Fin 1, Fin (- 1)] = [1, 0]"
    by (simp add: argsort_def sorts_after_def upt_rec [of 0 2] upt_rec [of 1 2])
  have tk2: "\<And>(ys :: float64 list) xs. xs = [1, 0] \<Longrightarrow> take_idx ys xs = [ys ! 1, ys ! 0]"
    by (simp add: take_idx_def)
  show ?thesis
    unfolding bbcf_predict_def ex_fields Let_def
    by (simp add: sub tk fi col ex_similarity_matrix ncols_def masked_def srt py_last_def
          tk2 fsub_def signed_inf_def bbcf_weighted_prediction_def)
qed

text \<open>
  C3 on the code. On the estimator fitted on the first training set, the neighbours of
  user 0 for item 2 are users 1 and 2, with the Pearson similarities 1 and -1. Their sum
  is zero, and \<^verbatim>\<open>estimate\<close> returns NaN as the prediction: no failure is raised. In
  \<^verbatim>\<open>calculate_weighted_rating\<close> the same weights fail the assertion on the similarities.
\<close>

theorem bbcf_estimate_zero_similarity_sum:
  "fst (bbcf_estimate example_bbcf 0 2) = Inr NaN
   \<and> calculate_weighted_rating (Fin 2) [Fin 2, Fin 2] [Fin (- 1), Fin 1] [Fin 2, Fin 2]
       = Inl AssertionError"
  using ex_predict
  by (simp add: bbcf_estimate_def ex_fields ex_knows ex_nb0 any_nonzero_def
        calculate_weighted_rating_def)

theorem bbcf_estimate_zero_similarity_sum_witness:
  "isnan (projr (fst (bbcf_estimate example_bbcf 0 2)))"
  using bbcf_estimate_zero_similarity_sum by simp

lemma ex2_init:
  "projr (bbcf_init \<lparr>dataset_binarization_threshold = None,
                          mine_patterns = (\<lambda>ts. [\<lparr>extent = [0], intent = [0, 1]\<rparr>])\<rparr>
                 ItemBased None weight_frequency 5 None False)
   = \<lparr>bbcf_mining_strategy =
             \<lparr>dataset_binarization_threshold = None,
                mine_patterns = (\<lambda>ts. [\<lparr>extent = [0], intent = [0, 1]\<rparr>])\<rparr>,
           bbcf_knn_type = ItemBased,
           bbcf_number_of_top_k_biclusters = None,
           bbcf_bicluster_similarity_strategy = weight_frequency,
           bbcf_knn_k = 5,
           bbcf_force_knn_similarity_strategy = None,
           bbcf_force_inclusion_of_user = False,
           bbcf_dataset = [],
           bbcf_neighborhood = Map.empty,
           bbcf_similarity_matrix = Map.empty,
           bbcf_user_means = [],
           bbcf_item_means = [],
           bbcf_biclusters = [],
           bbcf_trainset = None\<rparr>"
  by (simp add: bbcf_init_def)

lemma ex2_dataset:
  "convert_trainset_to_matrix example_trainset_2 = [[Fin 5, Fin 4, NaN], [NaN, NaN, Fin 3]]"
  by (simp add: convert_trainset_to_matrix_def example_trainset_2_def upt_3 upt_2)

lemma ex2_trainset [simp]: "bbcf_trainset example_bbcf_2 = Some example_trainset_2"
  by (simp add: example_bbcf_2_def bbcf_fit_fields)

lemma ex2_knows:
  "knows_user example_trainset_2 0" "knows_user example_trainset_2 1"
  "knows_item example_trainset_2 1" "knows_item example_trainset_2 2"
  by (simp_all add: knows_user_def knows_item_def example_trainset_2_def)

lemma ex2_nb0:
  "bbcf_neighborhood example_bbcf_2 0 = Some \<lparr>extent = [0], intent = [0, 1]\<rparr>"
proof -
  have n: "(0::nat) < n_users example_trainset_2" by (simp add: example_trainset_2_def)
  have t: "\<And>xs. xs = [Fin 5, Fin 4, NaN] \<Longrightarrow> get_indices_above_threshold xs (Fin 1) = [0, 1]"
    by (simp add: get_indices_above_threshold_def fge_def upt_3)
  have w: "\<And>xs. xs = [0, 1] \<Longrightarrow> weight_frequency xs \<lparr>extent = [0], intent = xs\<rparr> = 1"
    by (simp add: weight_frequency_def user_pattern_similarity_def intersect1d_def)
  have m: "\<And>xs. xs = [0, 1] \<Longrightarrow> union1d [] xs = xs"
    by (simp add: union1d_def)
  show ?thesis
    unfolding example_bbcf_2_def ex2_init bbcf_fit_neighborhood [OF n]
    by (simp add: bbcf_merged_bicluster_def Let_def ex2_dataset t w m
          get_top_k_biclusters_for_user_def py_last_def merge_biclusters_py_func_def union1d_def)
qed

lemma ex2_nb1:
  "bbcf_neighborhood example_bbcf_2 1 = Some \<lparr>extent = [], intent = []\<rparr>"
proof -
  have n: "(1::nat) < n_users example_trainset_2" by (simp add: example_trainset_2_def)
  have t: "\<And>xs. xs = [NaN, NaN, Fin 3] \<Longrightarrow> get_indices_above_threshold xs (Fin 1) = [2]"
    by (simp add: get_indices_above_threshold_def fge_def upt_3)
  have w: "\<And>xs. xs = [0, 1] \<Longrightarrow> weight_frequency [2] \<lparr>extent = [0], intent = xs\<rparr> = 0"
    by (simp add: weight_frequency_def user_pattern_similarity_def intersect1d_def)
  show ?thesis
    unfolding example_bbcf_2_def ex2_init bbcf_fit_neighborhood [OF n]
    by (simp add: bbcf_merged_bicluster_def Let_def ex2_dataset t w
          get_top_k_biclusters_for_user_def py_last_def)
qed

text \<open>
  C9. Whenever the extent of the neighbourhood of a known user is exactly \<open>[0]\<close>, or its
  intent is exactly \<open>[0]\<close>, \<^verbatim>\<open>BBCF.estimate\<close> raises "Not enough neighbors.", although the
  neighbourhood is not empty: \<^verbatim>\<open>.any()\<close> is false on an array whose only element is the
  index 0. The estimator fitted on the second training set is such a model.
\<close>

theorem bbcf_singleton_zero_neighborhood_rejected:
  assumes "bbcf_trainset self = Some ts" "knows_user ts user" "knows_item ts item"
    and "bbcf_neighborhood self user = Some nb"
    and "extent nb = [0] \<or> intent nb = [0]"
  shows "bbcf_estimate self user item
         = (Inl (PredictionImpossible ''Not enough neighbors.''), self)"
  using assms by (auto simp: bbcf_estimate_def any_nonzero_def)

theorem bbcf_singleton_zero_neighborhood_rejected_witness:
  "bbcf_neighborhood example_bbcf_2 0 = Some \<lparr>extent = [0], intent = [0, 1]\<rparr>
   \<and> bbcf_estimate example_bbcf_2 0 1
       = (Inl (PredictionImpossible ''Not enough neighbors.''), example_bbcf_2)"
  using bbcf_singleton_zero_neighborhood_rejected
          [of example_bbcf_2 example_trainset_2 0 1 "\<lparr>extent = [0], intent = [0, 1]\<rparr>"]
        ex2_nb0 ex2_knows
  by simp

text \<open>
  The merge of knn\_based\_recommenders.py never returns an empty extent or an empty
  intent, so \<^verbatim>\<open>BiAKNN.fit\<close> stores no empty neighbourhood: for a user without a bicluster of
  positive similarity the assertion of the merge ends \<^verbatim>\<open>fit\<close>.
\<close>

lemma knn_merge_nonempty:
  assumes "knn_merge_biclusters bs = Inr c"
  shows "extent c \<noteq> [] \<and> intent c \<noteq> []"
proof -
  from assms have ne: "bs \<noteq> []"
    and ex: "list_all (\<lambda>b. extent b \<noteq> []) bs" and it: "list_all (\<lambda>b. intent b \<noteq> []) bs"
    and c: "c = merge_loop bs [] []"
    by (auto simp: knn_merge_biclusters_def split: if_splits)
  from ne obtain b where b: "b \<in> set bs" by (cases bs) auto
  with ex it have "set (extent b) \<noteq> {}" "set (intent b) \<noteq> {}"
    by (auto simp: list_all_iff)
  with b have "set (extent c) \<noteq> {}" "set (intent c) \<noteq> {}"
    unfolding c using merge_loop_sets [of bs "[]" "[]"] by auto
  then show ?thesis by auto
qed

lemma biaknn_user_neighborhood_nonempty:
  assumes "biaknn_user_neighborhood self user_id = Inr neighborhood"
  shows "neighborhood \<noteq> []"
  using assms knn_merge_nonempty
  by (auto simp: biaknn_user_neighborhood_def Let_def split: if_splits sum.splits)

lemma biaknn_generate_neighborhood_nonempty:
  assumes "biaknn_generate_neighborhood self user_ids = Inr self'"
    and "\<forall>u. biaknn_neighborhood self u \<noteq> Some []"
  shows "\<forall>u. biaknn_neighborhood self' u \<noteq> Some []"
  using assms
proof (induction user_ids arbitrary: self)
  case Nil
  then show ?case by simp
next
  case (Cons user_id user_ids)
  from Cons.prems(1) obtain neighborhood where
    n: "biaknn_user_neighborhood self user_id = Inr neighborhood"
    and g: "biaknn_generate_neighborhood
              (self\<lparr>biaknn_neighborhood := (biaknn_neighborhood self)(user_id \<mapsto> neighborhood)\<rparr>)
              user_ids = Inr self'"
    by (auto split: sum.splits)
  from biaknn_user_neighborhood_nonempty [OF n] Cons.prems(2)
  have "\<forall>u. biaknn_neighborhood
              (self\<lparr>biaknn_neighborhood := (biaknn_neighborhood self)(user_id \<mapsto> neighborhood)\<rparr>) u
            \<noteq> Some []"
    by simp
  from Cons.IH [OF g this] show ?case .
qed

lemma biaknn_fit_biclusters_neighborhood:
  assumes "biaknn_fit_biclusters compute_biclusters relative_size_filter self ts = Inr s5"
  shows "biaknn_neighborhood s5 = biaknn_neighborhood self"
  using assms
  by (auto simp: biaknn_fit_biclusters_def Let_def split: sum.splits if_splits)

lemma biaknn_fit_neighborhood_nonempty:
  assumes "biaknn_fit compute_biclusters relative_size_filter self ts = Inr self'"
    and "\<forall>u. biaknn_neighborhood self u \<noteq> Some []"
  shows "biaknn_neighborhood self' user \<noteq> Some []"
proof -
  from assms(1) obtain s5 where
    p: "biaknn_fit_biclusters compute_biclusters relative_size_filter self ts = Inr s5"
    by (cases "biaknn_fit_biclusters compute_biclusters relative_size_filter self ts")
       (simp_all add: biaknn_fit_def)
  from assms(1) obtain s6 where
    g: "biaknn_generate_neighborhood s5 [0..<length (biaknn_dataset s5)] = Inr s6"
    and n6: "biaknn_neighborhood self' = biaknn_neighborhood s6"
    by (cases "biaknn_generate_neighborhood s5 [0..<length (biaknn_dataset s5)]")
       (auto simp: biaknn_fit_def p Let_def)
  from biaknn_generate_neighborhood_nonempty [OF g] assms(2)
    biaknn_fit_biclusters_neighborhood [OF p] n6
  show ?thesis by simp
qed

text \<open>
  The guard of \<^verbatim>\<open>BiAKNN.estimate\<close> for an empty neighbourhood returns the mean of the target.
  It is written for an object that \<^verbatim>\<open>fit\<close> does not produce.
\<close>

lemma biaknn_estimate_empty_neighborhood_guard:
  assumes "biaknn_trainset self = Some ts" "knows_user ts user" "knows_item ts item"
    and "biaknn_neighborhood self user = Some []"
    and "(if biaknn_knn_type self = UserBased then user else item) < length (biaknn_means self)"
  shows "biaknn_estimate compute self user item
         = (Inr (biaknn_means self ! (if biaknn_knn_type self = UserBased then user else item), 0),
            self)"
  using assms by (auto simp: biaknn_estimate_def Let_def)

lemma ex_user_pattern_similarity:
  "user_pattern_similarity [0, 1] \<lparr>extent = [0, 1, 2], intent = [0, 1]\<rparr> = 1"
  "user_pattern_similarity [0, 1] \<lparr>extent = [1, 2], intent = [0, 1, 2]\<rparr> = 2 / 3"
  "user_pattern_similarity [0, 1, 2] \<lparr>extent = [0, 1, 2], intent = [0, 1]\<rparr> = 1"
  "user_pattern_similarity [0, 1, 2] \<lparr>extent = [1, 2], intent = [0, 1, 2]\<rparr> = 1"
  by (simp_all add: user_pattern_similarity_def intersect1d_def)

lemma ex_top_k_biclusters:
  "get_top_k_biclusters_for_user example_biclusters [0, 1] 8 user_pattern_similarity
   = [\<lparr>extent = [1, 2], intent = [0, 1, 2]\<rparr>, \<lparr>extent = [0, 1, 2], intent = [0, 1]\<rparr>]"
  "get_top_k_biclusters_for_user example_biclusters [0, 1, 2] 8 user_pattern_similarity
   = [\<lparr>extent = [0, 1, 2], intent = [0, 1]\<rparr>, \<lparr>extent = [1, 2], intent = [0, 1, 2]\<rparr>]"
  by (simp_all add: get_top_k_biclusters_for_user_def example_biclusters_def
        ex_user_pattern_similarity py_last_def upt_rec [of 0 2] upt_rec [of 1 2]
        del: One_nat_def)

lemma ex_knn_merge:
  "knn_merge_biclusters
     [\<lparr>extent = [1, 2], intent = [0, 1, 2]\<rparr>, \<lparr>extent = [0, 1, 2], intent = [0, 1]\<rparr>]
   = Inr \<lparr>extent = [0, 1, 2], intent = [0, 1, 2]\<rparr>"
  "knn_merge_biclusters
     [\<lparr>extent = [0, 1, 2], intent = [0, 1]\<rparr>, \<lparr>extent = [1, 2], intent = [0, 1, 2]\<rparr>]
   = Inr \<lparr>extent = [0, 1, 2], intent = [0, 1, 2]\<rparr>"
  by (simp_all add: knn_merge_biclusters_def union1d_def)

lemma ex_tidsets:
  "get_indices_above_threshold [Fin 1, Fin 3, NaN] (Fin 1) = [0, 1]"
  "get_indices_above_threshold [Fin 1, Fin 3, Fin 2] (Fin 1) = [0, 1, 2]"
  "get_indices_above_threshold [Fin 3, Fin 1, Fin 2] (Fin 1) = [0, 1, 2]"
  by (simp_all add: get_indices_above_threshold_def fge_def upt_3)

lemma ex_biaknn_user_neighborhood:
  assumes "biaknn_dataset self = [[Fin 1, Fin 3, NaN], [Fin 1, Fin 3, Fin 2], [Fin 3, Fin 1, Fin 2]]"
    and "biaknn_user_binarization_threshold self = 1"
    and "biaknn_biclusters self = example_biclusters"
    and "biaknn_number_of_top_k_biclusters self = Some 8"
    and "biaknn_knn_type self = UserBased"
    and "user_id < 3"
  shows "biaknn_user_neighborhood self user_id = Inr [0, 1, 2]"
proof -
  let ?ds = "[[Fin 1, Fin 3, NaN], [Fin 1, Fin 3, Fin 2], [Fin 3, Fin 1, Fin 2]]"
  have rows: "?ds ! 0 = [Fin 1, Fin 3, NaN]" "?ds ! 1 = [Fin 1, Fin 3, Fin 2]"
    "?ds ! 2 = [Fin 3, Fin 1, Fin 2]"
    by simp_all
  have ne: "example_biclusters \<noteq> []" by (simp add: example_biclusters_def)
  from assms(6) consider "user_id = 0" | "user_id = 1" | "user_id = 2" by linarith
  then show ?thesis
  proof cases
    case 1
    show ?thesis
      unfolding biaknn_user_neighborhood_def assms(1-5) Let_def 1 rows ex_tidsets option.sel
        ex_top_k_biclusters ex_knn_merge
      using ne by simp
  next
    case 2
    show ?thesis
      unfolding biaknn_user_neighborhood_def assms(1-5) Let_def 2 rows ex_tidsets option.sel
        ex_top_k_biclusters ex_knn_merge
      using ne by simp
  next
    case 3
    show ?thesis
      unfolding biaknn_user_neighborhood_def assms(1-5) Let_def 3 rows ex_tidsets option.sel
        ex_top_k_biclusters ex_knn_merge
      using ne by simp
  qed
qed

lemma ex_biaknn_generate_neighborhood:
  assumes "biaknn_dataset self = [[Fin 1, Fin 3, NaN], [Fin 1, Fin 3, Fin 2], [Fin 3, Fin 1, Fin 2]]"
    and "biaknn_user_binarization_threshold self = 1"
    and "biaknn_biclusters self = example_biclusters"
    and "biaknn_number_of_top_k_biclusters self = Some 8"
    and "biaknn_knn_type self = UserBased"
    and "\<forall>u \<in> set user_ids. u < 3"
  shows "biaknn_generate_neighborhood self user_ids
         = Inr (self\<lparr>biaknn_neighborhood :=
                       (\<lambda>u. if u \<in> set user_ids then Some [0, 1, 2]
                            else biaknn_neighborhood self u)\<rparr>)"
  using assms
proof (induction user_ids arbitrary: self)
  case Nil
  then show ?case by simp
next
  case (Cons user_id user_ids)
  let ?s = "self\<lparr>biaknn_neighborhood := (biaknn_neighborhood self)(user_id \<mapsto> [0, 1, 2])\<rparr>"
  have n: "biaknn_user_neighborhood self user_id = Inr [0, 1, 2]"
    by (rule ex_biaknn_user_neighborhood) (use Cons.prems in simp_all)
  have "biaknn_generate_neighborhood ?s user_ids
        = Inr (?s\<lparr>biaknn_neighborhood :=
                      (\<lambda>u. if u \<in> set user_ids then Some [0, 1, 2]
                           else biaknn_neighborhood ?s u)\<rparr>)"
    by (rule Cons.IH) (use Cons.prems in simp_all)
  then show ?case
    by (simp add: n fun_eq_iff)
qed

lemma ex_biaknn_fit:
  "\<exists>fitted. example_biaknn_fit = Inr fitted
     \<and> (\<forall>u < 3. biaknn_neighborhood fitted u = Some [0, 1, 2])
     \<and> biaknn_trainset fitted = Some example_trainset"
proof -
  have g: "\<And>self. biaknn_dataset self
                    = [[Fin 1, Fin 3, NaN], [Fin 1, Fin 3, Fin 2], [Fin 3, Fin 1, Fin 2]] \<Longrightarrow>
             biaknn_user_binarization_threshold self = 1 \<Longrightarrow>
             biaknn_biclusters self = example_biclusters \<Longrightarrow>
             biaknn_number_of_top_k_biclusters self = Some 8 \<Longrightarrow>
             biaknn_knn_type self = UserBased \<Longrightarrow>
             biaknn_generate_neighborhood self [0, Suc 0, Suc (Suc 0)]
             = Inr (self\<lparr>biaknn_neighborhood :=
                           (\<lambda>u. if u \<in> set [0, Suc 0, Suc (Suc 0)] then Some [0, 1, 2]
                                else biaknn_neighborhood self u)\<rparr>)"
    by (rule ex_biaknn_generate_neighborhood) simp_all
  have u: "[0..<Suc (Suc (Suc 0))] = [0, Suc 0, Suc (Suc 0)]" by (simp add: upt_rec)
  show ?thesis
    unfolding example_biaknn_fit_def biaknn_fit_def
    by (simp add: biaknn_init_def biaknn_fit_biclusters_def biaknn_filtered_biclusters_def
          Let_def ex_dataset g u less_Suc_eq numeral_3_eq_3
          del: biaknn_generate_neighborhood.simps)
qed

text \<open>
  C1. \<^verbatim>\<open>BBCF.estimate\<close> on a known pair whose neighbourhood has an empty extent or an empty
  intent raises "Not enough neighbors.", returns no number and leaves the object as it
  was. A \<^verbatim>\<open>BiAKNN\<close> object has no empty neighbourhood after \<^verbatim>\<open>fit\<close> returned, whatever the
  mining and the filters are: the case does not arise for it.
\<close>

theorem empty_neighborhood_estimates:
  "(bbcf_trainset self = Some ts \<and> knows_user ts user \<and> knows_item ts item
      \<and> bbcf_neighborhood self user = Some nb \<and> (extent nb = [] \<or> intent nb = [])
    \<longrightarrow> bbcf_estimate self user item
          = (Inl (PredictionImpossible ''Not enough neighbors.''), self))
   \<and> (biaknn_fit compute_biclusters relative_size_filter before ts' = Inr other
      \<and> (\<forall>u. biaknn_neighborhood before u \<noteq> Some [])
    \<longrightarrow> biaknn_neighborhood other user' \<noteq> Some [])"
proof -
  have "bbcf_trainset self = Some ts \<and> knows_user ts user \<and> knows_item ts item
      \<and> bbcf_neighborhood self user = Some nb \<and> (extent nb = [] \<or> intent nb = [])
    \<longrightarrow> bbcf_estimate self user item
          = (Inl (PredictionImpossible ''Not enough neighbors.''), self)"
    by (auto simp: bbcf_estimate_def any_nonzero_def)
  moreover have "biaknn_fit compute_biclusters relative_size_filter before ts' = Inr other
      \<and> (\<forall>u. biaknn_neighborhood before u \<noteq> Some [])
    \<longrightarrow> biaknn_neighborhood other user' \<noteq> Some []"
    using biaknn_fit_neighborhood_nonempty by blast
  ultimately show ?thesis by blast
qed

theorem empty_neighborhood_estimates_witness:
  "bbcf_neighborhood example_bbcf_2 1 = Some \<lparr>extent = [], intent = []\<rparr>
   \<and> bbcf_estimate example_bbcf_2 1 2
       = (Inl (PredictionImpossible ''Not enough neighbors.''), example_bbcf_2)
   \<and> (\<exists>fitted. example_biaknn_fit = Inr fitted
         \<and> biaknn_neighborhood fitted 0 = Some [0, 1, 2]
         \<and> biaknn_neighborhood fitted 1 \<noteq> Some [])"
proof -
  from ex_biaknn_fit obtain fitted where f: "example_biaknn_fit = Inr fitted"
    and n: "\<forall>u < 3. biaknn_neighborhood fitted u = Some [0, 1, 2]"
    by blast
  have i: "\<forall>u. biaknn_neighborhood (projr (biaknn_init None None None UserBased 1 (Some 8) 5)) u
               \<noteq> Some []"
    by (simp add: biaknn_init_def)
  note th = empty_neighborhood_estimates
          [of example_bbcf_2 example_trainset_2 1 2 "\<lparr>extent = [], intent = []\<rparr>"
              "\<lambda>self. example_biclusters" "\<lambda>ratings_dataset biclusters threshold. Inr biclusters"
              "projr (biaknn_init None None None UserBased 1 (Some 8) 5)" example_trainset
              fitted 1]
  from th ex2_nb1 ex2_knows ex2_trainset
  have 1: "bbcf_estimate example_bbcf_2 1 2
          = (Inl (PredictionImpossible ''Not enough neighbors.''), example_bbcf_2)"
    by simp
  from th f i have 2: "biaknn_neighborhood fitted 1 \<noteq> Some []"
    unfolding example_biaknn_fit_def by blast
  from n have 3: "biaknn_neighborhood fitted 0 = Some [0, 1, 2]" by simp
  from ex2_nb1 1 2 3 f show ?thesis by blast
qed

lemma length_insert_by: "length (insert_by key x ys) = Suc (length ys)"
  by (induction ys) simp_all

lemma length_foldr_insert_by: "length (foldr (insert_by key) xs []) = length xs"
  by (induction xs) (simp_all add: length_insert_by)

lemma length_argsort: "length (argsort xs) = length xs"
  by (simp add: argsort_def length_foldr_insert_by)

lemma masked_map2_nonempty:
  assumes "list_ex (\<lambda>b. b) (map2 f rs ss)"
  shows "masked ss (map2 f rs ss) \<noteq> []"
proof -
  from assms obtain p where p: "p < length (map2 f rs ss)" "map2 f rs ss ! p"
    by (auto simp: list_ex_length)
  then have "(ss ! p, True) \<in> set (zip ss (map2 f rs ss))"
    by (auto simp: set_zip intro!: exI [of _ p])
  then have "filter snd (zip ss (map2 f rs ss)) \<noteq> []"
    by (force simp: filter_empty_conv)
  then show ?thesis by (simp add: masked_def)
qed

lemma py_last_nonempty: "ys \<noteq> [] \<Longrightarrow> 0 < k \<Longrightarrow> py_last (min k (length ys)) ys \<noteq> []"
  by (cases ys) (auto simp: py_last_def min_def)

lemma py_last_argsort_nonempty:
  assumes "xs \<noteq> []" "0 < k"
  shows "py_last (min k (length xs)) (argsort xs) \<noteq> []"
proof -
  have "argsort xs \<noteq> []" using assms(1) length_argsort [of xs] by auto
  from py_last_nonempty [OF this assms(2)] show ?thesis by (simp add: length_argsort)
qed

lemma bbcf_weighted_prediction_never_sum_zero:
  assumes "0 < knn_k"
  shows "bbcf_weighted_prediction knn_k target_mean rs ss ms
         \<noteq> Inl (PredictionImpossible ''Sum of similarities is zero.'')"
proof (cases "list_ex (\<lambda>b. b)
          (map2 (\<lambda>rating similarity. \<not> isnan rating \<and> \<not> isnan similarity \<and> similarity \<noteq> Fin 0)
             rs ss)")
  case False
  then show ?thesis by (simp add: bbcf_weighted_prediction_def)
next
  case True
  from py_last_argsort_nonempty [OF masked_map2_nonempty [OF True] assms] True
  show ?thesis
    by (simp add: bbcf_weighted_prediction_def Let_def split: prod.splits)
qed

lemma bbcf_predict_never_sum_zero:
  assumes "0 < bbcf_knn_k self"
  shows "fst (bbcf_predict self user item nb)
         \<noteq> Inl (PredictionImpossible ''Sum of similarities is zero.'')"
  using bbcf_weighted_prediction_never_sum_zero [OF assms]
  by (simp add: bbcf_predict_def Let_def)

lemma bbcf_estimate_never_sum_zero:
  assumes "0 < bbcf_knn_k self"
  shows "fst (bbcf_estimate self user item)
         \<noteq> Inl (PredictionImpossible ''Sum of similarities is zero.'')"
  using bbcf_predict_never_sum_zero [OF assms]
  by (simp add: bbcf_estimate_def split: option.splits)

section \<open>GreConD: arrays, closures and counts\<close>

lemma rect_row: "rect M n m \<Longrightarrow> r < n \<Longrightarrow> length (M ! r) = m"
  by (simp add: rect_def list_all_length)

lemma rect_ncols: "rect M n m \<Longrightarrow> 0 < n \<Longrightarrow> ncols M = m"
  by (cases M) (auto simp: rect_def ncols_def)

lemma set_galois_it:
  "set (galois_it A T) = {r. r < length A \<and> (\<forall>t \<in> set T. A ! r ! t)}"
  by (auto simp: galois_it_def list_all_iff)

lemma length_transposed: "length (transposed M) = ncols M"
  by (simp add: transposed_def)

lemma transposed_nth:
  "c < ncols M \<Longrightarrow> r < length M \<Longrightarrow> transposed M ! c ! r = M ! r ! c"
  by (simp add: transposed_def)

lemma fold_count:
  "fold (\<lambda>column n. if P column then n + 1 else n) columns (n :: nat)
   = n + length (filter P columns)"
  by (induction columns arbitrary: n) simp_all

lemma fold_add:
  "fold (\<lambda>row n. n + f row) rows (n :: nat) = n + sum_list (map f rows)"
  by (induction rows arbitrary: n) simp_all

lemma submatrix_intersection_size_eq:
  "submatrix_intersection_size rows columns U
   = (\<Sum>row\<leftarrow>rows. length (filter (\<lambda>column. U ! row ! column) columns))"
  by (simp add: submatrix_intersection_size_def fold_count fold_add)

lemma submatrix_intersection_size_pos_iff:
  "0 < submatrix_intersection_size rows columns U
   \<longleftrightarrow> (\<exists>r \<in> set rows. \<exists>c \<in> set columns. U ! r ! c)"
proof -
  have "submatrix_intersection_size rows columns U = 0
        \<longleftrightarrow> (\<forall>r \<in> set rows. \<forall>c \<in> set columns. \<not> U ! r ! c)"
    by (auto simp: submatrix_intersection_size_eq sum_list_eq_0_iff filter_empty_conv)
  then show ?thesis by auto
qed

lemma erase_inner_length [simp]:
  "length (fold (\<lambda>column U. set2 U row column False) columns U) = length U"
  by (induction columns arbitrary: U) simp_all

lemma erase_inner_row_length [simp]:
  "r < length U \<Longrightarrow>
   length (fold (\<lambda>column U. set2 U row column False) columns U ! r) = length (U ! r)"
  by (induction columns arbitrary: U) simp_all

lemma erase_inner_nth:
  assumes "r < length U" "c < length (U ! r)"
  shows "fold (\<lambda>column U. set2 U row column False) columns U ! r ! c
         = (U ! r ! c \<and> \<not> (r = row \<and> c \<in> set columns))"
  using assms
proof (induction columns arbitrary: U)
  case Nil
  show ?case by simp
next
  case (Cons a columns)
  have "fold (\<lambda>column U. set2 U row column False) (a # columns) U ! r ! c
        = (set2 U row a False ! r ! c \<and> \<not> (r = row \<and> c \<in> set columns))"
    unfolding fold_simps by (rule Cons.IH) (simp_all add: Cons.prems)
  also have "set2 U row a False ! r ! c = (if r = row \<and> c = a then False else U ! r ! c)"
    by (rule set2_nth) (simp_all add: Cons.prems)
  finally show ?case by auto
qed

lemma erase_length [simp]: "length (erase_submatrix_values rows columns U) = length U"
  unfolding erase_submatrix_values_def
  by (induction rows arbitrary: U) simp_all

lemma erase_row_length [simp]:
  "r < length U \<Longrightarrow> length (erase_submatrix_values rows columns U ! r) = length (U ! r)"
  unfolding erase_submatrix_values_def
  by (induction rows arbitrary: U) simp_all

lemma erase_nth:
  assumes "r < length U" "c < length (U ! r)"
  shows "erase_submatrix_values rows columns U ! r ! c
         = (U ! r ! c \<and> \<not> (r \<in> set rows \<and> c \<in> set columns))"
  using assms unfolding erase_submatrix_values_def
proof (induction rows arbitrary: U)
  case Nil
  show ?case by simp
next
  case (Cons a rows)
  let ?U1 = "fold (\<lambda>column U. set2 U a column False) columns U"
  have "fold (\<lambda>row U. fold (\<lambda>column U. set2 U row column False) columns U) (a # rows) U ! r ! c
        = (?U1 ! r ! c \<and> \<not> (r \<in> set rows \<and> c \<in> set columns))"
    unfolding fold_simps by (rule Cons.IH) (simp_all add: Cons.prems)
  also have "?U1 ! r ! c = (U ! r ! c \<and> \<not> (r = a \<and> c \<in> set columns))"
    by (rule erase_inner_nth) (simp_all add: Cons.prems)
  finally show ?case by auto
qed

lemma rect_erase: "rect U n m \<Longrightarrow> rect (erase_submatrix_values rows columns U) n m"
  by (simp add: rect_def list_all_length)

lemma count_row_card: "length (filter (\<lambda>b. b) xs) = card {i. i < length xs \<and> xs ! i}"
  by (simp add: length_filter_conv_card)

lemma count_nonzero_sum:
  "count_nonzero U = (\<Sum>r < length U. card {c. c < length (U ! r) \<and> U ! r ! c})"
proof -
  have "count_nonzero U = (\<Sum>r < length U. length (filter (\<lambda>b. b) (U ! r)))"
    by (simp add: count_nonzero_def sum_list_sum_nth atLeast0LessThan)
  then show ?thesis by (simp add: count_row_card)
qed

lemma count_nonzero_mono:
  assumes "length U' = length U"
    and "\<And>r. r < length U \<Longrightarrow> length (U' ! r) = length (U ! r)"
    and "\<And>r c. r < length U \<Longrightarrow> c < length (U ! r) \<Longrightarrow> U' ! r ! c \<Longrightarrow> U ! r ! c"
  shows "count_nonzero U' \<le> count_nonzero U"
  unfolding count_nonzero_sum assms(1)
  by (rule sum_mono, rule card_mono) (use assms in auto)

lemma count_nonzero_less:
  assumes "length U' = length U"
    and "\<And>r. r < length U \<Longrightarrow> length (U' ! r) = length (U ! r)"
    and "\<And>r c. r < length U \<Longrightarrow> c < length (U ! r) \<Longrightarrow> U' ! r ! c \<Longrightarrow> U ! r ! c"
    and "r0 < length U" "c0 < length (U ! r0)" "U ! r0 ! c0" "\<not> U' ! r0 ! c0"
  shows "count_nonzero U' < count_nonzero U"
  unfolding count_nonzero_sum assms(1)
proof (rule sum_strict_mono_ex1)
  show "finite {..<length U}" by simp
  show "\<forall>r \<in> {..<length U}. card {c. c < length (U' ! r) \<and> U' ! r ! c}
                              \<le> card {c. c < length (U ! r) \<and> U ! r ! c}"
    by (intro ballI card_mono) (use assms in auto)
  have "card {c. c < length (U' ! r0) \<and> U' ! r0 ! c} < card {c. c < length (U ! r0) \<and> U ! r0 ! c}"
    by (rule psubset_card_mono) (use assms in auto)
  with assms(4) show "\<exists>r \<in> {..<length U}. card {c. c < length (U' ! r) \<and> U' ! r ! c}
                              < card {c. c < length (U ! r) \<and> U ! r ! c}"
    by auto
qed

lemma count_nonzero_pos_iff:
  "0 < count_nonzero U \<longleftrightarrow> (\<exists>r < length U. \<exists>c < length (U ! r). U ! r ! c)"
proof -
  have "count_nonzero U = 0 \<longleftrightarrow> (\<forall>r < length U. \<forall>c < length (U ! r). \<not> U ! r ! c)"
    by (auto simp: count_nonzero_sum)
  then show ?thesis by auto
qed


section \<open>GreConD: the search for the next concept\<close>

lemma grecond_candidate_from:
  "from_candidate M MT U (fst (grecond_candidate M MT U D j)) (snd (grecond_candidate M MT U D j))"
  unfolding from_candidate_def grecond_candidate_def Let_def
  by (intro exI [of _ "D @ [j]"]) simp

lemma grecond_best_fold_inv:
  assumes "(bv = 0 \<and> bi = None) \<or> (0 < bv \<and> (\<exists>d. bi = Some d \<and> from_candidate M MT U d bv))"
    and "fold (\<lambda>j (best_D_u_j_closed_intent, best_D_u_j_V).
             let (D_u_j_closed_intent, D_u_j_V) = grecond_candidate M MT U D j
             in if D_u_j_V > best_D_u_j_V then (Some D_u_j_closed_intent, D_u_j_V)
                else (best_D_u_j_closed_intent, best_D_u_j_V)) js (bi, bv) = (bi', bv')"
  shows "((bv' = 0 \<and> bi' = None) \<or> (0 < bv' \<and> (\<exists>d. bi' = Some d \<and> from_candidate M MT U d bv')))
         \<and> bv \<le> bv' \<and> (\<forall>j \<in> set js. snd (grecond_candidate M MT U D j) \<le> bv')"
  using assms
proof (induction js arbitrary: bi bv)
  case Nil
  then show ?case by simp
next
  case (Cons j js)
  obtain d v where c: "grecond_candidate M MT U D j = (d, v)" by (cases "grecond_candidate M MT U D j")
  have fc: "from_candidate M MT U d v"
    using grecond_candidate_from [of M MT U D j] c by simp
  show ?case
  proof (cases "v > bv")
    case True
    with Cons.prems(2) c
    have f: "fold (\<lambda>j (best_D_u_j_closed_intent, best_D_u_j_V).
             let (D_u_j_closed_intent, D_u_j_V) = grecond_candidate M MT U D j
             in if D_u_j_V > best_D_u_j_V then (Some D_u_j_closed_intent, D_u_j_V)
                else (best_D_u_j_closed_intent, best_D_u_j_V)) js (Some d, v) = (bi', bv')"
      by simp
    have "(v = 0 \<and> Some d = None) \<or> (0 < v \<and> (\<exists>d'. Some d = Some d' \<and> from_candidate M MT U d' v))"
      using True fc by auto
    from Cons.IH [OF this f] True c show ?thesis by auto
  next
    case False
    with Cons.prems(2) c
    have f: "fold (\<lambda>j (best_D_u_j_closed_intent, best_D_u_j_V).
             let (D_u_j_closed_intent, D_u_j_V) = grecond_candidate M MT U D j
             in if D_u_j_V > best_D_u_j_V then (Some D_u_j_closed_intent, D_u_j_V)
                else (best_D_u_j_closed_intent, best_D_u_j_V)) js (bi, bv) = (bi', bv')"
      by simp
    from Cons.IH [OF Cons.prems(1) f] False c show ?thesis by auto
  qed
qed

lemma grecond_best_props:
  assumes "grecond_best M MT U js D = (bi, bv)"
  shows "(bv = 0 \<and> bi = None) \<or> (0 < bv \<and> (\<exists>d. bi = Some d \<and> from_candidate M MT U d bv))"
    and "\<forall>j \<in> set js. snd (grecond_candidate M MT U D j) \<le> bv"
  using grecond_best_fold_inv [of 0 None M MT U D js bi bv] assms
  unfolding grecond_best_def by simp_all

lemma grecond_search_props:
  assumes "V = 0 \<or> from_candidate M MT U D V"
    and "grecond_search M MT U js D V = (D', V')"
  shows "(V' = 0 \<or> from_candidate M MT U D' V') \<and> V \<le> V'
         \<and> snd (grecond_best M MT U js D) \<le> V'"
  using assms
proof (induction M MT U js D V rule: grecond_search.induct)
  case (1 M MT U js D V)
  obtain bi bv where b: "grecond_best M MT U js D = (bi, bv)"
    by (cases "grecond_best M MT U js D")
  note bp = grecond_best_props [OF b]
  show ?case
  proof (cases "bv > V")
    case True
    with bp(1) obtain d where d: "bi = Some d" "from_candidate M MT U d bv" by auto
    from "1.prems"(2) b True d
    have s: "grecond_search M MT U js d bv = (D', V')"
      by (simp add: grecond_search.simps [of M MT U js D V])
    have "(V' = 0 \<or> from_candidate M MT U D' V') \<and> bv \<le> V'
          \<and> snd (grecond_best M MT U js d) \<le> V'"
      by (rule "1.IH" [OF b [symmetric] True d(1)]) (use d s in auto)
    with True b show ?thesis by auto
  next
    case False
    with "1.prems"(2) b have "D' = D" "V' = V"
      by (simp_all add: grecond_search.simps [of M MT U js D V])
    with "1.prems"(1) False b show ?thesis by auto
  qed
qed


section \<open>GreConD: one pass of the outer loop\<close>

lemma covered_append:
  "covered (F @ [k]) r c \<longleftrightarrow> covered F r c \<or> (r \<in> set (extent k) \<and> c \<in> set (intent k))"
  by (auto simp: covered_def list_ex_iff)

lemma grecond_inv_init:
  assumes "rect M n m"
  shows "grecond_inv M n m M []"
  using assms by (simp add: grecond_inv_def covered_def)

lemma grecond_step:
  assumes M: "rect M n m" "0 < n" "0 < m"
    and inv: "grecond_inv M n m U F"
    and pos: "0 < count_nonzero U"
  shows "0 < snd (grecond_search M (transposed M) U
                    (filter (\<lambda>j. j \<notin> set ([] :: nat list)) [0..<ncols M]) [] 0)"
    and "grecond_inv M n m (grecond_next_U M U) (F @ [grecond_next_concept M U])"
    and "count_nonzero (grecond_next_U M U) < count_nonzero U"
proof -
  let ?MT = "transposed M"
  let ?js = "filter (\<lambda>j. j \<notin> set ([] :: nat list)) [0..<ncols M]"
  have nc: "ncols M = m" by (rule rect_ncols [OF M(1,2)])
  have lM: "length M = n" using M(1) by (simp add: rect_def)
  have lMT: "length ?MT = m" by (simp add: length_transposed nc)
  have tn: "\<And>c r. c < m \<Longrightarrow> r < n \<Longrightarrow> ?MT ! c ! r = M ! r ! c"
    by (simp add: transposed_nth nc lM)
  from inv have U: "rect U n m"
    and Ub: "\<And>r c. r < n \<Longrightarrow> c < m \<Longrightarrow> U ! r ! c \<longleftrightarrow> (M ! r ! c \<and> \<not> covered F r c)"
    and Fc: "\<And>k r c. k \<in> set F \<Longrightarrow> r \<in> set (extent k) \<Longrightarrow> c \<in> set (intent k)
               \<Longrightarrow> r < n \<and> c < m \<and> M ! r ! c"
    by (auto simp: grecond_inv_def)
  have lU: "length U = n" using U by (simp add: rect_def)
  have rU: "\<And>r. r < n \<Longrightarrow> length (U ! r) = m" using rect_row [OF U] .
  from pos obtain r0 c0 where rc0: "r0 < n" "c0 < m" "U ! r0 ! c0"
    by (auto simp: count_nonzero_pos_iff lU rU)
  then have M0: "M ! r0 ! c0" using Ub by simp
  \<comment> \<open>the candidate of column c0 from the empty intent has a positive value\<close>
  let ?ext0 = "galois_it M ([] @ [c0])"
  let ?int0 = "galois_it ?MT ?ext0"
  have r0e: "r0 \<in> set ?ext0" using rc0 M0 by (simp add: set_galois_it lM)
  have c0i: "c0 \<in> set ?int0"
    using rc0 by (auto simp: set_galois_it lMT lM tn)
  have "0 < submatrix_intersection_size ?ext0 ?int0 U"
    unfolding submatrix_intersection_size_pos_iff using r0e c0i rc0(3) by blast
  then have c0pos: "0 < snd (grecond_candidate M ?MT U [] c0)"
    by (simp add: grecond_candidate_def Let_def)
  have c0js: "c0 \<in> set ?js" using rc0(2) by (simp add: nc)
  obtain D V where s: "grecond_search M ?MT U ?js [] 0 = (D, V)"
    by (cases "grecond_search M ?MT U ?js [] 0")
  have sp: "(V = 0 \<or> from_candidate M ?MT U D V) \<and> 0 \<le> V \<and> snd (grecond_best M ?MT U ?js []) \<le> V"
    by (rule grecond_search_props [OF _ s]) simp
  obtain bi bv where b: "grecond_best M ?MT U ?js [] = (bi, bv)"
    by (cases "grecond_best M ?MT U ?js []")
  from grecond_best_props(2) [OF b] c0js have "snd (grecond_candidate M ?MT U [] c0) \<le> bv"
    by blast
  with c0pos sp b have Vpos: "0 < V" by simp
  with s show "0 < snd (grecond_search M ?MT U ?js [] 0)" by simp
  from sp Vpos obtain Dj where Dj: "D = galois_it ?MT (galois_it M Dj)"
      "V = submatrix_intersection_size (galois_it M Dj) D U"
    by (auto simp: from_candidate_def)
  let ?ext = "galois_it M Dj"
  let ?C = "galois_it M D"
  have nk: "grecond_next_concept M U = \<lparr>extent = ?C, intent = D\<rparr>"
    using s by (simp add: grecond_next_concept_def Let_def)
  have nU: "grecond_next_U M U = erase_submatrix_values ?C D U"
    by (simp add: grecond_next_U_def nk)
  have Dm: "\<And>c. c \<in> set D \<Longrightarrow> c < m"
    unfolding Dj(1) by (simp add: set_galois_it lMT)
  have Dall: "\<And>c r. c \<in> set D \<Longrightarrow> r \<in> set ?ext \<Longrightarrow> M ! r ! c"
  proof -
    fix c r assume c: "c \<in> set D" and r: "r \<in> set ?ext"
    from r have rn: "r < n" by (simp add: set_galois_it lM)
    from c r have "?MT ! c ! r" unfolding Dj(1) by (simp add: set_galois_it)
    with tn [OF Dm [OF c] rn] show "M ! r ! c" by simp
  qed
  have extC: "set ?ext \<subseteq> set ?C"
    using Dall by (auto simp: set_galois_it [of M D] set_galois_it [of M Dj])
  have Cn: "\<And>r. r \<in> set ?C \<Longrightarrow> r < n" by (simp add: set_galois_it lM)
  have CD: "\<And>r c. r \<in> set ?C \<Longrightarrow> c \<in> set D \<Longrightarrow> M ! r ! c" by (simp add: set_galois_it)
  from Vpos Dj(2) obtain r1 c1 where rc1: "r1 \<in> set ?ext" "c1 \<in> set D" "U ! r1 ! c1"
    by (auto simp: submatrix_intersection_size_pos_iff)
  have r1C: "r1 \<in> set ?C" using rc1(1) extC by blast
  have en: "\<And>r c. r < n \<Longrightarrow> c < m \<Longrightarrow>
              erase_submatrix_values ?C D U ! r ! c = (U ! r ! c \<and> \<not> (r \<in> set ?C \<and> c \<in> set D))"
    by (rule erase_nth) (simp_all add: lU rU)
  show "count_nonzero (grecond_next_U M U) < count_nonzero U"
    unfolding nU
  proof (rule count_nonzero_less [where ?r0.0 = r1 and ?c0.0 = c1])
    show "length (erase_submatrix_values ?C D U) = length U" by simp
    show "\<And>r. r < length U \<Longrightarrow> length (erase_submatrix_values ?C D U ! r) = length (U ! r)"
      by simp
    show "\<And>r c. r < length U \<Longrightarrow> c < length (U ! r) \<Longrightarrow> erase_submatrix_values ?C D U ! r ! c
            \<Longrightarrow> U ! r ! c"
      by (simp add: erase_nth)
    show "r1 < length U" using Cn [OF r1C] lU by simp
    show "c1 < length (U ! r1)" using Dm [OF rc1(2)] rU [OF Cn [OF r1C]] by simp
    show "U ! r1 ! c1" by (rule rc1(3))
    show "\<not> erase_submatrix_values ?C D U ! r1 ! c1"
      using en [OF Cn [OF r1C] Dm [OF rc1(2)]] r1C rc1(2) by simp
  qed
  show "grecond_inv M n m (grecond_next_U M U) (F @ [grecond_next_concept M U])"
    unfolding nU nk grecond_inv_def
  proof (intro conjI allI impI ballI)
    show "rect (erase_submatrix_values ?C D U) n m" by (rule rect_erase [OF U])
  next
    fix r c assume "r < n" "c < m"
    then show "erase_submatrix_values ?C D U ! r ! c
               \<longleftrightarrow> (M ! r ! c \<and> \<not> covered (F @ [\<lparr>extent = ?C, intent = D\<rparr>]) r c)"
      using en Ub by (auto simp: covered_append)
  next
    fix k r c
    assume k: "k \<in> set (F @ [\<lparr>extent = ?C, intent = D\<rparr>])"
      and r: "r \<in> set (extent k)" and c: "c \<in> set (intent k)"
    show "r < n" "c < m" "M ! r ! c"
      using k r c Fc Cn Dm CD by auto
  qed
qed


section \<open>GreConD: the outer loop returns\<close>

lemma grecond_loop_stop:
  "\<not> coverage > current_coverage \<Longrightarrow>
   grecond_loop M MT Y init coverage U F current_coverage = Some (Inr (F, current_coverage))"
  by (simp add: grecond_loop.simps)

lemma grecond_loop_zero:
  "coverage > current_coverage \<Longrightarrow>
   grecond_loop M MT Y 0 coverage U F current_coverage = Some (Inl ZeroDivisionError)"
  by (simp add: grecond_loop.simps)

lemma grecond_loop_continue:
  assumes "coverage > current_coverage" "init \<noteq> 0"
    and "0 < snd (grecond_search M (transposed M) U
                    (filter (\<lambda>j. j \<notin> set ([] :: nat list)) [0..<ncols M]) [] 0)"
  shows "grecond_loop M (transposed M) [0..<ncols M] init coverage U F current_coverage
         = grecond_loop M (transposed M) [0..<ncols M] init coverage (grecond_next_U M U)
             (F @ [grecond_next_concept M U])
             (1 - real (count_nonzero (grecond_next_U M U)) / real init)"
  using assms
  by (subst grecond_loop.simps)
     (auto simp: grecond_next_U_def grecond_next_concept_def Let_def split: prod.splits)

lemma grecond_inv_count_le:
  assumes "rect M n m" "grecond_inv M n m U F"
  shows "count_nonzero U \<le> count_nonzero M"
proof (rule count_nonzero_mono)
  from assms have U: "rect U n m" by (simp add: grecond_inv_def)
  from assms(1) U show "length U = length M" by (simp add: rect_def)
  fix r assume r: "r < length M"
  then have rn: "r < n" using assms(1) by (simp add: rect_def)
  show "length (U ! r) = length (M ! r)"
    using rect_row [OF U rn] rect_row [OF assms(1) rn] by simp
  fix c assume "c < length (M ! r)" "U ! r ! c"
  then show "M ! r ! c"
    using assms(2) rn rect_row [OF assms(1) rn] by (auto simp: grecond_inv_def)
qed

lemma coverage_gt_pos:
  assumes "coverage \<le> 1" "coverage > 1 - real k / real init"
  shows "0 < k"
proof (rule ccontr)
  assume "\<not> 0 < k"
  then have "k = 0" by simp
  with assms show False by simp
qed

lemma grecond_loop_total:
  assumes M: "rect M n m" "0 < n" "0 < m"
    and init: "init = count_nonzero M" "0 < init"
    and cov: "coverage \<le> 1"
    and inv: "grecond_inv M n m U F"
    and cc: "current_coverage = 1 - real (count_nonzero U) / real init"
  shows "\<exists>F' U'. grecond_loop M (transposed M) [0..<ncols M] init coverage U F current_coverage
                   = Some (Inr (F @ F', 1 - real (count_nonzero U') / real init))
               \<and> grecond_inv M n m U' (F @ F')
               \<and> count_nonzero U' \<le> count_nonzero U
               \<and> coverage \<le> 1 - real (count_nonzero U') / real init"
  using inv cc
proof (induction "count_nonzero U" arbitrary: U F current_coverage rule: less_induct)
  case less
  show ?case
  proof (cases "coverage > current_coverage")
    case False
    have "grecond_loop M (transposed M) [0..<ncols M] init coverage U F current_coverage
          = Some (Inr (F @ [], 1 - real (count_nonzero U) / real init))"
      using grecond_loop_stop [OF False] less.prems(2) by simp
    moreover have "grecond_inv M n m U (F @ [])" using less.prems(1) by simp
    moreover have "coverage \<le> 1 - real (count_nonzero U) / real init"
      using False less.prems(2) by simp
    ultimately show ?thesis by blast
  next
    case True
    have pos: "0 < count_nonzero U"
      using coverage_gt_pos [OF cov] True less.prems(2) by simp
    note st = grecond_step [OF M less.prems(1) pos]
    let ?U1 = "grecond_next_U M U" and ?k = "grecond_next_concept M U"
    have init0: "init \<noteq> 0" using init(2) by simp
    have cont: "grecond_loop M (transposed M) [0..<ncols M] init coverage U F current_coverage
         = grecond_loop M (transposed M) [0..<ncols M] init coverage ?U1 (F @ [?k])
             (1 - real (count_nonzero ?U1) / real init)"
      by (rule grecond_loop_continue [OF True init0 st(1)])
    from less.hyps [OF st(3) st(2) refl]
    obtain F' U' where r:
      "grecond_loop M (transposed M) [0..<ncols M] init coverage ?U1 (F @ [?k])
          (1 - real (count_nonzero ?U1) / real init)
       = Some (Inr ((F @ [?k]) @ F', 1 - real (count_nonzero U') / real init))"
      "grecond_inv M n m U' ((F @ [?k]) @ F')"
      "count_nonzero U' \<le> count_nonzero ?U1"
      "coverage \<le> 1 - real (count_nonzero U') / real init"
      by blast
    have "grecond_loop M (transposed M) [0..<ncols M] init coverage U F current_coverage
          = Some (Inr (F @ (?k # F'), 1 - real (count_nonzero U') / real init))"
      using cont r(1) by simp
    moreover have "grecond_inv M n m U' (F @ (?k # F'))" using r(2) by simp
    moreover have "count_nonzero U' \<le> count_nonzero U" using r(3) st(3) by simp
    ultimately show ?thesis using r(4) by blast
  qed
qed

lemma grecond_loop_mono:
  assumes M: "rect M n m" "0 < n" "0 < m"
    and init: "init = count_nonzero M" "0 < init"
    and cov: "c1 \<le> c2" "c2 \<le> 1"
    and inv: "grecond_inv M n m U F"
    and cc: "current_coverage = 1 - real (count_nonzero U) / real init"
  shows "\<exists>F1 a1 F2 a2.
           grecond_loop M (transposed M) [0..<ncols M] init c1 U F current_coverage
             = Some (Inr (F1, a1))
         \<and> grecond_loop M (transposed M) [0..<ncols M] init c2 U F current_coverage
             = Some (Inr (F1 @ F2, a2))
         \<and> a1 \<le> a2"
  using inv cc
proof (induction "count_nonzero U" arbitrary: U F current_coverage rule: less_induct)
  case less
  show ?case
  proof (cases "c1 > current_coverage")
    case False
    have 1: "grecond_loop M (transposed M) [0..<ncols M] init c1 U F current_coverage
             = Some (Inr (F, current_coverage))"
      by (rule grecond_loop_stop [OF False])
    from grecond_loop_total [OF M init cov(2) less.prems]
    obtain F' U' where 2:
      "grecond_loop M (transposed M) [0..<ncols M] init c2 U F current_coverage
       = Some (Inr (F @ F', 1 - real (count_nonzero U') / real init))"
      "count_nonzero U' \<le> count_nonzero U"
      by blast
    have "real (count_nonzero U') / real init \<le> real (count_nonzero U) / real init"
      using 2(2) init(2) by (simp add: divide_right_mono)
    then have "current_coverage \<le> 1 - real (count_nonzero U') / real init"
      using less.prems(2) by simp
    with 1 2(1) show ?thesis by blast
  next
    case True
    then have True2: "c2 > current_coverage" using cov(1) by simp
    have c1le: "c1 \<le> 1" using cov by simp
    have pos: "0 < count_nonzero U"
      using coverage_gt_pos [OF c1le] True less.prems(2) by simp
    note st = grecond_step [OF M less.prems(1) pos]
    have init0: "init \<noteq> 0" using init(2) by simp
    from less.hyps [OF st(3) st(2) refl]
    show ?thesis
      unfolding grecond_loop_continue [OF True init0 st(1)]
                grecond_loop_continue [OF True2 init0 st(1)] .
  qed
qed


section \<open>GreConD: the factor matrices\<close>

lemma col_mark_shape [simp]:
  "length (fold (\<lambda>item A. set2 A item k True) items A) = length A"
  "r < length A \<Longrightarrow> length (fold (\<lambda>item A. set2 A item k True) items A ! r) = length (A ! r)"
  by (induction items arbitrary: A) simp_all

lemma col_mark_nth:
  assumes "r < length A" "j < length (A ! r)"
  shows "fold (\<lambda>item A. set2 A item k True) items A ! r ! j
         = (A ! r ! j \<or> (j = k \<and> r \<in> set items))"
  using assms
proof (induction items arbitrary: A)
  case Nil
  show ?case by simp
next
  case (Cons a items)
  have "fold (\<lambda>item A. set2 A item k True) (a # items) A ! r ! j
        = (set2 A a k True ! r ! j \<or> (j = k \<and> r \<in> set items))"
    unfolding fold_simps by (rule Cons.IH) (simp_all add: Cons.prems)
  also have "set2 A a k True ! r ! j = (if r = a \<and> j = k then True else A ! r ! j)"
    by (rule set2_nth) (simp_all add: Cons.prems)
  finally show ?case by auto
qed

lemma row_mark_shape [simp]:
  "length (fold (\<lambda>item B. set2 B k item True) items B) = length B"
  "r < length B \<Longrightarrow> length (fold (\<lambda>item B. set2 B k item True) items B ! r) = length (B ! r)"
  by (induction items arbitrary: B) simp_all

lemma row_mark_nth:
  assumes "r < length B" "j < length (B ! r)"
  shows "fold (\<lambda>item B. set2 B k item True) items B ! r ! j
         = (B ! r ! j \<or> (r = k \<and> j \<in> set items))"
  using assms
proof (induction items arbitrary: B)
  case Nil
  show ?case by simp
next
  case (Cons a items)
  have "fold (\<lambda>item B. set2 B k item True) (a # items) B ! r ! j
        = (set2 B k a True ! r ! j \<or> (r = k \<and> j \<in> set items))"
    unfolding fold_simps by (rule Cons.IH) (simp_all add: Cons.prems)
  also have "set2 B k a True ! r ! j = (if r = k \<and> j = a then True else B ! r ! j)"
    by (rule set2_nth) (simp_all add: Cons.prems)
  finally show ?case by auto
qed

lemma mark_fold:
  "length (fst (fold mark_step ps (Af, Bf))) = length Af
   \<and> length (snd (fold mark_step ps (Af, Bf))) = length Bf
   \<and> (\<forall>r < length Af. length (fst (fold mark_step ps (Af, Bf)) ! r) = length (Af ! r)
        \<and> (\<forall>j < length (Af ! r). fst (fold mark_step ps (Af, Bf)) ! r ! j
              = (Af ! r ! j \<or> (\<exists>a. (j, a) \<in> set ps \<and> r \<in> set (extent a)))))
   \<and> (\<forall>r < length Bf. length (snd (fold mark_step ps (Af, Bf)) ! r) = length (Bf ! r)
        \<and> (\<forall>j < length (Bf ! r). snd (fold mark_step ps (Af, Bf)) ! r ! j
              = (Bf ! r ! j \<or> (\<exists>a. (r, a) \<in> set ps \<and> j \<in> set (intent a)))))"
proof (induction ps arbitrary: Af Bf)
  case Nil
  show ?case by simp
next
  case (Cons p ps)
  obtain k a where p: "p = (k, a)" by (cases p)
  let ?A1 = "fold (\<lambda>item Af. set2 Af item k True) (extent a) Af"
  let ?B1 = "fold (\<lambda>item Bf. set2 Bf k item True) (intent a) Bf"
  have step: "fold mark_step (p # ps) (Af, Bf) = fold mark_step ps (?A1, ?B1)"
    by (simp add: p mark_step_def)
  show ?case
    unfolding step
    using Cons.IH [of ?A1 ?B1]
    by (auto simp: col_mark_nth row_mark_nth p)
qed

lemma get_matrices_props:
  assumes "get_matrices F n m = (Af, Bf)"
  shows "length Af = n" "length Bf = length F"
    and "\<And>r. r < n \<Longrightarrow> length (Af ! r) = length F"
    and "\<And>k. k < length F \<Longrightarrow> length (Bf ! k) = m"
    and "\<And>r k. r < n \<Longrightarrow> k < length F \<Longrightarrow> Af ! r ! k = (r \<in> set (extent (F ! k)))"
    and "\<And>k c. k < length F \<Longrightarrow> c < m \<Longrightarrow> Bf ! k ! c = (c \<in> set (intent (F ! k)))"
proof -
  let ?A0 = "replicate n (replicate (length F) False)"
  let ?B0 = "replicate (length F) (replicate m False)"
  let ?ps = "zip [0..<length F] F"
  have g: "fold mark_step ?ps (?A0, ?B0) = (Af, Bf)"
    using assms by (simp add: get_matrices_def mark_step_def)
  note mf = mark_fold [of ?ps ?A0 ?B0, unfolded g]
  have ps: "\<And>k a. (k, a) \<in> set ?ps \<longleftrightarrow> (k < length F \<and> a = F ! k)"
  proof -
    fix k a
    show "(k, a) \<in> set ?ps \<longleftrightarrow> (k < length F \<and> a = F ! k)"
    proof
      assume "(k, a) \<in> set ?ps"
      then show "k < length F \<and> a = F ! k" by (auto simp: set_zip)
    next
      assume "k < length F \<and> a = F ! k"
      then have "k < length F" "a = F ! k" by simp_all
      then have "(k, a) = ?ps ! k" "k < length ?ps" by simp_all
      then show "(k, a) \<in> set ?ps" by (metis nth_mem)
    qed
  qed
  show "length Af = n" "length Bf = length F" using mf by simp_all
  show "\<And>r. r < n \<Longrightarrow> length (Af ! r) = length F" using mf by simp
  show "\<And>k. k < length F \<Longrightarrow> length (Bf ! k) = m" using mf by simp
  show "\<And>r k. r < n \<Longrightarrow> k < length F \<Longrightarrow> Af ! r ! k = (r \<in> set (extent (F ! k)))"
    using mf by (simp add: ps)
  show "\<And>k c. k < length F \<Longrightarrow> c < m \<Longrightarrow> Bf ! k ! c = (c \<in> set (intent (F ! k)))"
    using mf by (simp add: ps)
qed

lemma covered_nth: "covered F r c \<longleftrightarrow> (\<exists>k < length F. r \<in> set (extent (F ! k)) \<and> c \<in> set (intent (F ! k)))"
  by (auto simp: covered_def list_ex_length)

lemma matmul_factor_matrices:
  assumes g: "get_matrices F n m = (Af, Bf)" and F: "F \<noteq> []"
  shows "length (matmul Af Bf) = n"
    and "\<And>r. r < n \<Longrightarrow> length (matmul Af Bf ! r) = m"
    and "\<And>r c. r < n \<Longrightarrow> c < m \<Longrightarrow> matmul Af Bf ! r ! c = covered F r c"
proof -
  note gp = get_matrices_props [OF g]
  have "rect Bf (length F) m"
    using gp(2,4) by (simp add: rect_def list_all_length)
  moreover have "0 < length F" using F by simp
  ultimately have nc: "ncols Bf = m" by (rule rect_ncols)
  show "length (matmul Af Bf) = n" by (simp add: matmul_def gp(1))
  show "\<And>r. r < n \<Longrightarrow> length (matmul Af Bf ! r) = m"
    by (simp add: matmul_def gp(1) nc)
  show "\<And>r c. r < n \<Longrightarrow> c < m \<Longrightarrow> matmul Af Bf ! r ! c = covered F r c"
    using gp(5,6) by (auto simp: matmul_def gp(1,2) nc list_ex_iff covered_nth)
qed

lemma matmul_eq_matrix:
  assumes M: "rect M n m"
    and g: "get_matrices F n m = (Af, Bf)" and F: "F \<noteq> []"
    and cov: "\<And>r c. r < n \<Longrightarrow> c < m \<Longrightarrow> covered F r c = M ! r ! c"
  shows "matmul Af Bf = M"
proof (rule nth_equalityI)
  note mm = matmul_factor_matrices [OF g F]
  from M have lM: "length M = n" by (simp add: rect_def)
  show "length (matmul Af Bf) = length M" by (simp add: mm(1) lM)
  fix r assume "r < length (matmul Af Bf)"
  then have r: "r < n" by (simp add: mm(1))
  show "matmul Af Bf ! r = M ! r"
  proof (rule nth_equalityI)
    show "length (matmul Af Bf ! r) = length (M ! r)"
      by (simp add: mm(2) [OF r] rect_row [OF M r])
    fix c assume "c < length (matmul Af Bf ! r)"
    then have c: "c < m" by (simp add: mm(2) [OF r])
    show "matmul Af Bf ! r ! c = M ! r ! c"
      by (simp add: mm(3) [OF r c] cov [OF r c])
  qed
qed

lemma count_nonzero_all_false:
  "list_all (\<lambda>row. list_all (\<lambda>b. \<not> b) row) M \<Longrightarrow> count_nonzero M = 0"
  by (auto simp: count_nonzero_def list_all_iff filter_empty_conv)

lemma grecond_wellformed:
  assumes "list_all (\<lambda>row. length row = ncols M) M" "0 < length M * ncols M"
  shows "rect M (length M) (ncols M)" "0 < length M" "0 < ncols M"
  using assms by (simp_all add: rect_def)

lemma grecond_eq_loop:
  assumes "list_all (\<lambda>row. length row = ncols M) M" "0 < length M * ncols M"
    and "0 < coverage" "coverage \<le> 1"
  shows "grecond M coverage
         = grecond_loop M (transposed M) [0..<ncols M] (count_nonzero M) coverage M [] 0"
  using assms by (simp add: grecond_def Let_def)

section \<open>Claims about GreConD\<close>

text \<open>
  C5. For every non-empty binary matrix with at least one True cell, \<open>grecond\<close> with
  coverage 1 returns: it yields a list of concepts and the achieved coverage 1, the factor
  matrices that \<open>get_factor_matrices_from_concepts\<close> builds from that list exist, and
  their boolean product is the input matrix.
\<close>

theorem grecond_full_coverage_reconstructs:
  assumes "list_all (\<lambda>row. length row = ncols M) M" "0 < length M * ncols M"
    and "0 < count_nonzero M"
  shows "\<exists>F Af Bf. grecond M 1 = Some (Inr (F, 1))
           \<and> get_factor_matrices_from_concepts F (length M) (ncols M) = Inr (Af, Bf)
           \<and> matmul Af Bf = M"
proof -
  let ?n = "length M" and ?m = "ncols M" and ?init = "count_nonzero M"
  note wf = grecond_wellformed [OF assms(1,2)]
  have cc0: "(0::real) = 1 - real (count_nonzero M) / real ?init"
    using assms(3) by simp
  from grecond_loop_total [OF wf refl assms(3) order_refl grecond_inv_init [OF wf(1)] cc0]
  obtain F U' where r:
    "grecond_loop M (transposed M) [0..<?m] ?init 1 M [] 0
       = Some (Inr ([] @ F, 1 - real (count_nonzero U') / real ?init))"
    "grecond_inv M ?n ?m U' ([] @ F)"
    "(1::real) \<le> 1 - real (count_nonzero U') / real ?init"
    by blast
  from r(3) assms(3) have z: "count_nonzero U' = 0"
    by (simp add: field_simps)
  from r(2) have U': "rect U' ?n ?m"
    and Ub: "\<And>r c. r < ?n \<Longrightarrow> c < ?m \<Longrightarrow> U' ! r ! c \<longleftrightarrow> (M ! r ! c \<and> \<not> covered F r c)"
    and Fc: "\<And>k r c. k \<in> set F \<Longrightarrow> r \<in> set (extent k) \<Longrightarrow> c \<in> set (intent k) \<Longrightarrow> M ! r ! c"
    by (auto simp: grecond_inv_def)
  have nz: "\<And>r c. r < ?n \<Longrightarrow> c < ?m \<Longrightarrow> \<not> U' ! r ! c"
  proof -
    fix r c assume rc: "r < ?n" "c < ?m"
    from U' have "length U' = ?n" by (simp add: rect_def)
    moreover have "length (U' ! r) = ?m" by (rule rect_row [OF U' rc(1)])
    ultimately show "\<not> U' ! r ! c"
      using z rc count_nonzero_pos_iff [of U'] by auto
  qed
  have cov: "\<And>r c. r < ?n \<Longrightarrow> c < ?m \<Longrightarrow> covered F r c = M ! r ! c"
    using Ub nz Fc by (auto simp: covered_def list_ex_iff)
  from assms(3) obtain r0 c0 where "r0 < ?n" "c0 < length (M ! r0)" "M ! r0 ! c0"
    by (auto simp: count_nonzero_pos_iff)
  moreover from this have "c0 < ?m" using rect_row [OF wf(1)] by simp
  ultimately have "covered F r0 c0" using cov by simp
  then have Fne: "F \<noteq> []" by (auto simp: covered_def)
  obtain Af Bf where g: "get_matrices F ?n ?m = (Af, Bf)" by (cases "get_matrices F ?n ?m")
  have 1: "grecond M 1 = Some (Inr (F, 1))"
    using grecond_eq_loop [OF assms(1,2), of 1] r(1) z by simp
  have 2: "get_factor_matrices_from_concepts F ?n ?m = Inr (Af, Bf)"
    using Fne wf g by (simp add: get_factor_matrices_from_concepts_def)
  have 3: "matmul Af Bf = M" by (rule matmul_eq_matrix [OF wf(1) g Fne cov])
  from 1 2 3 show ?thesis by blast
qed

text \<open>
  The matrix of the specification: the run returns the two concepts
  \<open>([0, 1], [0, 1])\<close> and \<open>([1, 2], [1, 2])\<close>.
\<close>

theorem grecond_full_coverage_reconstructs_witness:
  "\<exists>F Af Bf. grecond [[True, True, False], [True, True, True], [False, True, True]] 1
                 = Some (Inr (F, 1))
     \<and> get_factor_matrices_from_concepts F 3 3 = Inr (Af, Bf)
     \<and> matmul Af Bf = [[True, True, False], [True, True, True], [False, True, True]]"
  using grecond_full_coverage_reconstructs
          [of "[[True, True, False], [True, True, True], [False, True, True]]"]
  by (simp add: ncols_def count_nonzero_def numeral_3_eq_3)

lemma grecond_example:
  "grecond [[True, True, False], [True, True, True], [False, True, True]] 1
   = Some (Inr ([\<lparr>extent = [0, 1], intent = [0, 1]\<rparr>, \<lparr>extent = [1, 2], intent = [1, 2]\<rparr>], 1))"
  by (simp add: grecond_def ncols_def count_nonzero_def grecond_loop.simps grecond_search.simps
        grecond_best_def grecond_candidate_def galois_it_def submatrix_intersection_size_def
        erase_submatrix_values_def set2_def transposed_def upt_rec Let_def)

lemma grecond_example_half:
  "grecond [[True, True, False], [True, True, True], [False, True, True]] (1 / 2)
   = Some (Inr ([\<lparr>extent = [0, 1], intent = [0, 1]\<rparr>], 4 / 7))"
  by (simp add: grecond_def ncols_def count_nonzero_def grecond_loop.simps grecond_search.simps
        grecond_best_def grecond_candidate_def galois_it_def submatrix_intersection_size_def
        erase_submatrix_values_def set2_def transposed_def upt_rec Let_def)

text \<open>
  C6. For every non-empty binary matrix with at least one True cell and all coverage targets
  \<open>0 < c1 \<le> c2 \<le> 1\<close>, both runs of \<open>grecond\<close> return; the run at \<open>c2\<close> returns at
  least as many concepts as the run at \<open>c1\<close> (the list of \<open>c1\<close> is a prefix of the list of
  \<open>c2\<close>) and its achieved coverage is at least as large.
\<close>

theorem grecond_coverage_monotone:
  assumes "list_all (\<lambda>row. length row = ncols M) M" "0 < length M * ncols M"
    and "0 < count_nonzero M"
    and "0 < c1" "c1 \<le> c2" "c2 \<le> 1"
  shows "\<exists>F1 a1 F2 a2. grecond M c1 = Some (Inr (F1, a1))
           \<and> grecond M c2 = Some (Inr (F2, a2))
           \<and> length F1 \<le> length F2 \<and> take (length F1) F2 = F1 \<and> a1 \<le> a2"
proof -
  note wf = grecond_wellformed [OF assms(1,2)]
  have cc0: "(0::real) = 1 - real (count_nonzero M) / real (count_nonzero M)"
    using assms(3) by simp
  from grecond_loop_mono [OF wf refl assms(3,5,6) grecond_inv_init [OF wf(1)] cc0]
  obtain F1 a1 F2 a2 where r:
    "grecond_loop M (transposed M) [0..<ncols M] (count_nonzero M) c1 M [] 0 = Some (Inr (F1, a1))"
    "grecond_loop M (transposed M) [0..<ncols M] (count_nonzero M) c2 M [] 0
       = Some (Inr (F1 @ F2, a2))"
    "a1 \<le> a2"
    by blast
  have c1: "c1 \<le> 1" and c2: "0 < c2" using assms(4,5,6) by simp_all
  have "grecond M c1 = Some (Inr (F1, a1))"
    using grecond_eq_loop [OF assms(1,2,4) c1] r(1) by simp
  moreover have "grecond M c2 = Some (Inr (F1 @ F2, a2))"
    using grecond_eq_loop [OF assms(1,2) c2 assms(6)] r(2) by simp
  ultimately show ?thesis using r(3) by force
qed

theorem grecond_coverage_monotone_witness:
  "\<exists>F1 a1 F2 a2.
     grecond [[True, True, False], [True, True, True], [False, True, True]] (1 / 2)
       = Some (Inr (F1, a1))
     \<and> grecond [[True, True, False], [True, True, True], [False, True, True]] 1
       = Some (Inr (F2, a2))
     \<and> length F1 \<le> length F2 \<and> take (length F1) F2 = F1 \<and> a1 \<le> a2"
  using grecond_coverage_monotone
          [of "[[True, True, False], [True, True, True], [False, True, True]]" "1 / 2" 1]
  by (simp add: ncols_def count_nonzero_def)

text \<open>
  C4, as the code has it. On a non-empty matrix without a True cell and a coverage in
  \<open>(0, 1]\<close>, \<open>grecond\<close> returns at once, and what it raises is the division by zero of
  the first statement of its loop, \<^verbatim>\<open>1 - np.count_nonzero(U) / initial_number_of_trues\<close>: no
  assertion looks at the number of True cells.
\<close>

theorem grecond_all_false_divides_by_zero:
  assumes "list_all (\<lambda>row. length row = ncols M) M" "0 < length M * ncols M"
    and "0 < coverage" "coverage \<le> 1"
    and "list_all (\<lambda>row. list_all (\<lambda>b. \<not> b) row) M"
  shows "grecond M coverage = Some (Inl ZeroDivisionError)"
  using grecond_eq_loop [OF assms(1-4)] count_nonzero_all_false [OF assms(5)] assms(3)
  by (simp add: grecond_loop_zero)

theorem grecond_all_false_divides_by_zero_witness:
  "grecond [[False, False], [False, False]] (1 / 2) = Some (Inl ZeroDivisionError)"
  using grecond_all_false_divides_by_zero [of "[[False, False], [False, False]]" "1 / 2"]
  by (simp add: ncols_def)

text \<open>
  C4, as stated, fails: on the matrix \<open>[[False]]\<close> the run ends with the division by zero
  and not with an assertion error.
\<close>

theorem grecond_all_false_no_precondition_error:
  "grecond [[False]] 1 = Some (Inl ZeroDivisionError)
   \<and> grecond [[False]] 1 \<noteq> Some (Inl AssertionError)"
  by (simp add: grecond_def ncols_def count_nonzero_def grecond_loop.simps)

end
